theory Spec2Isabelle
  imports Main "HOL-Library.Word"
begin

unbundle bit_operations_syntax

section \<open>The FUSB302 Type-C / USB-PD port controller (drivers/mfd/fusb302.c)\<close>

text \<open>
  A shallow embedding of the protocol core of \<^verbatim>\<open>drivers/mfd/fusb302.c\<close>: the event
  multiplexer (\<^verbatim>\<open>tcpc_alert\<close>, \<^verbatim>\<open>mux_alert\<close>), the receive decoder
  (\<^verbatim>\<open>tcpm_get_message\<close>), the message builders, the Auto-VDM engine, every state
  handler and the dispatching function \<^verbatim>\<open>state_machine_typec\<close>.

  The port context \<^verbatim>\<open>struct fusb30x_chip\<close> is a record that every function takes
  and returns. The register file behind \<^verbatim>\<open>regmap\<close>, the GPIOs and the hrtimers are
  not part of the record: a register, GPIO or timer write that changes no field of the port
  context leaves the record as it is, and every value the driver reads from the hardware
  during one run of the state machine is a field of the input record \<open>hw_in\<close> of that
  run. Three kinds of output are kept, in the log \<open>out\<close> of the record: the frames
  written to the transmit FIFO, the hard-reset command and the publications to the
  connector-state observer.
\<close>

subsection \<open>Constants of fusb302.c\<close>

type_synonym u8 = "8 word"
type_synonym u16 = "16 word"
type_synonym u32 = "32 word"

definition TYPEC_CC_VOLT_OPEN :: int where "TYPEC_CC_VOLT_OPEN = 0"
definition TYPEC_CC_VOLT_RA :: int where "TYPEC_CC_VOLT_RA = 1"
definition TYPEC_CC_VOLT_RD :: int where "TYPEC_CC_VOLT_RD = 2"
definition TYPEC_CC_VOLT_RP :: int where "TYPEC_CC_VOLT_RP = 3"

definition EVENT_CC :: u32 where "EVENT_CC = 1"
definition EVENT_RX :: u32 where "EVENT_RX = 2"
definition EVENT_TX :: u32 where "EVENT_TX = 4"
definition EVENT_REC_RESET :: u32 where "EVENT_REC_RESET = 8"
definition EVENT_WORK_CONTINUE :: u32 where "EVENT_WORK_CONTINUE = 32"
definition EVENT_TIMER_MUX :: u32 where "EVENT_TIMER_MUX = 64"
definition EVENT_TIMER_STATE :: u32 where "EVENT_TIMER_STATE = 128"
definition EVENT_DELAY_CC :: u32 where "EVENT_DELAY_CC = 256"
definition FLAG_EVENT :: u32 where
  "FLAG_EVENT = (EVENT_RX OR EVENT_TIMER_MUX OR EVENT_TIMER_STATE)"

definition MODE_DP_PIN_A :: u32 where "MODE_DP_PIN_A = 1"
definition MODE_DP_PIN_B :: u32 where "MODE_DP_PIN_B = 2"
definition MODE_DP_PIN_C :: u32 where "MODE_DP_PIN_C = 4"
definition MODE_DP_PIN_D :: u32 where "MODE_DP_PIN_D = 8"
definition MODE_DP_PIN_E :: u32 where "MODE_DP_PIN_E = 16"
definition MODE_DP_PIN_F :: u32 where "MODE_DP_PIN_F = 32"

definition MODE_DP_PIN_MF_MASK :: u32 where
  "MODE_DP_PIN_MF_MASK = (MODE_DP_PIN_B OR MODE_DP_PIN_D OR MODE_DP_PIN_F)"
definition MODE_DP_PIN_BR2_MASK :: u32 where
  "MODE_DP_PIN_BR2_MASK = (MODE_DP_PIN_A OR MODE_DP_PIN_B)"
definition MODE_DP_PIN_DP_MASK :: u32 where
  "MODE_DP_PIN_DP_MASK =
     (MODE_DP_PIN_C OR MODE_DP_PIN_D OR MODE_DP_PIN_E OR MODE_DP_PIN_F)"

definition PD_DP_PIN_CAPS :: "u32 \<Rightarrow> u32" where
  "PD_DP_PIN_CAPS x =
     (if (drop_bit 6 x) AND 1 \<noteq> 0 then (drop_bit 16 x) AND 0x3f
      else (drop_bit 8 x) AND 0x3f)"

definition PD_DP_SIGNAL_GEN2 :: "u32 \<Rightarrow> u32" where
  "PD_DP_SIGNAL_GEN2 x = (drop_bit 3 x) AND 1"

definition PD_VDO_DPSTS_MF_PREF :: "u32 \<Rightarrow> u32" where
  "PD_VDO_DPSTS_MF_PREF x = (drop_bit 4 x) AND 1"

subsection \<open>Declarations of fusb302.h\<close>

text \<open>
  The header \<^verbatim>\<open>fusb302.h\<close> is not among the sources. Its enumerations are datatypes
  with the enumerators the C file names. The wire format of USB-PD is fixed by the
  protocol, so the header accessors and the message type codes are definitions; the
  driver's own tuning constants (retry bounds, timer durations, the bits of
  \<^verbatim>\<open>cc_state\<close>, the FIFO tokens, the DisplayPort status accessors) are parameters,
  collected in the record \<open>hdr\<close> that every function below takes first.
\<close>

datatype connection_state =
    disabled | error_recovery | unattached
  | attach_wait_sink | attach_wait_source | attach_wait_audio_acc
  | attached_source | attached_sink | attached_audio_acc
  | attach_try_src | attach_try_snk
  | policy_src_startup | policy_src_send_caps | policy_src_discovery
  | policy_src_negotiate_cap | policy_src_cap_response
  | policy_src_transition_supply | policy_src_transition_default
  | policy_src_ready | policy_src_get_sink_caps
  | policy_src_send_softrst | policy_src_softrst | policy_src_send_hardrst
  | policy_snk_startup | policy_snk_discovery | policy_snk_wait_caps
  | policy_snk_evaluate_caps | policy_snk_select_cap
  | policy_snk_transition_sink | policy_snk_transition_default
  | policy_snk_ready
  | policy_snk_send_softrst | policy_snk_softrst | policy_snk_send_hardrst
  | policy_src_prs_evaluate | policy_src_prs_accept | policy_src_prs_reject
  | policy_src_prs_transition_to_off | policy_src_prs_assert_rd
  | policy_src_prs_source_off | policy_src_prs_send_swap
  | policy_snk_prs_evaluate | policy_snk_prs_accept | policy_snk_prs_reject
  | policy_snk_prs_send_swap | policy_snk_prs_transition_to_off
  | policy_snk_prs_assert_rp | policy_snk_prs_source_on
  | policy_vcs_ufp_evaluate_swap | policy_vcs_ufp_accept | policy_vcs_ufp_reject
  | policy_vcs_ufp_wait_for_dfp_vconn | policy_vcs_dfp_wait_for_ufp_vconn
  | policy_vcs_ufp_turn_off_vconn | policy_vcs_dfp_turn_off_vconn
  | policy_vcs_ufp_turn_on_vconn | policy_vcs_dfp_turn_on_vconn
  | policy_vcs_ufp_send_ps_rdy | policy_vcs_dfp_send_ps_rdy
  | policy_vcs_dfp_send_swap
  | policy_drs_ufp_evaluate | policy_drs_dfp_evaluate
  | policy_drs_dfp_accept | policy_drs_ufp_accept
  | policy_drs_dfp_reject | policy_drs_ufp_reject
  | policy_drs_dfp_change | policy_drs_ufp_change
  | policy_drs_ufp_send_swap | policy_drs_dfp_send_swap

text \<open>\<^verbatim>\<open>enum tx_state\<close>: the code tests \<^verbatim>\<open>case 0\<close> where it means \<open>tx_idle\<close>.\<close>

datatype tx_state = tx_idle | tx_busy | tx_failed | tx_success

datatype role_mode =
  ROLE_MODE_NONE | ROLE_MODE_DRP | ROLE_MODE_UFP | ROLE_MODE_DFP | ROLE_MODE_ASS

datatype typec_cc_polarity = TYPEC_POLARITY_CC1 | TYPEC_POLARITY_CC2

text \<open>\<^verbatim>\<open>enum CC_ORIENTATION\<close>; \<open>TYPEC_ORIENTATION_NONE\<close> is the value of a zeroed field.\<close>

datatype CC_ORIENTATION =
  TYPEC_ORIENTATION_NONE | TYPEC_ORIENTATION_CC1 | TYPEC_ORIENTATION_CC2


text \<open>
  \<^verbatim>\<open>is_DMT\<close> of \<^verbatim>\<open>set_mesg\<close> is only tested for being non-zero:
  \<open>DATAMESSAGE\<close> is the non-zero value.
\<close>

definition DATAMESSAGE :: bool where "DATAMESSAGE = True"
definition CONTROLMESSAGE :: bool where "CONTROLMESSAGE = False"

text \<open>
  Modelled from the spec: the layout of the 16-bit PD message header
  (\<^verbatim>\<open>PD_HEADER_CNT\<close>, \<^verbatim>\<open>PD_HEADER_TYPE\<close> of the missing header): object count in
  three bits and message type in four bits, at the positions where \<^verbatim>\<open>set_mesg\<close>
  of the C file packs them (count at bit 12, type at bit 0).
\<close>

definition PD_HEADER_CNT :: "u16 \<Rightarrow> u16" where
  "PD_HEADER_CNT h = (drop_bit 12 h) AND 7"

definition PD_HEADER_TYPE :: "u16 \<Rightarrow> u16" where
  "PD_HEADER_TYPE h = h AND 0xf"

definition PACKET_IS_CONTROL_MSG :: "u16 \<Rightarrow> u16 \<Rightarrow> bool" where
  "PACKET_IS_CONTROL_MSG header type =
     (PD_HEADER_CNT header = 0 \<and> PD_HEADER_TYPE header = type)"

definition PACKET_IS_DATA_MSG :: "u16 \<Rightarrow> u16 \<Rightarrow> bool" where
  "PACKET_IS_DATA_MSG header type =
     (PD_HEADER_CNT header \<noteq> 0 \<and> PD_HEADER_TYPE header = type)"

text \<open>
  Modelled from the spec: the message type codes of the missing header
  (\<^verbatim>\<open>enum CONTROL_MESSAGE_TYPE\<close>, \<^verbatim>\<open>enum DATA_MESSAGE_TYPE\<close>), which the
  specification binds to the USB-PD header layout: the control and data message codes of
  USB Power Delivery.
\<close>

definition CMT_GOODCRC :: u16 where "CMT_GOODCRC = 1"
definition CMT_ACCEPT :: u16 where "CMT_ACCEPT = 3"
definition CMT_REJECT :: u16 where "CMT_REJECT = 4"
definition CMT_PS_RDY :: u16 where "CMT_PS_RDY = 6"
definition CMT_GETSINKCAP :: u16 where "CMT_GETSINKCAP = 8"
definition CMT_DR_SWAP :: u16 where "CMT_DR_SWAP = 9"
definition CMT_PR_SWAP :: u16 where "CMT_PR_SWAP = 10"
definition CMT_VCONN_SWAP :: u16 where "CMT_VCONN_SWAP = 11"
definition CMT_WAIT :: u16 where "CMT_WAIT = 12"
definition CMT_SOFTRESET :: u16 where "CMT_SOFTRESET = 13"

definition DMT_SOURCECAPABILITIES :: u16 where "DMT_SOURCECAPABILITIES = 1"
definition DMT_REQUEST :: u16 where "DMT_REQUEST = 2"
definition DMT_SINKCAPABILITIES :: u16 where "DMT_SINKCAPABILITIES = 4"
definition DMT_VENDERDEFINED :: u16 where "DMT_VENDERDEFINED = 15"

text \<open>
  Modelled from the spec: the power and data role values of the missing header, as the
  role bits of the PD header that \<^verbatim>\<open>set_mesg\<close> packs (1 is source, 1 is DFP); the
  C file tests them for being non-zero.
\<close>

definition POWER_ROLE_SINK :: int where "POWER_ROLE_SINK = 0"
definition POWER_ROLE_SOURCE :: int where "POWER_ROLE_SOURCE = 1"
definition DATA_ROLE_UFP :: int where "DATA_ROLE_UFP = 0"
definition DATA_ROLE_DFP :: int where "DATA_ROLE_DFP = 1"

text \<open>
  Modelled from the spec: the structured VDM header accessors, command types and command
  codes of the missing header, at the positions where \<^verbatim>\<open>set_vdm_mesg\<close> of the C
  file packs them (structured bit 15, command type at bit 6, command in the low five
  bits), with the codes of the USB-PD and DisplayPort alternate mode specifications.
\<close>

definition GET_VDMHEAD_STRUCT_TYPE :: "u32 \<Rightarrow> u32" where
  "GET_VDMHEAD_STRUCT_TYPE h = (drop_bit 15 h) AND 1"
definition GET_VDMHEAD_CMD_TYPE :: "u32 \<Rightarrow> u32" where
  "GET_VDMHEAD_CMD_TYPE h = (drop_bit 6 h) AND 3"
definition GET_VDMHEAD_CMD :: "u32 \<Rightarrow> u32" where
  "GET_VDMHEAD_CMD h = h AND 0x1f"

definition VDM_TYPE_INIT :: u32 where "VDM_TYPE_INIT = 0"
definition VDM_TYPE_ACK :: u32 where "VDM_TYPE_ACK = 1"
definition VDM_TYPE_NACK :: u32 where "VDM_TYPE_NACK = 2"
definition VDM_TYPE_BUSY :: u32 where "VDM_TYPE_BUSY = 3"

definition VDM_DISCOVERY_ID :: u32 where "VDM_DISCOVERY_ID = 1"
definition VDM_DISCOVERY_SVIDS :: u32 where "VDM_DISCOVERY_SVIDS = 2"
definition VDM_DISCOVERY_MODES :: u32 where "VDM_DISCOVERY_MODES = 3"
definition VDM_ENTER_MODE :: u32 where "VDM_ENTER_MODE = 4"
definition VDM_EXIT_MODE :: u32 where "VDM_EXIT_MODE = 5"
definition VDM_ATTENTION :: u32 where "VDM_ATTENTION = 6"
definition VDM_DP_STATUS_UPDATE :: u32 where "VDM_DP_STATUS_UPDATE = 16"
definition VDM_DP_CONFIG :: u32 where "VDM_DP_CONFIG = 17"

text \<open>
  Modelled from the spec: the states of the Auto-VDM engine (an anonymous enumeration of
  the missing header), in the order the specification lists them, the terminal error
  state last. \<^verbatim>\<open>AUTO_VDM_HANDLE\<close> advances with \<^verbatim>\<open>vdm_state++\<close>.
\<close>

definition VDM_STATE_DISCOVERY_ID :: int where "VDM_STATE_DISCOVERY_ID = 0"
definition VDM_STATE_DISCOVERY_SVID :: int where "VDM_STATE_DISCOVERY_SVID = 1"
definition VDM_STATE_DISCOVERY_MODES :: int where "VDM_STATE_DISCOVERY_MODES = 2"
definition VDM_STATE_ENTER_MODE :: int where "VDM_STATE_ENTER_MODE = 3"
definition VDM_STATE_UPDATE_STATUS :: int where "VDM_STATE_UPDATE_STATUS = 4"
definition VDM_STATE_DP_CONFIG :: int where "VDM_STATE_DP_CONFIG = 5"
definition VDM_STATE_NOTIFY :: int where "VDM_STATE_NOTIFY = 6"
definition VDM_STATE_READY :: int where "VDM_STATE_READY = 7"
definition VDM_STATE_ERR :: int where "VDM_STATE_ERR = 8"

text \<open>
  Modelled from the spec: the accessors of a fixed-supply power data object
  (\<^verbatim>\<open>CAP_POWER_TYPE\<close>, \<^verbatim>\<open>CAP_FPDO_VOLTAGE\<close>, \<^verbatim>\<open>CAP_FPDO_CURRENT\<close> of the missing
  header), in the USB-PD layout: supply type in bits 31:30, voltage in units of 50 mV in
  bits 19:10, current in units of 10 mA in bits 9:0.
\<close>

definition CAP_POWER_TYPE :: "u32 \<Rightarrow> u32" where
  "CAP_POWER_TYPE pdo = (drop_bit 30 pdo) AND 3"
definition CAP_FPDO_VOLTAGE :: "u32 \<Rightarrow> u32" where
  "CAP_FPDO_VOLTAGE pdo = (drop_bit 10 pdo) AND 0x3ff"
definition CAP_FPDO_CURRENT :: "u32 \<Rightarrow> u32" where
  "CAP_FPDO_CURRENT pdo = pdo AND 0x3ff"

text \<open>The constants and macros of the missing header that are taken as parameters.\<close>

record hdr =
  N_DEBOUNCE_CNT :: int
  N_CAPS_COUNT :: int
  N_HARDRESET_COUNT :: int
  T_DISABLED :: int
  T_BMC_TIMEOUT :: int
  T_SENDER_RESPONSE :: int
  T_TYPEC_SEND_SOURCECAP :: int
  T_TYPEC_SINK_WAIT_CAP :: int
  T_SRC_TRANSITION :: int
  T_SRC_RECOVER :: int
  T_SRC_RECOVER_MAX :: int
  T_SRC_TURN_ON :: int
  T_NO_RESPONSE :: int
  T_PS_TRANSITION :: int
  T_PS_HARD_RESET_MAX :: int
  T_SAFE_0V :: int
  T_PD_SOURCE_ON :: int
  T_PD_SOURCE_OFF :: int
  T_PD_TRY_DRP :: int
  T_PD_VCONN_SRC_ON :: int
  T_PD_SWAP_SOURCE_START :: int
  CC_STATE_TOGSS_CC1 :: u8
  CC_STATE_TOGSS_CC2 :: u8
  CC_STATE_TOGSS_IS_UFP :: u8
  CC_STATE_TOGSS_IS_DFP :: u8
  CC_STATE_TOGSS_IS_ACC :: u8
  CC_STATE_TOGSS_ROLE :: u8
  FUSB_TKN_SYNC1 :: u8
  FUSB_TKN_SYNC2 :: u8
  FUSB_TKN_PACKSYM :: u8
  FUSB_TKN_JAMCRC :: u8
  FUSB_TKN_EOP :: u8
  FUSB_TKN_TXOFF :: u8
  FUSB_TKN_TXON :: u8
  CAP_VPDO_VOLTAGE :: "u32 \<Rightarrow> u32"
  CAP_VPDO_CURRENT :: "u32 \<Rightarrow> u32"
  GET_DP_STATUS :: "u32 \<Rightarrow> u32"
  GET_DP_STATUS_HPD :: "u32 \<Rightarrow> bool"

subsection \<open>The port context\<close>

text \<open>
  \<^verbatim>\<open>struct notify_info\<close>, the snapshot exposed to the observer, with the fields
  that \<^verbatim>\<open>fusb302.c\<close> uses (the structure is declared in the missing header).
\<close>

record notify_info =
  orientation :: CC_ORIENTATION
  power_role :: int
  data_role :: int
  is_cc_connected :: bool
  is_pd_connected :: bool
  is_enter_mode :: bool
  pin_assignment_support :: u32
  pin_assignment_def :: u32
  attention :: bool
  dp_status :: u32
  dp_caps :: u32

text \<open>\<^verbatim>\<open>memset(&chip->notify, 0, sizeof(struct notify_info))\<close>.\<close>

definition notify_zero :: notify_info where
  "notify_zero =
     \<lparr>orientation = TYPEC_ORIENTATION_NONE, power_role = 0, data_role = 0,
      is_cc_connected = False, is_pd_connected = False, is_enter_mode = False,
      pin_assignment_support = 0, pin_assignment_def = 0, attention = False,
      dp_status = 0, dp_caps = 0\<rparr>"

record PD_CAP_INFO =
  peak_current :: u32
  externally_powered :: u32
  usb_suspend_support :: u32
  usb_communications_cap :: u32
  dual_role_power :: u32
  data_role_swap :: u32
  supply_type :: u32

text \<open>
  What one publication hands to the observer: the snapshot, and the connector states
  that \<^verbatim>\<open>platform_fusb_notify\<close> derives from it for the extcon device.
\<close>

record publication =
  pub_snapshot :: notify_info
  pub_flip :: bool
  pub_usb_ss :: bool
  pub_ufp :: bool
  pub_dfp :: bool
  pub_dp :: bool
  pub_fast_charge :: "int option"

datatype hw_out =
    FIFO_WRITE "u8 list"
  | SEND_HARDRESET
  | PUBLISH publication

text \<open>
  \<^verbatim>\<open>struct fusb30x_chip\<close>. \<open>alert_retry\<close> is the function-static variable
  \<^verbatim>\<open>retry\<close> of \<^verbatim>\<open>tcpc_alert\<close>; \<open>out\<close> is the log of outputs, latest first.
  The fields that only the register, GPIO and probe code uses are left out. Arrays are
  lists (\<^verbatim>\<open>u32[7]\<close> for the data objects, \<^verbatim>\<open>u16[12]\<close> for the SVIDs).
  The structure is declared in the missing header; the fields are the ones
  \<^verbatim>\<open>fusb302.c\<close> reads and writes, typed as their uses there suggest: counters,
  timers and indices as \<open>int\<close>, headers, data objects and event masks as words. The
  message id \<open>msg_id\<close> is a 32-bit word, of which \<^verbatim>\<open>set_mesg\<close> puts the low three
  bits into the header.
\<close>

record chip =
  conn_state :: connection_state
  sub_state :: int
  val_tmp :: u8
  work_continue :: u32
  timer_state :: int
  timer_mux :: int
  cc_state :: u8
  cc1 :: int
  cc2 :: int
  cc_polarity :: typec_cc_polarity
  debounce_cnt :: u8
  caps_counter :: int
  send_load :: "u32 list"
  rec_load :: "u32 list"
  send_head :: u16
  rec_head :: u16
  msg_id :: u32
  tx_state :: tx_state
  hardrst_count :: int
  source_power_supply :: "u32 list"
  source_max_current :: "u32 list"
  pos_power :: int
  partner_cap :: "u32 list"
  n_caps_used :: int
  vdm_state :: int
  vdm_substate :: int
  vdm_send_state :: int
  vdm_svid :: "u16 list"
  vdm_svid_num :: int
  vdm_id :: u32
  vconn_enabled :: bool
  is_pd_support :: bool
  pd_output_vol :: int
  pd_output_cur :: int
  vbus_begin :: bool
  role :: role_mode
  try_role :: role_mode
  vconn_supported :: bool
  try_role_complete :: bool
  notify :: notify_info
  notify_cmp :: notify_info
  pd_cap_info :: PD_CAP_INFO
  alert_retry :: int
  out :: "hw_out list"

text \<open>
  What the hardware shows during one run of the state machine: the bits of the three
  interrupt registers that \<^verbatim>\<open>tcpc_alert\<close> tests, the comparator bit and the toggle
  status it reads, the bytes of the receive FIFO, the CC measurement and the VBUS level
  seen by the detach check and by the state handler, and the limits of the charger
  (\<open>None\<close> when there is no charger device).
\<close>

record hw_in =
  i_comp_chng :: bool
  i_vbusok :: bool
  ia_togdone :: bool
  ia_txsent :: bool
  ia_hardrst :: bool
  ia_retryfail :: bool
  ia_hardsent :: bool
  ib_gcrcsent :: bool
  status0_comp :: bool
  status1a :: u32
  fifo :: "u8 list"
  detach_cc :: "int \<times> int"
  detach_vbus :: bool
  state_cc :: "int \<times> int"
  state_vbus :: bool
  charger :: "(int \<times> int) option"


subsection \<open>Array access and byte order\<close>

text \<open>
  An array read or write outside the array is undefined in C. The model reads 0 and writes
  nothing there; no theorem below rests on such an access.
\<close>

definition load_at :: "'a::zero list \<Rightarrow> int \<Rightarrow> 'a" where
  "load_at xs i = (if 0 \<le> i \<and> nat i < length xs then xs ! nat i else 0)"

definition store_at :: "'a list \<Rightarrow> int \<Rightarrow> 'a \<Rightarrow> 'a list" where
  "store_at xs i v = (if 0 \<le> i \<and> nat i < length xs then xs[nat i := v] else xs)"

text \<open>
  \<^verbatim>\<open>memcpy\<close> between the byte buffers and the \<^verbatim>\<open>u32\<close> arrays: the driver runs
  on a little-endian CPU, so a data object is its four bytes, lowest first.
\<close>

definition le32 :: "u8 \<Rightarrow> u8 \<Rightarrow> u8 \<Rightarrow> u8 \<Rightarrow> u32" where
  "le32 a b c d =
     (ucast a OR push_bit 8 (ucast b) OR push_bit 16 (ucast c) OR push_bit 24 (ucast d))"

fun le_words :: "u8 list \<Rightarrow> u32 list" where
  "le_words (a # b # c # d # r) = le32 a b c d # le_words r"
| "le_words r = []"

fun le_bytes :: "u32 list \<Rightarrow> u8 list" where
  "le_bytes [] = []"
| "le_bytes (w # ws) =
     ucast w # ucast (drop_bit 8 w) # ucast (drop_bit 16 w) # ucast (drop_bit 24 w)
       # le_bytes ws"

subsection \<open>Notification, state change, receive decoding\<close>

definition fusb_set_pos_power_step :: "hdr \<Rightarrow> int \<Rightarrow> int \<Rightarrow> nat \<Rightarrow> chip \<Rightarrow> chip \<times> bool" where
  "fusb_set_pos_power_step K max_vol max_cur i c =
     (let pdo = load_at (rec_load c) (int i) in
      if CAP_POWER_TYPE pdo = 0 then
        (if CAP_FPDO_VOLTAGE pdo * 50 \<le> word_of_int max_vol \<and>
            CAP_FPDO_CURRENT pdo * 10 \<le> word_of_int max_cur
         then (c\<lparr>pos_power := int i + 1,
                  pd_output_vol := uint (CAP_FPDO_VOLTAGE pdo) * 50,
                  pd_output_cur := uint (CAP_FPDO_CURRENT pdo) * 10\<rparr>, True)
         else (c, False))
      else if CAP_POWER_TYPE pdo = 1 then
        (if CAP_VPDO_VOLTAGE K pdo * 50 \<le> word_of_int max_vol \<and>
            CAP_VPDO_CURRENT K pdo * 10 \<le> word_of_int max_cur
         then (c\<lparr>pos_power := int i + 1,
                  pd_output_vol := uint (CAP_VPDO_VOLTAGE K pdo) * 50,
                  pd_output_cur := uint (CAP_VPDO_CURRENT K pdo) * 10\<rparr>, True)
         else (c, False))
      else (c, False))"

text \<open>The loop of \<^verbatim>\<open>fusb_set_pos_power\<close>, from index \<open>n - 1\<close> down to 0.\<close>

fun fusb_set_pos_power_loop :: "hdr \<Rightarrow> int \<Rightarrow> int \<Rightarrow> nat \<Rightarrow> chip \<Rightarrow> chip" where
  "fusb_set_pos_power_loop K max_vol max_cur 0 c = c"
| "fusb_set_pos_power_loop K max_vol max_cur (Suc i) c =
     (case fusb_set_pos_power_step K max_vol max_cur i c of
        (c', pos_find) \<Rightarrow>
          if pos_find then c' else fusb_set_pos_power_loop K max_vol max_cur i c')"

definition fusb_set_pos_power :: "hdr \<Rightarrow> chip \<Rightarrow> int \<Rightarrow> int \<Rightarrow> chip" where
  "fusb_set_pos_power K c max_vol max_cur =
     fusb_set_pos_power_loop K max_vol max_cur (unat (PD_HEADER_CNT (rec_head c))) c"

text \<open>
  \<^verbatim>\<open>fusb302_set_pos_power_by_charge_ic\<close>: \<open>charger hw\<close> is \<open>None\<close> when there is
  no charger device, else the limits \<^verbatim>\<open>max_vol\<close> and \<^verbatim>\<open>max_cur\<close> after the two
  property reads (0 for a read that fails).
\<close>

definition fusb302_set_pos_power_by_charge_ic :: "hdr \<Rightarrow> hw_in \<Rightarrow> chip \<Rightarrow> chip" where
  "fusb302_set_pos_power_by_charge_ic K hw c =
     (case charger hw of
        None \<Rightarrow> c
      | Some (max_vol, max_cur) \<Rightarrow>
          if max_vol > 0 \<and> max_cur > 0 then fusb_set_pos_power K c max_vol max_cur else c)"

text \<open>
  \<^verbatim>\<open>platform_fusb_notify\<close>. \<^verbatim>\<open>memcmp\<close> compares the bytes of the two structures;
  both are only ever zeroed as a whole, assigned field by field or copied as a whole, so
  their bytes are equal exactly when their fields are, and the comparison is equality of
  the two records.
\<close>

definition platform_fusb_notify :: "hdr \<Rightarrow> chip \<Rightarrow> chip" where
  "platform_fusb_notify K c =
     (let n1 = (if is_cc_connected (notify c)
                then (notify c)\<lparr>orientation :=
                       (if cc_polarity c = TYPEC_POLARITY_CC1
                        then TYPEC_ORIENTATION_CC1 else TYPEC_ORIENTATION_CC2)\<rparr>
                else notify c)
      in
      if n1 \<noteq> notify_cmp c then
        (let n2 = n1\<lparr>attention := False\<rparr>;
             plugged = (is_cc_connected n2 \<or> is_pd_connected n2);
             flip = (if orientation n2 \<noteq> TYPEC_ORIENTATION_NONE
                     then (if orientation n2 = TYPEC_ORIENTATION_CC1 then False else True)
                     else False);
             dp = is_enter_mode n2;
             dfp = (if dp then True else if data_role n2 \<noteq> 0 then True else False);
             usb_ss = (if dp then (pin_assignment_def n2 AND MODE_DP_PIN_MF_MASK \<noteq> 0)
                       else if data_role n2 \<noteq> 0 then True
                       else if plugged then True else False);
             hpd = (if dp then GET_DP_STATUS_HPD K (dp_status n2) else False);
             ufp = (if dp then False else if data_role n2 \<noteq> 0 then False
                    else if plugged then True else False);
             fast = (if power_role n2 = POWER_ROLE_SINK \<and> is_pd_connected n2 \<and>
                        pd_output_vol c > 0 \<and> pd_output_cur c > 0
                     then Some (push_bit 15 (pd_output_cur c) OR pd_output_vol c)
                     else None)
         in c\<lparr>notify := n2, notify_cmp := n2,
              out := PUBLISH \<lparr>pub_snapshot = n2, pub_flip = flip, pub_usb_ss = usb_ss,
                               pub_ufp = ufp, pub_dfp = dfp, pub_dp = (dp \<and> hpd),
                               pub_fast_charge = fast\<rparr> # out c\<rparr>)
      else c\<lparr>notify := n1\<rparr>)"

definition set_state :: "chip \<Rightarrow> connection_state \<Rightarrow> chip" where
  "set_state c state =
     c\<lparr>conn_state := state, sub_state := 0, val_tmp := 0,
       work_continue := work_continue c OR EVENT_WORK_CONTINUE\<rparr>"

text \<open>
  \<^verbatim>\<open>regmap_raw_read\<close> of \<open>n\<close> bytes from the receive FIFO takes them off its
  front. Past the end of the bytes supplied, the model reads zero bytes.
\<close>

definition fifo_read :: "nat \<Rightarrow> u8 list \<Rightarrow> u8 list \<times> u8 list" where
  "fifo_read n f = (take n f @ replicate (n - length f) 0, drop n f)"

definition fifo_head :: "u8 list \<Rightarrow> u16" where
  "fifo_head buf =
     ((ucast (buf ! 1) AND 0xff) OR (push_bit 8 (ucast (buf ! 2)) AND 0xff00))"

text \<open>
  The \<^verbatim>\<open>do ... while\<close> loop of \<^verbatim>\<open>tcpm_get_message\<close>: the header of the last
  frame read, the buffer of its second read, the rest of the FIFO.
\<close>

function tcpm_get_message_loop :: "u8 list \<Rightarrow> u16 \<times> u8 list \<times> u8 list" where
  "tcpm_get_message_loop f =
     (let head = fifo_head (fst (fifo_read 3 f));
          len = unat (PD_HEADER_CNT head) * 4;
          r = fifo_read (len + 4) (snd (fifo_read 3 f))
      in if PACKET_IS_CONTROL_MSG head CMT_GOODCRC
         then tcpm_get_message_loop (snd r)
         else (head, fst r, snd r))"
  by pat_completeness auto

termination
proof (relation "measure length", goal_cases)
  case 1
  show ?case by simp
next
  case (2 f head len r)
  have "f \<noteq> []"
  proof
    assume "f = []"
    with 2 show False
      by (simp add: fifo_read_def fifo_head_def numeral_3_eq_3 PACKET_IS_CONTROL_MSG_def
          PD_HEADER_TYPE_def CMT_GOODCRC_def)
  qed
  with 2 show ?case by (simp add: fifo_read_def)
qed

text \<open>
  \<^verbatim>\<open>tcpm_get_message\<close>, given the bytes of the receive FIFO: the port context with
  the decoded header and data objects, and the bytes left in the FIFO.
\<close>

definition tcpm_get_message :: "chip \<Rightarrow> u8 list \<Rightarrow> chip \<times> u8 list" where
  "tcpm_get_message c f =
     (case tcpm_get_message_loop f of
        (head, buf, rest) \<Rightarrow>
          (let len = unat (PD_HEADER_CNT head) * 4 in
           (c\<lparr>rec_head := head,
               rec_load := le_words (take len buf) @ drop (len div 4) (rec_load c)\<rparr>,
            rest)))"

subsection \<open>Event sources\<close>

definition CC_STATE_ROLE :: "hdr \<Rightarrow> chip \<Rightarrow> u8" where
  "CC_STATE_ROLE K c = (cc_state c AND CC_STATE_TOGSS_ROLE K)"

definition tcpm_set_polarity :: "chip \<Rightarrow> typec_cc_polarity \<Rightarrow> chip" where
  "tcpm_set_polarity c polarity = c\<lparr>cc_polarity := polarity\<rparr>"

definition tcpm_set_vconn :: "chip \<Rightarrow> bool \<Rightarrow> chip" where
  "tcpm_set_vconn c enable = c\<lparr>vconn_enabled := enable\<rparr>"

definition tcpm_init :: "chip \<Rightarrow> chip" where
  "tcpm_init c =
     tcpm_set_vconn
       (c\<lparr>notify := (notify c)\<lparr>is_cc_connected := False\<rparr>, cc_state := 0\<rparr>) False"

definition pd_execute_hard_reset :: "chip \<Rightarrow> chip" where
  "pd_execute_hard_reset c =
     (let c1 = c\<lparr>msg_id := 0, vdm_state := VDM_STATE_DISCOVERY_ID\<rparr> in
      if power_role (notify c1) \<noteq> 0
      then set_state c1 policy_src_transition_default
      else set_state c1 policy_snk_transition_default)"

definition set_cc_state :: "hdr \<Rightarrow> u32 \<Rightarrow> u8" where
  "set_cc_state K reg =
     (let r = (ucast (drop_bit 3 reg) :: u8) in
      if r AND CC_STATE_TOGSS_IS_UFP K \<noteq> 0 then
        (if r AND 3 = 3 then CC_STATE_TOGSS_IS_ACC K OR 3
         else CC_STATE_TOGSS_IS_UFP K OR (r AND 3))
      else CC_STATE_TOGSS_IS_DFP K OR (r AND 3))"

definition tcpc_alert :: "hdr \<Rightarrow> hw_in \<Rightarrow> chip \<Rightarrow> u32 \<Rightarrow> chip \<times> u32" where
  "tcpc_alert K hw c evt =
     (let evt1 = (if i_comp_chng hw \<and> CC_STATE_ROLE K c \<noteq> CC_STATE_TOGSS_IS_UFP K
                  then (if status0_comp hw then evt OR EVENT_CC else evt)
                  else evt);
          evt2 = (if i_vbusok hw
                  then (if is_cc_connected (notify c) then evt1 OR EVENT_CC else evt1)
                  else evt1);
          c3 = (if ia_togdone hw then c\<lparr>cc_state := set_cc_state K (status1a hw)\<rparr> else c);
          evt3 = (if ia_togdone hw then evt2 OR EVENT_CC else evt2);
          c4 = (if ia_txsent hw then c3\<lparr>tx_state := tx_success\<rparr> else c3);
          evt4 = (if ia_txsent hw then evt3 OR EVENT_TX else evt3);
          evt5 = (if ib_gcrcsent hw then evt4 OR EVENT_RX else evt4);
          c6 = (if ia_hardrst hw then pd_execute_hard_reset c4 else c4);
          evt6 = (if ia_hardrst hw then evt5 OR EVENT_REC_RESET else evt5);
          c7 = (if ia_retryfail hw then c6\<lparr>tx_state := tx_failed\<rparr> else c6);
          evt7 = (if ia_retryfail hw then evt6 OR EVENT_TX else evt6)
      in
      if ia_hardsent hw then
        (if alert_retry c7 = 0
         then (pd_execute_hard_reset (c7\<lparr>alert_retry := 1\<rparr>), evt7)
         else (c7\<lparr>alert_retry := 0, tx_state := tx_success, timer_state := T_DISABLED K\<rparr>,
               evt7 OR EVENT_TX))
      else (c7, evt7))"

definition mux_alert :: "hdr \<Rightarrow> chip \<Rightarrow> u32 \<Rightarrow> chip \<times> u32" where
  "mux_alert K c evt =
     (let c1 = (if timer_mux c = 0 then c\<lparr>timer_mux := T_DISABLED K\<rparr> else c);
          evt1 = (if timer_mux c = 0 then evt OR EVENT_TIMER_MUX else evt);
          c2 = (if timer_state c1 = 0 then c1\<lparr>timer_state := T_DISABLED K\<rparr> else c1);
          evt2 = (if timer_state c1 = 0 then evt1 OR EVENT_TIMER_STATE else evt1)
      in
      if work_continue c2 \<noteq> 0
      then (c2\<lparr>work_continue := 0\<rparr>, evt2 OR work_continue c2)
      else (c2, evt2))"

text \<open>
  \<^verbatim>\<open>fusb_timer_handler\<close> for the state timer and for the mux timer of the port: an
  expiry zeroes the countdown unless it is disabled.
\<close>

definition fusb_timer_handler_state :: "hdr \<Rightarrow> chip \<Rightarrow> chip" where
  "fusb_timer_handler_state K c =
     (if timer_state c \<noteq> T_DISABLED K then c\<lparr>timer_state := 0\<rparr> else c)"

definition fusb_timer_handler_mux :: "hdr \<Rightarrow> chip \<Rightarrow> chip" where
  "fusb_timer_handler_mux K c =
     (if timer_mux c \<noteq> T_DISABLED K then c\<lparr>timer_mux := 0\<rparr> else c)"

definition set_state_unattached :: "hdr \<Rightarrow> chip \<Rightarrow> chip" where
  "set_state_unattached K c =
     (let c1 = set_state (tcpm_init c) unattached;
          c2 = platform_fusb_notify K (c1\<lparr>notify := notify_zero\<rparr>)
      in c2\<lparr>try_role_complete := False\<rparr>)"

subsection \<open>Building and sending messages\<close>

definition set_mesg :: "hdr \<Rightarrow> chip \<Rightarrow> u16 \<Rightarrow> bool \<Rightarrow> chip" where
  "set_mesg K c cmd is_DMT =
     (let head = (push_bit 9 (ucast (msg_id c AND 7)) OR
                  push_bit 8 (word_of_int (power_role (notify c) AND 1)) OR
                  push_bit 6 1 OR
                  push_bit 5 (word_of_int (data_role (notify c) AND 1)) :: u16);
          info = pd_cap_info c
      in
      if is_DMT then
        (if cmd = DMT_SOURCECAPABILITIES then
           c\<lparr>send_head :=
                head OR push_bit 12 (word_of_int (n_caps_used c AND 3)) OR (cmd AND 0xf),
             send_load :=
                fold (\<lambda>i sl. store_at sl (int i)
                        (push_bit 30 (supply_type info) OR
                         push_bit 29 (dual_role_power info) OR
                         push_bit 28 (usb_suspend_support info) OR
                         push_bit 27 (externally_powered info) OR
                         push_bit 26 (usb_communications_cap info) OR
                         push_bit 25 (data_role_swap info) OR
                         push_bit 20 (peak_current info) OR
                         push_bit 10 (load_at (source_power_supply c) (int i)) OR
                         load_at (source_max_current c) (int i)))
                  [0..<nat (n_caps_used c)] (send_load c)\<rparr>
         else if cmd = DMT_REQUEST then
           (let pdo = load_at (rec_load c) (pos_power c - 1);
                w0 = (push_bit 28 (word_of_int (pos_power c)) OR push_bit 26 1 :: u32);
                w1 = (if CAP_POWER_TYPE pdo = 0 then
                        w0 OR (push_bit 10 (CAP_FPDO_VOLTAGE pdo) AND 0x3ff)
                           OR (CAP_FPDO_CURRENT pdo AND 0x3ff)
                      else if CAP_POWER_TYPE pdo = 1 then
                        w0 OR (push_bit 10 (CAP_VPDO_VOLTAGE K pdo) AND 0x3ff)
                           OR (CAP_VPDO_CURRENT K pdo AND 0x3ff)
                      else w0)
            in c\<lparr>send_head := head OR push_bit 12 1 OR (cmd AND 0xf),
                 send_load := store_at (send_load c) 0 w1\<rparr>)
         else c\<lparr>send_head := head\<rparr>)
      else c\<lparr>send_head := head OR (cmd AND 0xf)\<rparr>)"

text \<open>The index of the highest set bit among the lowest \<open>n\<close> bits (0 when none is set).\<close>

fun top_bit :: "nat \<Rightarrow> u32 \<Rightarrow> nat" where
  "top_bit 0 x = 0"
| "top_bit (Suc n) x = (if bit x n then n else top_bit n x)"

text \<open>\<^verbatim>\<open>__builtin_clz\<close> on a non-zero 32-bit value.\<close>

definition builtin_clz :: "u32 \<Rightarrow> nat" where
  "builtin_clz x = 31 - top_bit 32 x"

text \<open>\<^verbatim>\<open>pd_dfp_dp_get_pin_assignment\<close>; it does not use the port context.\<close>

definition pd_dfp_dp_get_pin_assignment :: "u32 \<Rightarrow> u32 \<Rightarrow> u32" where
  "pd_dfp_dp_get_pin_assignment caps status =
     (let pin_caps = PD_DP_PIN_CAPS caps;
          pin_caps1 = (if PD_VDO_DPSTS_MF_PREF status = 0
                       then pin_caps AND NOT MODE_DP_PIN_MF_MASK else pin_caps);
          pin_caps2 = (if PD_DP_SIGNAL_GEN2 caps \<noteq> 0
                       then pin_caps1 AND NOT MODE_DP_PIN_DP_MASK
                       else pin_caps1 AND NOT MODE_DP_PIN_BR2_MASK);
          pin_caps3 = (if pin_caps2 AND (MODE_DP_PIN_C OR MODE_DP_PIN_D) \<noteq> 0
                       then pin_caps2 AND NOT (MODE_DP_PIN_E OR MODE_DP_PIN_F)
                       else pin_caps2)
      in if pin_caps3 = 0 then 0 else push_bit (31 - builtin_clz pin_caps3) 1)"

definition set_vdm_mesg :: "hdr \<Rightarrow> chip \<Rightarrow> u32 \<Rightarrow> u32 \<Rightarrow> u32 \<Rightarrow> chip" where
  "set_vdm_mesg K c cmd type mode =
     (let head = (push_bit 9 (ucast (msg_id c AND 7)) OR
                  push_bit 8 (word_of_int (power_role (notify c) AND 1)) OR
                  push_bit 6 1 OR
                  push_bit 5 (word_of_int (data_role (notify c) AND 1)) OR
                  (DMT_VENDERDEFINED AND 0xf) :: u16);
          w0 = (push_bit 15 1 OR push_bit 6 type OR cmd :: u32);
          c1 = c\<lparr>send_head := head, send_load := store_at (send_load c) 0 w0\<rparr>
      in
      if cmd = VDM_DISCOVERY_ID \<or> cmd = VDM_DISCOVERY_SVIDS \<or> cmd = VDM_ATTENTION then
        c1\<lparr>send_load := store_at (send_load c1) 0 (w0 OR push_bit 16 0xff00),
           send_head := head OR push_bit 12 1\<rparr>
      else if cmd = VDM_DISCOVERY_MODES then
        c1\<lparr>send_load := store_at (send_load c1) 0
              (w0 OR push_bit 16
                 (ucast (load_at (vdm_svid c1) (uint (drop_bit 1 (val_tmp c1)))))),
           send_head := head OR push_bit 12 1\<rparr>
      else if cmd = VDM_ENTER_MODE then
        c1\<lparr>send_head := head OR push_bit 12 1,
           send_load := store_at (send_load c1) 0
              (w0 OR push_bit 8 mode OR push_bit 16 0xff01)\<rparr>
      else if cmd = VDM_EXIT_MODE then
        c1\<lparr>send_head := head OR push_bit 12 1,
           send_load := store_at (send_load c1) 0
              (w0 OR push_bit 8 0x0f OR push_bit 16 0xff01)\<rparr>
      else if cmd = VDM_DP_STATUS_UPDATE then
        c1\<lparr>send_head := head OR push_bit 12 2,
           send_load := store_at (store_at (send_load c1) 0
              (w0 OR push_bit 8 1 OR push_bit 16 0xff01)) 1 5\<rparr>
      else if cmd = VDM_DP_CONFIG then
        (let pin = pd_dfp_dp_get_pin_assignment (dp_caps (notify c1)) (dp_status (notify c1))
         in c1\<lparr>send_head := head OR push_bit 12 2,
               notify := (notify c1)\<lparr>pin_assignment_def := pin\<rparr>,
               send_load := store_at (store_at (send_load c1) 0
                  (w0 OR push_bit 8 1 OR push_bit 16 0xff01)) 1
                  (push_bit 8 pin OR push_bit 2 1 OR 2)\<rparr>)
      else c1)"

definition policy_send_hardrst :: "hdr \<Rightarrow> chip \<Rightarrow> u32 \<Rightarrow> chip" where
  "policy_send_hardrst K c evt =
     (if tx_state c = tx_idle then
        c\<lparr>out := SEND_HARDRESET # out c, tx_state := tx_busy,
          timer_state := T_BMC_TIMEOUT K\<rparr>
      else if evt AND EVENT_TIMER_STATE \<noteq> 0 then c\<lparr>tx_state := tx_success\<rparr>
      else c)"

text \<open>
  \<^verbatim>\<open>policy_send_data\<close>. Like \<^verbatim>\<open>policy_send_hardrst\<close> it returns
  \<^verbatim>\<open>chip->tx_state\<close>, which is \<open>tx_state\<close> of the port context returned here.
\<close>

definition policy_send_data :: "hdr \<Rightarrow> chip \<Rightarrow> chip" where
  "policy_send_data K c =
     (if tx_state c = tx_idle then
        (let len = (push_bit 2 (ucast (PD_HEADER_CNT (send_head c))) :: u8);
             senddata =
               [FUSB_TKN_SYNC1 K, FUSB_TKN_SYNC1 K, FUSB_TKN_SYNC1 K, FUSB_TKN_SYNC2 K,
                FUSB_TKN_PACKSYM K OR ((len + 2) AND 0x1f),
                ucast (send_head c AND 0xff),
                ucast ((drop_bit 8 (send_head c)) AND 0xff)]
               @ take (unat len) (le_bytes (send_load c))
               @ [FUSB_TKN_JAMCRC K, FUSB_TKN_EOP K, FUSB_TKN_TXOFF K, FUSB_TKN_TXON K]
         in c\<lparr>out := FIFO_WRITE senddata # out c, tx_state := tx_busy\<rparr>)
      else c)"

subsection \<open>The Auto-VDM engine\<close>

text \<open>The loop over the six data objects of a Discover SVIDs response.\<close>

fun process_svids :: "nat \<Rightarrow> int \<Rightarrow> chip \<Rightarrow> chip" where
  "process_svids 0 i c = c"
| "process_svids (Suc n) i c =
     (let hi = (drop_bit 16 (load_at (rec_load c) (i + 1))) AND 0x0000ffff in
      if hi \<noteq> 0 then
        (let c1 = c\<lparr>vdm_svid := store_at (vdm_svid c) (i * 2) (ucast hi),
                    vdm_svid_num := vdm_svid_num c + 1\<rparr>;
             lo = load_at (rec_load c1) (i + 1) AND 0x0000ffff
         in if lo \<noteq> 0 then
              process_svids n (i + 1)
                (c1\<lparr>vdm_svid := store_at (vdm_svid c1) (i * 2 + 1) (ucast lo),
                    vdm_svid_num := vdm_svid_num c1 + 1\<rparr>)
            else c1)
      else c)"

definition process_vdm_msg :: "hdr \<Rightarrow> chip \<Rightarrow> chip" where
  "process_vdm_msg K c =
     (let vdm_header = load_at (rec_load c) 0 in
      if GET_VDMHEAD_STRUCT_TYPE vdm_header = 0 then c
      else if GET_VDMHEAD_CMD_TYPE vdm_header = VDM_TYPE_INIT then
        (if GET_VDMHEAD_CMD vdm_header = VDM_ATTENTION then
           platform_fusb_notify K
             (c\<lparr>notify := (notify c)\<lparr>dp_status := GET_DP_STATUS K (load_at (rec_load c) 1),
                                       attention := True\<rparr>\<rparr>)
         else c)
      else if GET_VDMHEAD_CMD_TYPE vdm_header = VDM_TYPE_ACK then
        (if GET_VDMHEAD_CMD vdm_header = VDM_DISCOVERY_ID then
           c\<lparr>vdm_id := load_at (rec_load c) 1\<rparr>
         else if GET_VDMHEAD_CMD vdm_header = VDM_DISCOVERY_SVIDS then
           process_svids 6 0 c
         else if GET_VDMHEAD_CMD vdm_header = VDM_DISCOVERY_MODES then
           (if PD_HEADER_CNT (rec_head c) > 1 then
              (let tmp = load_at (rec_load c) 1 in
               if (drop_bit 8 tmp) AND 0x3f = 0 \<and> (drop_bit 16 tmp) AND 0x3f = 0 then
                 c\<lparr>val_tmp := val_tmp c OR 1\<rparr>
               else
                 c\<lparr>notify := (notify c)\<lparr>dp_caps := load_at (rec_load c) 1,
                                          pin_assignment_def := 0,
                                          pin_assignment_support := PD_DP_PIN_CAPS tmp\<rparr>,
                   val_tmp := val_tmp c OR 1\<rparr>)
            else c)
         else if GET_VDMHEAD_CMD vdm_header = VDM_ENTER_MODE then
           c\<lparr>val_tmp := 1\<rparr>
         else if GET_VDMHEAD_CMD vdm_header = VDM_DP_STATUS_UPDATE then
           c\<lparr>notify := (notify c)\<lparr>dp_status := GET_DP_STATUS K (load_at (rec_load c) 1)\<rparr>,
             val_tmp := 1\<rparr>
         else if GET_VDMHEAD_CMD vdm_header = VDM_DP_CONFIG then
           c\<lparr>val_tmp := 1, notify := (notify c)\<lparr>is_enter_mode := True\<rparr>\<rparr>
         else c)
      else if GET_VDMHEAD_CMD_TYPE vdm_header = VDM_TYPE_NACK then
        c\<lparr>vdm_state := VDM_STATE_ERR\<rparr>
      else c)"

text \<open>
  The results of the \<^verbatim>\<open>vdm_send_\<close> functions: 0, \<^verbatim>\<open>-EPIPE\<close>,
  \<^verbatim>\<open>-ETIMEDOUT\<close>, \<^verbatim>\<open>-EINPROGRESS\<close>.
\<close>

datatype vdm_ret = RET_0 | RET_EPIPE | RET_ETIMEDOUT | RET_EINPROGRESS

text \<open>
  The six \<^verbatim>\<open>vdm_send_\<close> functions repeat one block as their \<^verbatim>\<open>case 1\<close>: send,
  on success arm the response timer, on failure stop the engine, and fall through to the
  \<^verbatim>\<open>default\<close> block \<open>dflt\<close> only when \<^verbatim>\<open>vdm_send_state\<close> has become 2.
\<close>

definition vdm_send_case1 ::
  "hdr \<Rightarrow> chip \<Rightarrow> (chip \<Rightarrow> chip \<times> vdm_ret) \<Rightarrow> chip \<times> vdm_ret" where
  "vdm_send_case1 K c dflt =
     (let c2 = policy_send_data K c in
      if tx_state c2 = tx_success then
        (let c3 = c2\<lparr>vdm_send_state := vdm_send_state c2 + 1,
                     timer_state := T_SENDER_RESPONSE K\<rparr>
         in if vdm_send_state c3 \<noteq> 2 then (c3, RET_EINPROGRESS) else dflt c3)
      else if tx_state c2 = tx_failed then (c2\<lparr>vdm_state := VDM_STATE_ERR\<rparr>, RET_EPIPE)
      else if vdm_send_state c2 \<noteq> 2 then (c2, RET_EINPROGRESS)
      else dflt c2)"

text \<open>The time-out branch that ends each \<^verbatim>\<open>default\<close> block.\<close>

definition vdm_send_timeout :: "chip \<Rightarrow> u32 \<Rightarrow> chip \<times> vdm_ret" where
  "vdm_send_timeout c evt =
     (if evt AND EVENT_TIMER_STATE \<noteq> 0 then
        (c\<lparr>vdm_state := VDM_STATE_ERR,
           work_continue := work_continue c OR EVENT_WORK_CONTINUE\<rparr>, RET_ETIMEDOUT)
      else (c, RET_EINPROGRESS))"

definition vdm_send_discoveryid :: "hdr \<Rightarrow> chip \<Rightarrow> u32 \<Rightarrow> chip \<times> vdm_ret" where
  "vdm_send_discoveryid K c evt =
     (let dflt = (\<lambda>d. if vdm_id d \<noteq> 0 then (d\<lparr>vdm_send_state := 0\<rparr>, RET_0)
                       else vdm_send_timeout d evt);
          c1 = (if vdm_send_state c = 0 then
                  (set_vdm_mesg K c VDM_DISCOVERY_ID VDM_TYPE_INIT 0)
                    \<lparr>vdm_id := 0, tx_state := tx_idle,
                     vdm_send_state := vdm_send_state c + 1\<rparr>
                else c)
      in if vdm_send_state c = 0 \<or> vdm_send_state c = 1
         then vdm_send_case1 K c1 dflt else dflt c1)"

definition vdm_send_discoverysvid :: "hdr \<Rightarrow> chip \<Rightarrow> u32 \<Rightarrow> chip \<times> vdm_ret" where
  "vdm_send_discoverysvid K c evt =
     (let dflt = (\<lambda>d. if vdm_svid_num d \<noteq> 0 then (d\<lparr>vdm_send_state := 0\<rparr>, RET_0)
                       else vdm_send_timeout d evt);
          c1 = (if vdm_send_state c = 0 then
                  (set_vdm_mesg K c VDM_DISCOVERY_SVIDS VDM_TYPE_INIT 0)
                    \<lparr>vdm_svid := replicate (length (vdm_svid c)) 0, vdm_svid_num := 0,
                     tx_state := tx_idle, vdm_send_state := vdm_send_state c + 1\<rparr>
                else c)
      in if vdm_send_state c = 0 \<or> vdm_send_state c = 1
         then vdm_send_case1 K c1 dflt else dflt c1)"

definition vdm_send_discoverymodes :: "hdr \<Rightarrow> chip \<Rightarrow> u32 \<Rightarrow> chip \<times> vdm_ret" where
  "vdm_send_discoverymodes K c evt =
     (if uint (drop_bit 1 (val_tmp c)) \<noteq> vdm_svid_num c then
        (let dflt = (\<lambda>d. if val_tmp d AND 1 \<noteq> 0 then
                            (d\<lparr>val_tmp := (val_tmp d AND 0xfe) + 2, vdm_send_state := 0,
                               work_continue := work_continue d OR EVENT_WORK_CONTINUE\<rparr>,
                             RET_EINPROGRESS)
                          else vdm_send_timeout d evt);
             c1 = (if vdm_send_state c = 0 then
                     (set_vdm_mesg K c VDM_DISCOVERY_MODES VDM_TYPE_INIT 0)
                       \<lparr>tx_state := tx_idle, vdm_send_state := vdm_send_state c + 1\<rparr>
                   else c)
         in if vdm_send_state c = 0 \<or> vdm_send_state c = 1
            then vdm_send_case1 K c1 dflt else dflt c1)
      else (c\<lparr>val_tmp := 0\<rparr>, RET_0))"

definition vdm_send_entermode :: "hdr \<Rightarrow> chip \<Rightarrow> u32 \<Rightarrow> chip \<times> vdm_ret" where
  "vdm_send_entermode K c evt =
     (let dflt = (\<lambda>d. if val_tmp d \<noteq> 0 then (d\<lparr>val_tmp := 0, vdm_send_state := 0\<rparr>, RET_0)
                       else vdm_send_timeout d evt);
          c1 = (if vdm_send_state c = 0 then
                  (let m = set_vdm_mesg K c VDM_ENTER_MODE VDM_TYPE_INIT 1 in
                   m\<lparr>tx_state := tx_idle, vdm_send_state := vdm_send_state c + 1,
                     notify := (notify m)\<lparr>is_enter_mode := False\<rparr>\<rparr>)
                else c)
      in if vdm_send_state c = 0 \<or> vdm_send_state c = 1
         then vdm_send_case1 K c1 dflt else dflt c1)"

definition vdm_send_getdpstatus :: "hdr \<Rightarrow> chip \<Rightarrow> u32 \<Rightarrow> chip \<times> vdm_ret" where
  "vdm_send_getdpstatus K c evt =
     (let dflt = (\<lambda>d. if val_tmp d \<noteq> 0 then (d\<lparr>val_tmp := 0, vdm_send_state := 0\<rparr>, RET_0)
                       else vdm_send_timeout d evt);
          c1 = (if vdm_send_state c = 0 then
                  (set_vdm_mesg K c VDM_DP_STATUS_UPDATE VDM_TYPE_INIT 1)
                    \<lparr>tx_state := tx_idle, vdm_send_state := vdm_send_state c + 1\<rparr>
                else c)
      in if vdm_send_state c = 0 \<or> vdm_send_state c = 1
         then vdm_send_case1 K c1 dflt else dflt c1)"

definition vdm_send_dpconfig :: "hdr \<Rightarrow> chip \<Rightarrow> u32 \<Rightarrow> chip \<times> vdm_ret" where
  "vdm_send_dpconfig K c evt =
     (let dflt = (\<lambda>d. if val_tmp d \<noteq> 0 then (d\<lparr>val_tmp := 0, vdm_send_state := 0\<rparr>, RET_0)
                       else vdm_send_timeout d evt);
          c1 = (if vdm_send_state c = 0 then
                  (set_vdm_mesg K c VDM_DP_CONFIG VDM_TYPE_INIT 0)
                    \<lparr>tx_state := tx_idle, vdm_send_state := vdm_send_state c + 1\<rparr>
                else c)
      in if vdm_send_state c = 0 \<or> vdm_send_state c = 1
         then vdm_send_case1 K c1 dflt else dflt c1)"

definition AUTO_VDM_HANDLE :: "chip \<times> vdm_ret \<Rightarrow> chip" where
  "AUTO_VDM_HANDLE r =
     (case r of (c, conditions) \<Rightarrow>
        if conditions = RET_0 then
          c\<lparr>vdm_state := vdm_state c + 1,
            work_continue := work_continue c OR EVENT_WORK_CONTINUE\<rparr>
        else if conditions \<noteq> RET_EINPROGRESS then c\<lparr>vdm_state := VDM_STATE_ERR\<rparr>
        else c)"

definition auto_vdm_machine :: "hdr \<Rightarrow> chip \<Rightarrow> u32 \<Rightarrow> chip" where
  "auto_vdm_machine K c evt =
     (if vdm_state c = VDM_STATE_DISCOVERY_ID then
        AUTO_VDM_HANDLE (vdm_send_discoveryid K c evt)
      else if vdm_state c = VDM_STATE_DISCOVERY_SVID then
        AUTO_VDM_HANDLE (vdm_send_discoverysvid K c evt)
      else if vdm_state c = VDM_STATE_DISCOVERY_MODES then
        AUTO_VDM_HANDLE (vdm_send_discoverymodes K c evt)
      else if vdm_state c = VDM_STATE_ENTER_MODE then
        AUTO_VDM_HANDLE (vdm_send_entermode K c evt)
      else if vdm_state c = VDM_STATE_UPDATE_STATUS then
        AUTO_VDM_HANDLE (vdm_send_getdpstatus K c evt)
      else if vdm_state c = VDM_STATE_DP_CONFIG then
        AUTO_VDM_HANDLE (vdm_send_dpconfig K c evt)
      else if vdm_state c = VDM_STATE_NOTIFY then
        (platform_fusb_notify K c)\<lparr>vdm_state := VDM_STATE_READY\<rparr>
      else c)"

subsection \<open>Attach detection\<close>

definition fusb_state_disabled :: "chip \<Rightarrow> u32 \<Rightarrow> chip" where
  "fusb_state_disabled c evt = c"

text \<open>
  The polarity argument that the attach handlers pass to \<^verbatim>\<open>tcpm_set_polarity\<close>.
\<close>

definition togss_polarity :: "hdr \<Rightarrow> chip \<Rightarrow> typec_cc_polarity" where
  "togss_polarity K c =
     (if cc_state c AND CC_STATE_TOGSS_CC1 K \<noteq> 0
      then TYPEC_POLARITY_CC1 else TYPEC_POLARITY_CC2)"

definition fusb_state_unattached :: "hdr \<Rightarrow> hw_in \<Rightarrow> chip \<Rightarrow> u32 \<Rightarrow> chip" where
  "fusb_state_unattached K hw c evt =
     (let c1 = c\<lparr>notify := (notify c)\<lparr>is_cc_connected := False\<rparr>, is_pd_support := False\<rparr>
      in
      if evt AND EVENT_CC \<noteq> 0 \<and> cc_state c1 \<noteq> 0 then
        (let c2 = (if CC_STATE_ROLE K c1 = CC_STATE_TOGSS_IS_UFP K
                   then set_state c1 attach_wait_sink
                   else if CC_STATE_ROLE K c1 = CC_STATE_TOGSS_IS_DFP K
                   then set_state c1 attach_wait_source
                   else set_state c1 attach_wait_audio_acc);
             c3 = tcpm_set_polarity (c2\<lparr>vbus_begin := state_vbus hw\<rparr>) (togss_polarity K c2)
         in c3\<lparr>cc1 := fst (state_cc hw), cc2 := snd (state_cc hw),
               debounce_cnt := 0, timer_mux := 2\<rparr>)
      else c1)"

definition fusb_state_try_attach_set :: "hdr \<Rightarrow> chip \<Rightarrow> role_mode \<Rightarrow> chip" where
  "fusb_state_try_attach_set K c mode =
     (if mode = ROLE_MODE_NONE \<or> mode = ROLE_MODE_DRP \<or> mode = ROLE_MODE_ASS then c
      else
        set_state ((tcpm_init c)\<lparr>timer_mux := T_PD_TRY_DRP K\<rparr>)
          (if mode = ROLE_MODE_DFP then attach_try_src else attach_try_snk))"

text \<open>
  The debounce step that the three attach-wait handlers share word for word: compare the
  new sample with the stored one, count or restart.
\<close>

definition debounce_sample :: "chip \<Rightarrow> int \<times> int \<Rightarrow> chip" where
  "debounce_sample c s =
     (if cc1 c = fst s \<and> cc2 c = snd s
      then c\<lparr>debounce_cnt := debounce_cnt c + 1\<rparr>
      else c\<lparr>cc1 := fst s, cc2 := snd s, debounce_cnt := 0\<rparr>)"

definition fusb_state_attach_wait_sink :: "hdr \<Rightarrow> hw_in \<Rightarrow> chip \<Rightarrow> u32 \<Rightarrow> chip" where
  "fusb_state_attach_wait_sink K hw c evt =
     (if evt AND EVENT_TIMER_MUX \<noteq> 0 then
        (let c1 = (if state_vbus hw then c\<lparr>timer_mux := T_DISABLED K\<rparr> else c) in
         if state_vbus hw \<and> role c = ROLE_MODE_DRP \<and> try_role c = ROLE_MODE_DFP \<and>
            \<not> try_role_complete c
         then fusb_state_try_attach_set K c1 ROLE_MODE_DFP
         else if state_vbus hw \<and> try_role_complete c
         then set_state (c1\<lparr>timer_mux := T_PD_SOURCE_ON K\<rparr>) attached_sink
         else
           (let c2 = debounce_sample c1 (state_cc hw) in
            if uint (debounce_cnt c2) > N_DEBOUNCE_CNT K then
              (let c3 = c2\<lparr>timer_mux := T_DISABLED K\<rparr> in
               if (cc1 c3 = TYPEC_CC_VOLT_RP \<and> cc2 c3 = TYPEC_CC_VOLT_OPEN) \<or>
                  (cc2 c3 = TYPEC_CC_VOLT_RP \<and> cc1 c3 = TYPEC_CC_VOLT_OPEN)
               then set_state (c3\<lparr>timer_mux := T_PD_SOURCE_ON K\<rparr>) attached_sink
               else set_state_unattached K c3)
            else c2\<lparr>timer_mux := 2\<rparr>))
      else c)"

definition fusb_state_attach_wait_source :: "hdr \<Rightarrow> hw_in \<Rightarrow> chip \<Rightarrow> u32 \<Rightarrow> chip" where
  "fusb_state_attach_wait_source K hw c evt =
     (if evt AND EVENT_TIMER_MUX \<noteq> 0 then
        (let c2 = debounce_sample c (state_cc hw) in
         if uint (debounce_cnt c2) > N_DEBOUNCE_CNT K then
           (if (cc1 c2 = 0 \<or> cc2 c2 = 0) \<and>
               (cc1 c2 = TYPEC_CC_VOLT_RD \<or> cc2 c2 = TYPEC_CC_VOLT_RD)
            then
              (if role c2 = ROLE_MODE_DRP \<and> try_role c2 = ROLE_MODE_UFP \<and>
                  \<not> try_role_complete c2
               then fusb_state_try_attach_set K c2 ROLE_MODE_UFP
               else set_state c2 attached_source)
            else set_state_unattached K c2)
         else c2\<lparr>timer_mux := 2\<rparr>)
      else c)"

definition fusb_state_attached_source :: "hdr \<Rightarrow> chip \<Rightarrow> u32 \<Rightarrow> chip" where
  "fusb_state_attached_source K c evt =
     (let c1 = tcpm_set_vconn (tcpm_set_polarity c (togss_polarity K c)) True;
          c2 = c1\<lparr>notify := (notify c1)\<lparr>is_cc_connected := True,
                                        power_role := POWER_ROLE_SOURCE,
                                        data_role := DATA_ROLE_DFP\<rparr>,
                  hardrst_count := 0\<rparr>
      in set_state c2 policy_src_startup)"

definition fusb_state_attached_sink :: "hdr \<Rightarrow> hw_in \<Rightarrow> chip \<Rightarrow> u32 \<Rightarrow> chip" where
  "fusb_state_attached_sink K hw c evt =
     (if state_vbus hw then
        (let c1 = c\<lparr>timer_mux := T_DISABLED K, timer_state := T_DISABLED K\<rparr> in
         if \<not> try_role_complete c1 \<and> try_role c1 = ROLE_MODE_DFP \<and> role c1 = ROLE_MODE_DRP
         then fusb_state_try_attach_set K c1 ROLE_MODE_DFP
         else
           set_state
             (c1\<lparr>try_role_complete := True,
                 notify := (notify c1)\<lparr>is_cc_connected := True,
                                       power_role := POWER_ROLE_SINK,
                                       data_role := DATA_ROLE_UFP\<rparr>,
                 hardrst_count := 0\<rparr>)
             policy_snk_startup)
      else if evt AND EVENT_TIMER_MUX \<noteq> 0 then set_state_unattached K c
      else c\<lparr>timer_state := 2\<rparr>)"

definition fusb_state_try_attach ::
  "hdr \<Rightarrow> hw_in \<Rightarrow> chip \<Rightarrow> u32 \<Rightarrow> role_mode \<Rightarrow> chip" where
  "fusb_state_try_attach K hw c evt mode =
     (if evt AND EVENT_CC \<noteq> 0 \<and> cc_state c \<noteq> 0 then
        (let c1 = c\<lparr>try_role_complete := True\<rparr>;
             c2 = (if CC_STATE_ROLE K c1 = CC_STATE_TOGSS_IS_UFP K
                   then set_state c1 (if mode = ROLE_MODE_UFP
                                      then attach_wait_sink else error_recovery)
                   else set_state c1 (if mode = ROLE_MODE_DFP
                                      then attach_wait_source else error_recovery));
             c3 = tcpm_set_polarity c2 (togss_polarity K c2)
         in c3\<lparr>cc1 := fst (state_cc hw), cc2 := snd (state_cc hw),
               debounce_cnt := 0, timer_mux := 2\<rparr>)
      else if evt AND EVENT_TIMER_MUX \<noteq> 0 then
        (if \<not> try_role_complete c then
           fusb_state_try_attach_set K (c\<lparr>try_role_complete := True\<rparr>)
             (if mode = ROLE_MODE_DFP then ROLE_MODE_UFP else ROLE_MODE_DFP)
         else set_state c error_recovery)
      else c)"

definition fusb_state_attach_wait_audio_acc :: "hdr \<Rightarrow> hw_in \<Rightarrow> chip \<Rightarrow> u32 \<Rightarrow> chip" where
  "fusb_state_attach_wait_audio_acc K hw c evt =
     (if evt AND EVENT_TIMER_MUX \<noteq> 0 then
        (let c2 = debounce_sample c (state_cc hw) in
         if uint (debounce_cnt c2) > N_DEBOUNCE_CNT K then
           (if cc1 c2 = TYPEC_CC_VOLT_RA \<and> cc2 c2 = TYPEC_CC_VOLT_RA
            then (set_state c2 attached_audio_acc)\<lparr>timer_mux := 2\<rparr>
            else set_state_unattached K c2)
         else c2\<lparr>timer_mux := 2\<rparr>)
      else c)"

definition fusb_state_attached_audio_acc :: "hdr \<Rightarrow> chip \<Rightarrow> u32 \<Rightarrow> chip" where
  "fusb_state_attached_audio_acc K c evt =
     (let c1 = tcpm_set_polarity c (togss_polarity K c);
          c2 = c1\<lparr>notify := (notify c1)\<lparr>is_cc_connected := True\<rparr>, hardrst_count := 0\<rparr>
      in set_state c2 disabled)"

subsection \<open>Source policy states\<close>

definition fusb_soft_reset_parameter :: "chip \<Rightarrow> chip" where
  "fusb_soft_reset_parameter c =
     c\<lparr>caps_counter := 0, msg_id := 0, vdm_state := VDM_STATE_DISCOVERY_ID,
       vdm_substate := 0, vdm_send_state := 0, val_tmp := 0, pos_power := 0\<rparr>"

definition fusb_state_src_startup :: "hdr \<Rightarrow> chip \<Rightarrow> u32 \<Rightarrow> chip" where
  "fusb_state_src_startup K c evt =
     (let c1 = fusb_soft_reset_parameter
                 (c\<lparr>notify := (notify c)\<lparr>is_pd_connected := False\<rparr>\<rparr>);
          c2 = c1\<lparr>partner_cap := replicate (length (partner_cap c1)) 0\<rparr>;
          c3 = tcpm_set_polarity c2 (cc_polarity c2)
      in platform_fusb_notify K (set_state c3 policy_src_send_caps))"

definition fusb_state_src_discovery :: "hdr \<Rightarrow> chip \<Rightarrow> u32 \<Rightarrow> chip" where
  "fusb_state_src_discovery K c evt =
     (if sub_state c = 0 then
        (let c1 = c\<lparr>caps_counter := caps_counter c + 1\<rparr> in
         if caps_counter c1 < N_CAPS_COUNT K
         then c1\<lparr>timer_state := T_TYPEC_SEND_SOURCECAP K, sub_state := 1\<rparr>
         else set_state c1 disabled)
      else if evt AND EVENT_TIMER_STATE \<noteq> 0 then set_state c policy_src_send_caps
      else if evt AND EVENT_TIMER_MUX \<noteq> 0 then
        (if \<not> is_pd_support c then set_state c disabled
         else if hardrst_count c > N_HARDRESET_COUNT K then set_state c error_recovery
         else set_state c policy_src_send_hardrst)
      else c)"

definition fusb_state_src_send_caps :: "hdr \<Rightarrow> chip \<Rightarrow> u32 \<Rightarrow> chip" where
  "fusb_state_src_send_caps K c evt =
     (let dflt = (\<lambda>d.
            if evt AND EVENT_RX \<noteq> 0 then
              (if PACKET_IS_DATA_MSG (rec_head d) DMT_REQUEST
               then set_state d policy_src_negotiate_cap
               else set_state d policy_src_send_softrst)
            else if evt AND EVENT_TIMER_STATE \<noteq> 0 then
              (if hardrst_count d \<le> N_HARDRESET_COUNT K
               then set_state d policy_src_send_hardrst
               else set_state d disabled)
            else if evt AND EVENT_TIMER_MUX \<noteq> 0 then
              (if \<not> is_pd_support d then set_state d disabled
               else if hardrst_count d > N_HARDRESET_COUNT K
               then set_state d error_recovery
               else set_state d policy_src_send_hardrst)
            else d);
          c1 = (if sub_state c = 0 then
                  (set_mesg K c DMT_SOURCECAPABILITIES DATAMESSAGE)
                    \<lparr>sub_state := 1, tx_state := tx_idle\<rparr>
                else c)
      in
      if sub_state c = 0 \<or> sub_state c = 1 then
        (let c2 = policy_send_data K c1 in
         if tx_state c2 = tx_success then
           (let c3 = c2\<lparr>hardrst_count := 0, caps_counter := 0,
                        timer_state := T_SENDER_RESPONSE K, timer_mux := T_DISABLED K,
                        sub_state := sub_state c2 + 1, is_pd_support := True\<rparr>
            in if evt AND FLAG_EVENT = 0 then c3 else dflt c3)
         else if tx_state c2 = tx_failed then set_state c2 policy_src_discovery
         else if evt AND FLAG_EVENT = 0 then c2
         else dflt c2)
      else dflt c1)"

definition fusb_state_src_negotiate_cap :: "chip \<Rightarrow> u32 \<Rightarrow> chip" where
  "fusb_state_src_negotiate_cap c evt =
     (let tmp = (drop_bit 28 (load_at (rec_load c) 0)) AND 0x07 in
      if tmp > word_of_int (n_caps_used c)
      then set_state c policy_src_cap_response
      else set_state c policy_src_transition_supply)"

definition fusb_state_src_transition_supply :: "hdr \<Rightarrow> chip \<Rightarrow> u32 \<Rightarrow> chip" where
  "fusb_state_src_transition_supply K c evt =
     (if sub_state c = 0 \<or> sub_state c = 1 then
        (let c1 = (if sub_state c = 0 then
                     (set_mesg K c CMT_ACCEPT CONTROLMESSAGE)
                       \<lparr>tx_state := tx_idle, sub_state := sub_state c + 1\<rparr>
                   else c);
             c2 = policy_send_data K c1
         in if tx_state c2 = tx_success then
              c2\<lparr>timer_state := T_SRC_TRANSITION K, sub_state := sub_state c2 + 1\<rparr>
            else if tx_state c2 = tx_failed then set_state c2 policy_src_send_softrst
            else c2)
      else if sub_state c = 2 then
        (if evt AND EVENT_TIMER_STATE \<noteq> 0 then
           (let c1 = set_mesg K (c\<lparr>notify := (notify c)\<lparr>is_pd_connected := True\<rparr>\<rparr>)
                       CMT_PS_RDY CONTROLMESSAGE
            in c1\<lparr>tx_state := tx_idle, sub_state := sub_state c1 + 1,
                  work_continue := work_continue c1 OR EVENT_WORK_CONTINUE\<rparr>)
         else c)
      else
        (let c2 = policy_send_data K c in
         if tx_state c2 = tx_success then set_state c2 policy_src_ready
         else if tx_state c2 = tx_failed then set_state c2 policy_src_send_softrst
         else c2))"

definition fusb_state_src_cap_response :: "hdr \<Rightarrow> chip \<Rightarrow> u32 \<Rightarrow> chip" where
  "fusb_state_src_cap_response K c evt =
     (let c1 = (if sub_state c = 0 then
                  (set_mesg K c CMT_REJECT CONTROLMESSAGE)
                    \<lparr>tx_state := tx_idle, sub_state := sub_state c + 1\<rparr>
                else c);
          c2 = policy_send_data K c1
      in if tx_state c2 = tx_success then
           (if is_pd_connected (notify c2) then set_state c2 policy_src_ready
            else set_state c2 policy_src_send_hardrst)
         else if tx_state c2 = tx_failed then set_state c2 policy_src_send_softrst
         else c2)"

definition fusb_state_src_transition_default :: "hdr \<Rightarrow> chip \<Rightarrow> u32 \<Rightarrow> chip" where
  "fusb_state_src_transition_default K c evt =
     (if sub_state c = 0 then
        c\<lparr>notify := (notify c)\<lparr>is_pd_connected := False\<rparr>,
          timer_state := T_SRC_RECOVER K, sub_state := sub_state c + 1\<rparr>
      else if evt AND EVENT_TIMER_STATE \<noteq> 0 then
        set_state (c\<lparr>timer_mux := T_NO_RESPONSE K\<rparr>) policy_src_startup
      else c)"

definition fusb_state_vcs_ufp_evaluate_swap :: "chip \<Rightarrow> u32 \<Rightarrow> chip" where
  "fusb_state_vcs_ufp_evaluate_swap c evt =
     (if vconn_supported c then set_state c policy_vcs_ufp_accept
      else set_state c policy_vcs_ufp_reject)"

definition fusb_state_swap_msg_process :: "chip \<Rightarrow> u32 \<Rightarrow> chip" where
  "fusb_state_swap_msg_process c evt =
     (if evt AND EVENT_RX \<noteq> 0 then
        (if PACKET_IS_CONTROL_MSG (rec_head c) CMT_PR_SWAP then
           set_state c policy_src_prs_evaluate
         else if PACKET_IS_CONTROL_MSG (rec_head c) CMT_VCONN_SWAP then
           (if data_role (notify c) \<noteq> 0 then set_state c (conn_state c)
            else set_state c policy_vcs_ufp_evaluate_swap)
         else if PACKET_IS_CONTROL_MSG (rec_head c) CMT_DR_SWAP then
           (if data_role (notify c) \<noteq> 0 then set_state c policy_drs_dfp_evaluate
            else set_state c policy_drs_ufp_evaluate)
         else c)
      else c)"

definition VDM_IS_ACTIVE :: "chip \<Rightarrow> bool" where
  "VDM_IS_ACTIVE c = (data_role (notify c) \<noteq> 0 \<and> vdm_state c < VDM_STATE_READY)"

text \<open>
  The block that opens both ready handlers: a received vendor defined message goes to
  \<^verbatim>\<open>process_vdm_msg\<close>, any other message to the swap processing unless the Auto-VDM
  engine is active.
\<close>

definition ready_rx :: "hdr \<Rightarrow> chip \<Rightarrow> u32 \<Rightarrow> chip" where
  "ready_rx K c evt =
     (if evt AND EVENT_RX \<noteq> 0 then
        (if PACKET_IS_DATA_MSG (rec_head c) DMT_VENDERDEFINED then
           (let c1 = process_vdm_msg K c in
            c1\<lparr>work_continue := work_continue c1 OR EVENT_WORK_CONTINUE,
               timer_state := T_DISABLED K\<rparr>)
         else if \<not> VDM_IS_ACTIVE c then fusb_state_swap_msg_process c evt
         else c)
      else c)"

definition fusb_state_src_ready :: "hdr \<Rightarrow> chip \<Rightarrow> u32 \<Rightarrow> chip" where
  "fusb_state_src_ready K c evt =
     (let c1 = ready_rx K c evt in
      if load_at (partner_cap c1) 0 = 0 then set_state c1 policy_src_get_sink_caps
      else if VDM_IS_ACTIVE c1 then auto_vdm_machine K c1 evt
      else c1)"

definition fusb_state_prs_evaluate :: "chip \<Rightarrow> u32 \<Rightarrow> chip" where
  "fusb_state_prs_evaluate c evt =
     (if role c = ROLE_MODE_DRP then set_state c policy_src_prs_accept
      else set_state c policy_src_prs_reject)"

definition fusb_state_send_simple_msg ::
  "hdr \<Rightarrow> chip \<Rightarrow> u32 \<Rightarrow> u16 \<Rightarrow> bool \<Rightarrow> connection_state \<Rightarrow> connection_state \<Rightarrow> chip"
  where
  "fusb_state_send_simple_msg K c evt cmd is_DMT state_success state_failed =
     (if sub_state c = 0 \<or> sub_state c = 1 then
        (let c1 = (if sub_state c = 0 then
                     (set_mesg K c cmd is_DMT)
                       \<lparr>tx_state := tx_idle, sub_state := sub_state c + 1\<rparr>
                   else c);
             c2 = policy_send_data K c1
         in if tx_state c2 = tx_success then set_state c2 state_success
            else if tx_state c2 = tx_failed then set_state c2 state_failed
            else c2)
      else c)"

definition fusb_state_prs_reject :: "hdr \<Rightarrow> chip \<Rightarrow> u32 \<Rightarrow> chip" where
  "fusb_state_prs_reject K c evt =
     fusb_state_send_simple_msg K c evt CMT_REJECT CONTROLMESSAGE
       (if power_role (notify c) \<noteq> 0 then policy_src_ready else policy_snk_ready)
       (if power_role (notify c) \<noteq> 0
        then policy_src_send_softrst else policy_snk_send_softrst)"

definition fusb_state_prs_accept :: "hdr \<Rightarrow> chip \<Rightarrow> u32 \<Rightarrow> chip" where
  "fusb_state_prs_accept K c evt =
     fusb_state_send_simple_msg K c evt CMT_ACCEPT CONTROLMESSAGE
       (if power_role (notify c) \<noteq> 0
        then policy_src_prs_transition_to_off else policy_snk_prs_transition_to_off)
       (if power_role (notify c) \<noteq> 0
        then policy_src_send_softrst else policy_snk_send_softrst)"

definition fusb_state_vcs_ufp_accept :: "hdr \<Rightarrow> chip \<Rightarrow> u32 \<Rightarrow> chip" where
  "fusb_state_vcs_ufp_accept K c evt =
     fusb_state_send_simple_msg K c evt CMT_ACCEPT CONTROLMESSAGE
       (if vconn_enabled c
        then policy_vcs_ufp_wait_for_dfp_vconn else policy_vcs_ufp_turn_on_vconn)
       (if power_role (notify c) \<noteq> 0
        then policy_src_send_softrst else policy_snk_send_softrst)"

definition fusb_state_vcs_set_vconn :: "chip \<Rightarrow> u32 \<Rightarrow> bool \<Rightarrow> chip" where
  "fusb_state_vcs_set_vconn c evt on =
     (if on then
        (let c1 = tcpm_set_vconn c True in
         set_state c1 (if data_role (notify c1) \<noteq> 0
                       then policy_vcs_dfp_send_ps_rdy else policy_vcs_ufp_send_ps_rdy))
      else
        (let c1 = tcpm_set_vconn c False in
         if power_role (notify c1) \<noteq> 0 then set_state c1 policy_src_ready
         else set_state c1 policy_snk_ready))"

definition fusb_state_vcs_send_ps_rdy :: "hdr \<Rightarrow> chip \<Rightarrow> u32 \<Rightarrow> chip" where
  "fusb_state_vcs_send_ps_rdy K c evt =
     fusb_state_send_simple_msg K c evt CMT_PS_RDY CONTROLMESSAGE
       (if power_role (notify c) \<noteq> 0 then policy_src_ready else policy_snk_ready)
       (if power_role (notify c) \<noteq> 0
        then policy_src_send_softrst else policy_snk_send_softrst)"

definition fusb_state_vcs_wait_for_vconn :: "hdr \<Rightarrow> chip \<Rightarrow> u32 \<Rightarrow> chip" where
  "fusb_state_vcs_wait_for_vconn K c evt =
     (if sub_state c = 0 \<or> sub_state c = 1 then
        (let c1 = (if sub_state c = 0 then
                     c\<lparr>timer_state := T_PD_VCONN_SRC_ON K, sub_state := sub_state c + 1\<rparr>
                   else c)
         in if evt AND EVENT_RX \<noteq> 0 then
              (if PACKET_IS_CONTROL_MSG (rec_head c1) CMT_PS_RDY then
                 set_state c1 (if data_role (notify c1) \<noteq> 0
                               then policy_vcs_dfp_turn_off_vconn
                               else policy_vcs_ufp_turn_off_vconn)
               else c1)
            else if evt AND EVENT_TIMER_STATE \<noteq> 0 then
              (if power_role (notify c1) \<noteq> 0 then set_state c1 policy_src_send_hardrst
               else set_state c1 policy_snk_send_hardrst)
            else c1)
      else c)"

definition fusb_state_src_prs_transition_to_off :: "hdr \<Rightarrow> chip \<Rightarrow> u32 \<Rightarrow> chip" where
  "fusb_state_src_prs_transition_to_off K c evt =
     (if sub_state c = 0 then
        c\<lparr>timer_state := T_SRC_TRANSITION K, sub_state := sub_state c + 1\<rparr>
      else if sub_state c = 1 then
        (if evt AND EVENT_TIMER_STATE \<noteq> 0 then
           (let c1 = c\<lparr>notify := (notify c)\<lparr>power_role := POWER_ROLE_SINK\<rparr>\<rparr> in
            if role c1 = ROLE_MODE_DRP then set_state c1 policy_src_prs_assert_rd
            else set_state c1 policy_src_prs_source_off)
         else c)
      else c)"

definition fusb_state_src_prs_assert_rd :: "chip \<Rightarrow> u32 \<Rightarrow> chip" where
  "fusb_state_src_prs_assert_rd c evt = set_state c policy_src_prs_source_off"

definition fusb_state_src_prs_source_off :: "hdr \<Rightarrow> chip \<Rightarrow> u32 \<Rightarrow> chip" where
  "fusb_state_src_prs_source_off K c evt =
     (let case2 = (\<lambda>d.
            if evt AND EVENT_RX \<noteq> 0 then
              (if PACKET_IS_CONTROL_MSG (rec_head d) CMT_PS_RDY then
                 (let d1 = d\<lparr>timer_state := T_DISABLED K,
                              notify := (notify d)\<lparr>is_pd_connected := False\<rparr>,
                              cc_state := (cc_state d AND NOT (CC_STATE_TOGSS_ROLE K))
                                            OR CC_STATE_TOGSS_IS_UFP K\<rparr>
                  in set_state (tcpm_set_polarity d1 (cc_polarity d1)) policy_snk_discovery)
               else d)
            else if evt AND EVENT_TIMER_STATE \<noteq> 0 then
              set_state (d\<lparr>notify := (notify d)\<lparr>power_role := POWER_ROLE_SOURCE\<rparr>\<rparr>)
                policy_src_send_hardrst
            else d)
      in
      if sub_state c = 0 \<or> sub_state c = 1 then
        (let c1 = (if sub_state c = 0 then
                     (set_mesg K c CMT_PS_RDY CONTROLMESSAGE)
                       \<lparr>tx_state := tx_idle, sub_state := sub_state c + 1\<rparr>
                   else c);
             c2 = policy_send_data K c1;
             c3 = (if tx_state c2 = tx_success then
                     c2\<lparr>timer_state := T_PD_SOURCE_ON K, sub_state := sub_state c2 + 1\<rparr>
                   else if tx_state c2 = tx_failed then
                     set_state (c2\<lparr>notify := (notify c2)\<lparr>power_role := POWER_ROLE_SOURCE\<rparr>\<rparr>)
                       policy_src_send_hardrst
                   else c2)
         in if sub_state c3 \<noteq> 3 then c3 else case2 c3)
      else if sub_state c = 2 then case2 c
      else c)"

definition fusb_state_drs_evaluate :: "chip \<Rightarrow> u32 \<Rightarrow> chip" where
  "fusb_state_drs_evaluate c evt =
     (if data_role_swap (pd_cap_info c) \<noteq> 0 then
        set_state c (if data_role (notify c) \<noteq> 0
                     then policy_drs_dfp_reject else policy_drs_ufp_accept)
      else
        set_state c (if data_role (notify c) \<noteq> 0
                     then policy_drs_dfp_reject else policy_drs_ufp_reject))"

definition fusb_state_drs_send_accept :: "hdr \<Rightarrow> chip \<Rightarrow> u32 \<Rightarrow> chip" where
  "fusb_state_drs_send_accept K c evt =
     fusb_state_send_simple_msg K c evt CMT_ACCEPT CONTROLMESSAGE
       (if power_role (notify c) \<noteq> 0 then policy_drs_dfp_change else policy_drs_ufp_change)
       error_recovery"

definition fusb_state_drs_role_change :: "chip \<Rightarrow> u32 \<Rightarrow> chip" where
  "fusb_state_drs_role_change c evt =
     (let c1 = c\<lparr>notify := (notify c)\<lparr>data_role :=
                   (if data_role (notify c) \<noteq> 0 then DATA_ROLE_UFP else DATA_ROLE_DFP)\<rparr>\<rparr>
      in set_state c1 (if power_role (notify c1) \<noteq> 0
                       then policy_src_ready else policy_snk_ready))"

definition fusb_state_src_get_sink_cap :: "hdr \<Rightarrow> chip \<Rightarrow> u32 \<Rightarrow> chip" where
  "fusb_state_src_get_sink_cap K c evt =
     (let dflt = (\<lambda>d.
            if evt AND EVENT_RX \<noteq> 0 then
              (if PACKET_IS_DATA_MSG (rec_head d) DMT_SINKCAPABILITIES then
                 set_state
                   (d\<lparr>partner_cap :=
                        fold (\<lambda>i pc. store_at pc (int i) (load_at (rec_load d) (int i)))
                          [0..<unat (PD_HEADER_CNT (rec_head d))] (partner_cap d)\<rparr>)
                   policy_src_ready
               else
                 set_state (d\<lparr>partner_cap := store_at (partner_cap d) 0 0xffffffff\<rparr>)
                   policy_src_ready)
            else if evt AND EVENT_TIMER_STATE \<noteq> 0 then
              set_state (d\<lparr>partner_cap := store_at (partner_cap d) 0 0xffffffff\<rparr>)
                policy_src_ready
            else d);
          c1 = (if sub_state c = 0 then
                  (set_mesg K c CMT_GETSINKCAP CONTROLMESSAGE)
                    \<lparr>tx_state := tx_idle, sub_state := sub_state c + 1\<rparr>
                else c)
      in
      if sub_state c = 0 \<or> sub_state c = 1 then
        (let c2 = policy_send_data K c1;
             c3 = (if tx_state c2 = tx_success then
                     c2\<lparr>timer_state := T_SENDER_RESPONSE K, sub_state := sub_state c2 + 1\<rparr>
                   else if tx_state c2 = tx_failed then
                     set_state c2 policy_src_send_softrst
                   else c2)
         in if evt AND FLAG_EVENT = 0 then c3 else dflt c3)
      else dflt c1)"

definition fusb_state_src_send_hardreset :: "hdr \<Rightarrow> chip \<Rightarrow> u32 \<Rightarrow> chip" where
  "fusb_state_src_send_hardreset K c evt =
     (let c1 = (if sub_state c = 0
                then c\<lparr>tx_state := tx_idle, sub_state := sub_state c + 1\<rparr> else c);
          c2 = policy_send_hardrst K c1 evt
      in if tx_state c2 = tx_success then
           set_state (c2\<lparr>hardrst_count := hardrst_count c2 + 1\<rparr>)
             policy_src_transition_default
         else if tx_state c2 = tx_failed then set_state c2 error_recovery
         else c2)"

definition fusb_state_src_softreset :: "hdr \<Rightarrow> chip \<Rightarrow> chip" where
  "fusb_state_src_softreset K c =
     (let c1 = (if sub_state c = 0 then
                  (set_mesg K c CMT_ACCEPT CONTROLMESSAGE)
                    \<lparr>tx_state := tx_idle, sub_state := sub_state c + 1\<rparr>
                else c);
          c2 = policy_send_data K c1
      in if tx_state c2 = tx_success then
           set_state (fusb_soft_reset_parameter c2) policy_src_send_caps
         else if tx_state c2 = tx_failed then set_state c2 policy_src_send_hardrst
         else c2)"

definition fusb_state_src_send_softreset :: "hdr \<Rightarrow> chip \<Rightarrow> u32 \<Rightarrow> chip" where
  "fusb_state_src_send_softreset K c evt =
     (let dflt = (\<lambda>d.
            if evt AND EVENT_RX \<noteq> 0 then
              (if PACKET_IS_CONTROL_MSG (rec_head d) CMT_ACCEPT then
                 set_state (fusb_soft_reset_parameter d) policy_src_send_caps
               else d)
            else if evt AND EVENT_TIMER_STATE \<noteq> 0 then
              set_state d policy_src_send_hardrst
            else d);
          c1 = (if sub_state c = 0 then
                  (set_mesg K c CMT_SOFTRESET CONTROLMESSAGE)
                    \<lparr>tx_state := tx_idle, sub_state := sub_state c + 1\<rparr>
                else c)
      in
      if sub_state c = 0 \<or> sub_state c = 1 then
        (let c2 = policy_send_data K c1;
             c3 = (if tx_state c2 = tx_success then
                     c2\<lparr>timer_state := T_SENDER_RESPONSE K, sub_state := sub_state c2 + 1\<rparr>
                   else if tx_state c2 = tx_failed then
                     set_state c2 policy_src_send_hardrst
                   else c2)
         in if evt AND FLAG_EVENT = 0 then c3 else dflt c3)
      else dflt c1)"

subsection \<open>Sink policy states\<close>

definition fusb_state_snk_startup :: "hdr \<Rightarrow> chip \<Rightarrow> u32 \<Rightarrow> chip" where
  "fusb_state_snk_startup K c evt =
     (let c1 = fusb_soft_reset_parameter
                 (c\<lparr>notify := (notify c)\<lparr>is_pd_connected := False\<rparr>\<rparr>);
          c2 = c1\<lparr>partner_cap := replicate (length (partner_cap c1)) 0\<rparr>;
          c3 = tcpm_set_polarity c2 (cc_polarity c2)
      in platform_fusb_notify K (set_state c3 policy_snk_discovery))"

definition fusb_state_snk_discovery :: "hdr \<Rightarrow> chip \<Rightarrow> u32 \<Rightarrow> chip" where
  "fusb_state_snk_discovery K c evt =
     (set_state c policy_snk_wait_caps)\<lparr>timer_state := T_TYPEC_SINK_WAIT_CAP K\<rparr>"

definition fusb_state_snk_wait_caps :: "hdr \<Rightarrow> chip \<Rightarrow> u32 \<Rightarrow> chip" where
  "fusb_state_snk_wait_caps K c evt =
     (if evt AND EVENT_RX \<noteq> 0 then
        (if PACKET_IS_DATA_MSG (rec_head c) DMT_SOURCECAPABILITIES then
           set_state (c\<lparr>is_pd_support := True, timer_mux := T_DISABLED K\<rparr>)
             policy_snk_evaluate_caps
         else c)
      else if evt AND EVENT_TIMER_STATE \<noteq> 0 then
        (if hardrst_count c \<le> N_HARDRESET_COUNT K then
           (if vbus_begin c then set_state (c\<lparr>vbus_begin := False\<rparr>) policy_snk_send_softrst
            else set_state c policy_snk_send_hardrst)
         else
           (if is_pd_support c then set_state c error_recovery
            else set_state c disabled))
      else if evt AND EVENT_TIMER_MUX \<noteq> 0 \<and> hardrst_count c > N_HARDRESET_COUNT K then
        (if is_pd_support c then set_state c error_recovery
         else set_state c disabled)
      else c)"

text \<open>One round of the loop of \<^verbatim>\<open>fusb_state_snk_evaluate_caps\<close>.\<close>

definition snk_evaluate_cap :: "hdr \<Rightarrow> nat \<Rightarrow> chip \<Rightarrow> chip" where
  "snk_evaluate_cap K tmp c =
     (let pdo = load_at (rec_load c) (int tmp) in
      if CAP_POWER_TYPE pdo = 0 then
        (if CAP_FPDO_VOLTAGE pdo \<le> 100 then c\<lparr>pos_power := int tmp + 1\<rparr> else c)
      else if CAP_POWER_TYPE pdo = 1 then
        (if CAP_VPDO_VOLTAGE K pdo \<le> 100 then c\<lparr>pos_power := int tmp + 1\<rparr> else c)
      else c)"

definition fusb_state_snk_evaluate_caps :: "hdr \<Rightarrow> hw_in \<Rightarrow> chip \<Rightarrow> u32 \<Rightarrow> chip" where
  "fusb_state_snk_evaluate_caps K hw c evt =
     (let c1 = c\<lparr>hardrst_count := 0, pos_power := 0\<rparr>;
          c2 = fold (snk_evaluate_cap K) [0..<unat (PD_HEADER_CNT (rec_head c1))] c1;
          c3 = fusb302_set_pos_power_by_charge_ic K hw c2
      in if pos_power c3 = 0 \<or> pos_power c3 > 7
         then set_state (c3\<lparr>pos_power := 0\<rparr>) policy_snk_wait_caps
         else set_state c3 policy_snk_select_cap)"

definition fusb_state_snk_select_cap :: "hdr \<Rightarrow> chip \<Rightarrow> u32 \<Rightarrow> chip" where
  "fusb_state_snk_select_cap K c evt =
     (let dflt = (\<lambda>d.
            if evt AND EVENT_RX \<noteq> 0 then
              (if PD_HEADER_CNT (rec_head d) = 0 then
                 (if PD_HEADER_TYPE (rec_head d) = CMT_ACCEPT then
                    (set_state d policy_snk_transition_sink)
                      \<lparr>timer_state := T_PS_TRANSITION K\<rparr>
                  else if PD_HEADER_TYPE (rec_head d) = CMT_WAIT \<or>
                          PD_HEADER_TYPE (rec_head d) = CMT_REJECT then
                    (if is_pd_connected (notify d) then set_state d policy_snk_ready
                     else (set_state d policy_snk_wait_caps)
                            \<lparr>hardrst_count := N_HARDRESET_COUNT K + 1\<rparr>)
                  else d)
               else d)
            else if evt AND EVENT_TIMER_STATE \<noteq> 0 then
              set_state d policy_snk_send_hardrst
            else d);
          c1 = (if sub_state c = 0 then
                  (set_mesg K c DMT_REQUEST DATAMESSAGE)
                    \<lparr>sub_state := 1, tx_state := tx_idle\<rparr>
                else c)
      in
      if sub_state c = 0 \<or> sub_state c = 1 then
        (let c2 = policy_send_data K c1 in
         if tx_state c2 = tx_success then
           (let c3 = c2\<lparr>timer_state := T_SENDER_RESPONSE K, sub_state := sub_state c2 + 1\<rparr>
            in if evt AND FLAG_EVENT = 0 then c3 else dflt c3)
         else if tx_state c2 = tx_failed then set_state c2 policy_snk_discovery
         else if evt AND FLAG_EVENT = 0 then c2
         else dflt c2)
      else dflt c1)"

definition fusb_state_snk_transition_sink :: "chip \<Rightarrow> u32 \<Rightarrow> chip" where
  "fusb_state_snk_transition_sink c evt =
     (if evt AND EVENT_RX \<noteq> 0 then
        (if PACKET_IS_CONTROL_MSG (rec_head c) CMT_PS_RDY then
           set_state (c\<lparr>notify := (notify c)\<lparr>is_pd_connected := True\<rparr>\<rparr>) policy_snk_ready
         else if PACKET_IS_DATA_MSG (rec_head c) DMT_SOURCECAPABILITIES then
           set_state c policy_snk_evaluate_caps
         else c)
      else if evt AND EVENT_TIMER_STATE \<noteq> 0 then set_state c policy_snk_send_hardrst
      else c)"

definition fusb_state_snk_transition_default :: "hdr \<Rightarrow> hw_in \<Rightarrow> chip \<Rightarrow> u32 \<Rightarrow> chip" where
  "fusb_state_snk_transition_default K hw c evt =
     (if sub_state c = 0 \<or> sub_state c = 1 then
        (let c1 = (if sub_state c = 0 then
                     c\<lparr>notify := (notify c)\<lparr>is_pd_connected := False\<rparr>,
                       timer_mux := T_NO_RESPONSE K,
                       timer_state := T_PS_HARD_RESET_MAX K + T_SAFE_0V K,
                       sub_state := sub_state c + 1\<rparr>
                   else c)
         in if \<not> state_vbus hw then
              c1\<lparr>sub_state := sub_state c1 + 1,
                 timer_state := T_SRC_RECOVER_MAX K + T_SRC_TURN_ON K\<rparr>
            else if evt AND EVENT_TIMER_STATE \<noteq> 0 then set_state c1 policy_snk_startup
            else c1)
      else if state_vbus hw then
        set_state (c\<lparr>timer_state := T_DISABLED K\<rparr>) policy_snk_startup
      else if evt AND EVENT_TIMER_STATE \<noteq> 0 then set_state c policy_snk_startup
      else c)"

definition fusb_state_snk_ready :: "hdr \<Rightarrow> chip \<Rightarrow> u32 \<Rightarrow> chip" where
  "fusb_state_snk_ready K c evt =
     (let c1 = ready_rx K c evt;
          c2 = (if VDM_IS_ACTIVE c1 then auto_vdm_machine K c1 evt else c1);
          c3 = fusb_state_swap_msg_process c2 evt
      in platform_fusb_notify K c3)"

definition fusb_state_snk_send_hardreset :: "hdr \<Rightarrow> chip \<Rightarrow> u32 \<Rightarrow> chip" where
  "fusb_state_snk_send_hardreset K c evt =
     (let c1 = (if sub_state c = 0
                then c\<lparr>tx_state := tx_idle, sub_state := sub_state c + 1\<rparr> else c);
          c2 = policy_send_hardrst K c1 evt
      in if tx_state c2 = tx_success then
           set_state (c2\<lparr>hardrst_count := hardrst_count c2 + 1\<rparr>)
             policy_snk_transition_default
         else if tx_state c2 = tx_failed then set_state c2 error_recovery
         else c2)"

definition fusb_state_send_swap :: "hdr \<Rightarrow> chip \<Rightarrow> u32 \<Rightarrow> u16 \<Rightarrow> chip" where
  "fusb_state_send_swap K c evt cmd =
     (if sub_state c = 0 \<or> sub_state c = 1 then
        (let c1 = (if sub_state c = 0 then
                     (set_mesg K c cmd CONTROLMESSAGE)\<lparr>sub_state := 1, tx_state := tx_idle\<rparr>
                   else c);
             c2 = policy_send_data K c1
         in if tx_state c2 = tx_success then
              c2\<lparr>timer_state := T_SENDER_RESPONSE K, sub_state := sub_state c2 + 1\<rparr>
            else if tx_state c2 = tx_failed then
              (if cmd = CMT_DR_SWAP then set_state c2 error_recovery
               else if power_role (notify c2) \<noteq> 0 then set_state c2 policy_src_send_softrst
               else set_state c2 policy_snk_send_softrst)
            else c2)
      else if sub_state c = 2 then
        (if evt AND EVENT_RX \<noteq> 0 then
           (if PACKET_IS_CONTROL_MSG (rec_head c) CMT_ACCEPT then
              (let c1 = c\<lparr>timer_state := T_DISABLED K\<rparr> in
               if cmd = CMT_VCONN_SWAP then
                 set_state c1 (if vconn_enabled c1
                               then policy_vcs_dfp_wait_for_ufp_vconn
                               else policy_vcs_dfp_turn_on_vconn)
               else if cmd = CMT_PR_SWAP then
                 (let c2 = (if power_role (notify c1) \<noteq> 0
                            then set_state c1 policy_src_prs_transition_to_off
                            else set_state c1 policy_snk_prs_transition_to_off)
                  in c2\<lparr>notify := (notify c2)\<lparr>power_role := POWER_ROLE_SOURCE\<rparr>\<rparr>)
               else if cmd = CMT_DR_SWAP then
                 set_state c1 (if data_role (notify c1) \<noteq> 0
                               then policy_drs_dfp_change else policy_drs_ufp_change)
               else c1)
            else if PACKET_IS_CONTROL_MSG (rec_head c) CMT_REJECT \<or>
                    PACKET_IS_CONTROL_MSG (rec_head c) CMT_WAIT then
              (let c1 = c\<lparr>timer_state := T_DISABLED K\<rparr> in
               if power_role (notify c1) \<noteq> 0 then set_state c1 policy_src_ready
               else set_state c1 policy_snk_ready)
            else c)
         else if evt AND EVENT_TIMER_STATE \<noteq> 0 then
           (if power_role (notify c) \<noteq> 0 then set_state c policy_src_ready
            else set_state c policy_snk_ready)
         else c)
      else c)"

definition fusb_state_snk_prs_transition_to_off :: "hdr \<Rightarrow> chip \<Rightarrow> u32 \<Rightarrow> chip" where
  "fusb_state_snk_prs_transition_to_off K c evt =
     (if sub_state c = 0 \<or> sub_state c = 1 then
        (let c1 = (if sub_state c = 0 then
                     c\<lparr>timer_state := T_PD_SOURCE_OFF K, sub_state := sub_state c + 1\<rparr>
                   else c)
         in if evt AND EVENT_RX \<noteq> 0 then
              (if PACKET_IS_CONTROL_MSG (rec_head c1) CMT_PS_RDY then
                 (if role c1 = ROLE_MODE_DRP then set_state c1 policy_snk_prs_assert_rp
                  else set_state c1 policy_snk_prs_source_on)
               else c1)
            else if evt AND EVENT_TIMER_STATE \<noteq> 0 then
              set_state (c1\<lparr>notify := (notify c1)\<lparr>power_role := POWER_ROLE_SINK\<rparr>\<rparr>)
                policy_snk_send_hardrst
            else c1)
      else c)"

definition fusb_state_snk_prs_assert_rp :: "chip \<Rightarrow> u32 \<Rightarrow> chip" where
  "fusb_state_snk_prs_assert_rp c evt = set_state c policy_snk_prs_source_on"

definition fusb_state_snk_prs_source_on :: "hdr \<Rightarrow> chip \<Rightarrow> u32 \<Rightarrow> chip" where
  "fusb_state_snk_prs_source_on K c evt =
     (if sub_state c = 0 then
        c\<lparr>sub_state := sub_state c + 1,
          work_continue := work_continue c OR EVENT_WORK_CONTINUE\<rparr>
      else if sub_state c = 1 \<or> sub_state c = 2 then
        (let c1 = (if sub_state c = 1 then
                     (set_mesg K c CMT_PS_RDY CONTROLMESSAGE)
                       \<lparr>tx_state := tx_idle, sub_state := sub_state c + 1\<rparr>
                   else c);
             c2 = policy_send_data K c1
         in if tx_state c2 = tx_success then
              c2\<lparr>timer_state := T_PD_SWAP_SOURCE_START K, sub_state := sub_state c2 + 1\<rparr>
            else if tx_state c2 = tx_failed then
              set_state (c2\<lparr>notify := (notify c2)\<lparr>power_role := POWER_ROLE_SINK\<rparr>\<rparr>)
                policy_snk_send_hardrst
            else c2)
      else if sub_state c = 3 then
        (if evt AND EVENT_TIMER_STATE \<noteq> 0 then
           set_state
             (c\<lparr>cc_state := (cc_state c AND NOT (CC_STATE_TOGSS_ROLE K))
                               OR CC_STATE_TOGSS_IS_DFP K\<rparr>)
             policy_src_send_caps
         else c)
      else c)"

definition fusb_state_snk_softreset :: "hdr \<Rightarrow> chip \<Rightarrow> chip" where
  "fusb_state_snk_softreset K c =
     (let c1 = (if sub_state c = 0 then
                  (set_mesg K c CMT_ACCEPT CONTROLMESSAGE)
                    \<lparr>tx_state := tx_idle, sub_state := sub_state c + 1\<rparr>
                else c);
          c2 = policy_send_data K c1
      in if tx_state c2 = tx_success then
           set_state ((fusb_soft_reset_parameter c2)\<lparr>timer_state := T_TYPEC_SINK_WAIT_CAP K\<rparr>)
             policy_snk_wait_caps
         else if tx_state c2 = tx_failed then set_state c2 policy_snk_send_hardrst
         else c2)"

definition fusb_state_snk_send_softreset :: "hdr \<Rightarrow> chip \<Rightarrow> u32 \<Rightarrow> chip" where
  "fusb_state_snk_send_softreset K c evt =
     (let dflt = (\<lambda>d.
            if evt AND EVENT_RX \<noteq> 0 then
              (if PD_HEADER_CNT (rec_head d) = 0 \<and> PD_HEADER_TYPE (rec_head d) = CMT_ACCEPT
               then set_state
                      ((fusb_soft_reset_parameter d)\<lparr>timer_state := T_TYPEC_SINK_WAIT_CAP K\<rparr>)
                      policy_snk_wait_caps
               else d)
            else if evt AND EVENT_TIMER_STATE \<noteq> 0 then
              set_state d policy_snk_send_hardrst
            else d);
          c1 = (if sub_state c = 0 then
                  (set_mesg K c CMT_SOFTRESET CONTROLMESSAGE)
                    \<lparr>tx_state := tx_idle, sub_state := sub_state c + 1\<rparr>
                else c)
      in
      if sub_state c = 0 \<or> sub_state c = 1 then
        (let c2 = policy_send_data K c1;
             c3 = (if tx_state c2 = tx_success then
                     c2\<lparr>timer_state := T_SENDER_RESPONSE K, sub_state := sub_state c2 + 1\<rparr>
                   else if tx_state c2 = tx_failed then
                     set_state c2 policy_snk_send_hardrst
                   else c2)
         in if evt AND FLAG_EVENT = 0 then c3 else dflt c3)
      else dflt c1)"

subsection \<open>The state machine\<close>

definition fusb_try_detach :: "hdr \<Rightarrow> hw_in \<Rightarrow> chip \<Rightarrow> chip" where
  "fusb_try_detach K hw c =
     (if CC_STATE_ROLE K c = CC_STATE_TOGSS_IS_ACC K then
        (if fst (detach_cc hw) \<noteq> TYPEC_CC_VOLT_RA \<or> snd (detach_cc hw) \<noteq> TYPEC_CC_VOLT_RA
         then set_state_unattached K c else c)
      else if CC_STATE_ROLE K c = CC_STATE_TOGSS_IS_UFP K \<and>
              conn_state c \<noteq> policy_snk_transition_default \<and>
              conn_state c \<noteq> policy_src_prs_source_off \<and>
              conn_state c \<noteq> policy_snk_prs_send_swap \<and>
              conn_state c \<noteq> policy_snk_prs_assert_rp \<and>
              conn_state c \<noteq> policy_snk_prs_source_on \<and>
              conn_state c \<noteq> policy_snk_prs_transition_to_off then
        (if \<not> detach_vbus hw then set_state_unattached K c else c)
      else if conn_state c \<noteq> policy_src_transition_default \<and>
              conn_state c \<noteq> policy_src_prs_source_off \<and>
              conn_state c \<noteq> policy_snk_prs_source_on then
        (let cc1 = (if cc_state c AND CC_STATE_TOGSS_CC2 K \<noteq> 0
                    then snd (detach_cc hw) else fst (detach_cc hw))
         in if cc1 = TYPEC_CC_VOLT_OPEN then set_state_unattached K c else c)
      else c\<lparr>work_continue := work_continue c OR EVENT_DELAY_CC\<rparr>)"

text \<open>The \<^verbatim>\<open>switch (chip->conn_state)\<close> of \<^verbatim>\<open>state_machine_typec\<close>.\<close>

definition state_dispatch :: "hdr \<Rightarrow> hw_in \<Rightarrow> chip \<Rightarrow> u32 \<Rightarrow> chip" where
  "state_dispatch K hw c evt =
     (case conn_state c of
        disabled \<Rightarrow> fusb_state_disabled c evt
      | error_recovery \<Rightarrow> set_state_unattached K c
      | unattached \<Rightarrow> fusb_state_unattached K hw c evt
      | attach_wait_sink \<Rightarrow> fusb_state_attach_wait_sink K hw c evt
      | attach_wait_source \<Rightarrow> fusb_state_attach_wait_source K hw c evt
      | attached_source \<Rightarrow> fusb_state_attached_source K c evt
      | attached_sink \<Rightarrow> fusb_state_attached_sink K hw c evt
      | attach_try_src \<Rightarrow> fusb_state_try_attach K hw c evt ROLE_MODE_DFP
      | attach_try_snk \<Rightarrow> fusb_state_try_attach K hw c evt ROLE_MODE_UFP
      | attach_wait_audio_acc \<Rightarrow> fusb_state_attach_wait_audio_acc K hw c evt
      | attached_audio_acc \<Rightarrow> fusb_state_attached_audio_acc K c evt
      | policy_src_startup \<Rightarrow> fusb_state_src_startup K c evt
      | policy_src_discovery \<Rightarrow> fusb_state_src_discovery K c evt
      | policy_src_send_caps \<Rightarrow>
          (let c1 = fusb_state_src_send_caps K c evt in
           if conn_state c1 \<noteq> policy_src_negotiate_cap then c1
           else fusb_state_src_transition_supply K (fusb_state_src_negotiate_cap c1 evt) evt)
      | policy_src_negotiate_cap \<Rightarrow>
          fusb_state_src_transition_supply K (fusb_state_src_negotiate_cap c evt) evt
      | policy_src_transition_supply \<Rightarrow> fusb_state_src_transition_supply K c evt
      | policy_src_cap_response \<Rightarrow> fusb_state_src_cap_response K c evt
      | policy_src_transition_default \<Rightarrow> fusb_state_src_transition_default K c evt
      | policy_src_ready \<Rightarrow> fusb_state_src_ready K c evt
      | policy_src_get_sink_caps \<Rightarrow> fusb_state_src_get_sink_cap K c evt
      | policy_src_send_hardrst \<Rightarrow> fusb_state_src_send_hardreset K c evt
      | policy_src_send_softrst \<Rightarrow> fusb_state_src_send_softreset K c evt
      | policy_src_softrst \<Rightarrow> fusb_state_src_softreset K c
      | policy_snk_startup \<Rightarrow> fusb_state_snk_startup K c evt
      | policy_snk_discovery \<Rightarrow> fusb_state_snk_discovery K c evt
      | policy_snk_wait_caps \<Rightarrow> fusb_state_snk_wait_caps K c evt
      | policy_snk_evaluate_caps \<Rightarrow>
          fusb_state_snk_select_cap K (fusb_state_snk_evaluate_caps K hw c evt) evt
      | policy_snk_select_cap \<Rightarrow> fusb_state_snk_select_cap K c evt
      | policy_snk_transition_sink \<Rightarrow> fusb_state_snk_transition_sink c evt
      | policy_snk_transition_default \<Rightarrow> fusb_state_snk_transition_default K hw c evt
      | policy_snk_ready \<Rightarrow> fusb_state_snk_ready K c evt
      | policy_snk_send_hardrst \<Rightarrow> fusb_state_snk_send_hardreset K c evt
      | policy_snk_send_softrst \<Rightarrow> fusb_state_snk_send_softreset K c evt
      | policy_snk_softrst \<Rightarrow> fusb_state_snk_softreset K c
      | policy_src_prs_evaluate \<Rightarrow> fusb_state_prs_evaluate c evt
      | policy_snk_prs_evaluate \<Rightarrow> fusb_state_prs_evaluate c evt
      | policy_snk_prs_accept \<Rightarrow> fusb_state_prs_accept K c evt
      | policy_src_prs_accept \<Rightarrow> fusb_state_prs_accept K c evt
      | policy_snk_prs_reject \<Rightarrow> fusb_state_prs_reject K c evt
      | policy_src_prs_reject \<Rightarrow> fusb_state_prs_reject K c evt
      | policy_vcs_ufp_reject \<Rightarrow> fusb_state_prs_reject K c evt
      | policy_drs_dfp_reject \<Rightarrow> fusb_state_prs_reject K c evt
      | policy_drs_ufp_reject \<Rightarrow> fusb_state_prs_reject K c evt
      | policy_src_prs_transition_to_off \<Rightarrow> fusb_state_src_prs_transition_to_off K c evt
      | policy_src_prs_assert_rd \<Rightarrow> fusb_state_src_prs_assert_rd c evt
      | policy_src_prs_source_off \<Rightarrow> fusb_state_src_prs_source_off K c evt
      | policy_snk_prs_send_swap \<Rightarrow> fusb_state_send_swap K c evt CMT_PR_SWAP
      | policy_src_prs_send_swap \<Rightarrow> fusb_state_send_swap K c evt CMT_PR_SWAP
      | policy_snk_prs_transition_to_off \<Rightarrow> fusb_state_snk_prs_transition_to_off K c evt
      | policy_snk_prs_assert_rp \<Rightarrow> fusb_state_snk_prs_assert_rp c evt
      | policy_snk_prs_source_on \<Rightarrow> fusb_state_snk_prs_source_on K c evt
      | policy_vcs_ufp_evaluate_swap \<Rightarrow> fusb_state_vcs_ufp_evaluate_swap c evt
      | policy_vcs_ufp_accept \<Rightarrow> fusb_state_vcs_ufp_accept K c evt
      | policy_vcs_ufp_wait_for_dfp_vconn \<Rightarrow> fusb_state_vcs_wait_for_vconn K c evt
      | policy_vcs_dfp_wait_for_ufp_vconn \<Rightarrow> fusb_state_vcs_wait_for_vconn K c evt
      | policy_vcs_ufp_turn_off_vconn \<Rightarrow> fusb_state_vcs_set_vconn c evt False
      | policy_vcs_dfp_turn_off_vconn \<Rightarrow> fusb_state_vcs_set_vconn c evt False
      | policy_vcs_ufp_turn_on_vconn \<Rightarrow> fusb_state_vcs_set_vconn c evt True
      | policy_vcs_dfp_turn_on_vconn \<Rightarrow> fusb_state_vcs_set_vconn c evt True
      | policy_vcs_ufp_send_ps_rdy \<Rightarrow> fusb_state_vcs_send_ps_rdy K c evt
      | policy_vcs_dfp_send_ps_rdy \<Rightarrow> fusb_state_vcs_send_ps_rdy K c evt
      | policy_vcs_dfp_send_swap \<Rightarrow> fusb_state_send_swap K c evt CMT_VCONN_SWAP
      | policy_drs_ufp_evaluate \<Rightarrow> fusb_state_drs_evaluate c evt
      | policy_drs_dfp_evaluate \<Rightarrow> fusb_state_drs_evaluate c evt
      | policy_drs_dfp_accept \<Rightarrow> fusb_state_drs_send_accept K c evt
      | policy_drs_ufp_accept \<Rightarrow> fusb_state_drs_send_accept K c evt
      | policy_drs_dfp_change \<Rightarrow> fusb_state_drs_role_change c evt
      | policy_drs_ufp_change \<Rightarrow> fusb_state_drs_role_change c evt
      | policy_drs_ufp_send_swap \<Rightarrow> fusb_state_send_swap K c evt CMT_DR_SWAP
      | policy_drs_dfp_send_swap \<Rightarrow> fusb_state_send_swap K c evt CMT_DR_SWAP)"

text \<open>
  The part of \<^verbatim>\<open>state_machine_typec\<close> between the event collection and the
  \<^verbatim>\<open>switch\<close>: the detach check, the decoding of a received message with the check
  for a soft reset, and the step of the message id.
\<close>

definition typec_detach_check :: "hdr \<Rightarrow> hw_in \<Rightarrow> chip \<Rightarrow> u32 \<Rightarrow> chip" where
  "typec_detach_check K hw c evt =
     (if is_cc_connected (notify c) then
        (if evt AND (EVENT_CC OR EVENT_DELAY_CC) \<noteq> 0 then fusb_try_detach K hw c else c)
      else c)"

definition typec_rx_check :: "hw_in \<Rightarrow> chip \<Rightarrow> u32 \<Rightarrow> chip" where
  "typec_rx_check hw c evt =
     (if evt AND EVENT_RX \<noteq> 0 then
        (let c1 = fst (tcpm_get_message c (fifo hw)) in
         if PACKET_IS_CONTROL_MSG (rec_head c1) CMT_SOFTRESET then
           (if power_role (notify c1) \<noteq> 0 then set_state c1 policy_src_softrst
            else set_state c1 policy_snk_softrst)
         else c1)
      else c)"

definition typec_tx_check :: "chip \<Rightarrow> u32 \<Rightarrow> chip" where
  "typec_tx_check c evt =
     (if evt AND EVENT_TX \<noteq> 0 then
        (if tx_state c = tx_success then c\<lparr>msg_id := msg_id c + 1\<rparr> else c)
      else c)"

text \<open>
  \<^verbatim>\<open>state_machine_typec\<close>, one run of the worker. What follows the label
  \<^verbatim>\<open>BACK\<close> (requeueing the work or enabling the interrupt) changes no field.
\<close>

definition state_machine_typec :: "hdr \<Rightarrow> hw_in \<Rightarrow> chip \<Rightarrow> chip" where
  "state_machine_typec K hw c =
     (case tcpc_alert K hw c 0 of
        (c1, evt1) \<Rightarrow>
          (case mux_alert K c1 evt1 of
             (c2, evt) \<Rightarrow>
               if evt = 0 then c2
               else
                 state_dispatch K hw
                   (typec_tx_check
                      (typec_rx_check hw (typec_detach_check K hw c2 evt) evt) evt)
                   evt))"

subsection \<open>Scenarios\<close>

text \<open>
  An instance of the parameters of the missing header, used where a theorem below is
  evaluated on a concrete input: the retry bounds and timer durations (in milliseconds) of a
  PD port, single-bit role flags in \<^verbatim>\<open>cc_state\<close>, the FIFO tokens of the FUSB302.
\<close>

definition hdr_example :: hdr where
  "hdr_example =
     \<lparr>N_DEBOUNCE_CNT = 9, N_CAPS_COUNT = 50, N_HARDRESET_COUNT = 0,
      T_DISABLED = 0xffff, T_BMC_TIMEOUT = 5, T_SENDER_RESPONSE = 30,
      T_TYPEC_SEND_SOURCECAP = 100, T_TYPEC_SINK_WAIT_CAP = 500,
      T_SRC_TRANSITION = 30, T_SRC_RECOVER = 830, T_SRC_RECOVER_MAX = 1000,
      T_SRC_TURN_ON = 275, T_NO_RESPONSE = 5000, T_PS_TRANSITION = 500,
      T_PS_HARD_RESET_MAX = 35, T_SAFE_0V = 650, T_PD_SOURCE_ON = 480,
      T_PD_SOURCE_OFF = 920, T_PD_TRY_DRP = 75, T_PD_VCONN_SRC_ON = 100,
      T_PD_SWAP_SOURCE_START = 20,
      CC_STATE_TOGSS_CC1 = 1, CC_STATE_TOGSS_CC2 = 2, CC_STATE_TOGSS_IS_UFP = 4,
      CC_STATE_TOGSS_IS_DFP = 8, CC_STATE_TOGSS_IS_ACC = 16, CC_STATE_TOGSS_ROLE = 28,
      FUSB_TKN_SYNC1 = 0x12, FUSB_TKN_SYNC2 = 0x13, FUSB_TKN_PACKSYM = 0x80,
      FUSB_TKN_JAMCRC = 0xff, FUSB_TKN_EOP = 0x14, FUSB_TKN_TXOFF = 0xfe,
      FUSB_TKN_TXON = 0xa1,
      CAP_VPDO_VOLTAGE = (\<lambda>pdo. (drop_bit 20 pdo) AND 0x3ff),
      CAP_VPDO_CURRENT = (\<lambda>pdo. pdo AND 0x3ff),
      GET_DP_STATUS = (\<lambda>x. x),
      GET_DP_STATUS_HPD = (\<lambda>x. bit x 7)\<rparr>"

text \<open>
  The port context as \<^verbatim>\<open>fusb30x_probe\<close> leaves it for a dual-role port with no
  try-role: zeroed by \<^verbatim>\<open>devm_kzalloc\<close>, then the assignments of the probe function.
\<close>

definition chip_probed :: "hdr \<Rightarrow> chip" where
  "chip_probed K =
     \<lparr>conn_state = unattached, sub_state = 0, val_tmp = 0, work_continue = 0,
      timer_state = T_DISABLED K, timer_mux = T_DISABLED K, cc_state = 0, cc1 = 0, cc2 = 0,
      cc_polarity = TYPEC_POLARITY_CC1, debounce_cnt = 0, caps_counter = 0,
      send_load = replicate 7 0, rec_load = replicate 7 0, send_head = 0, rec_head = 0,
      msg_id = 0, tx_state = tx_idle, hardrst_count = 0,
      source_power_supply = 0x64 # replicate 6 0, source_max_current = 0x96 # replicate 6 0,
      pos_power = 0, partner_cap = replicate 7 0, n_caps_used = 1,
      vdm_state = 0, vdm_substate = 0, vdm_send_state = 0, vdm_svid = replicate 12 0,
      vdm_svid_num = 0, vdm_id = 0, vconn_enabled = False, is_pd_support = False,
      pd_output_vol = 0, pd_output_cur = 0, vbus_begin = False,
      role = ROLE_MODE_DRP, try_role = ROLE_MODE_NONE, vconn_supported = True,
      try_role_complete = False, notify = notify_zero, notify_cmp = notify_zero,
      pd_cap_info = \<lparr>peak_current = 0, externally_powered = 1, usb_suspend_support = 0,
                      usb_communications_cap = 0, dual_role_power = 1, data_role_swap = 1,
                      supply_type = 0\<rparr>,
      alert_retry = 0, out = []\<rparr>"

text \<open>A run of the state machine in which the hardware reports nothing.\<close>

definition hw_idle :: hw_in where
  "hw_idle =
     \<lparr>i_comp_chng = False, i_vbusok = False, ia_togdone = False, ia_txsent = False,
      ia_hardrst = False, ia_retryfail = False, ia_hardsent = False, ib_gcrcsent = False,
      status0_comp = False, status1a = 0, fifo = [], detach_cc = (0, 0),
      detach_vbus = True, state_cc = (0, 0), state_vbus = True, charger = None\<rparr>"

text \<open>
  A frame as the receive FIFO holds it: the start-of-packet token, the two header bytes,
  the data objects and the four CRC bytes; and a run of GoodCRC frames, each given by its
  token, header and CRC bytes.
\<close>

definition rx_frame :: "u8 \<Rightarrow> u16 \<Rightarrow> u32 list \<Rightarrow> u8 list \<Rightarrow> u8 list" where
  "rx_frame tok head objs crc =
     tok # ucast head # ucast (drop_bit 8 head) # le_bytes objs @ crc"

definition goodcrc_frames :: "(u8 \<times> u16 \<times> u8 list) list \<Rightarrow> u8 list" where
  "goodcrc_frames gs = concat (map (\<lambda>(tok, head, crc). rx_frame tok head [] crc) gs)"

text \<open>
  The state handlers run over a list of ticks, each the hardware input and the event word
  of one dispatch.
\<close>

fun run_ticks :: "hdr \<Rightarrow> chip \<Rightarrow> (hw_in \<times> u32) list \<Rightarrow> chip" where
  "run_ticks K c [] = c"
| "run_ticks K c (t # ts) = run_ticks K (state_dispatch K (fst t) c (snd t)) ts"

text \<open>
  The guard under which \<^verbatim>\<open>fusb_state_attach_wait_sink\<close> leaves on VBUS alone,
  before it samples the CC lines.
\<close>

definition vbus_shortcut :: "chip \<Rightarrow> hw_in \<Rightarrow> bool" where
  "vbus_shortcut c hw =
     (conn_state c = attach_wait_sink \<and> state_vbus hw \<and>
      (try_role_complete c \<or> (role c = ROLE_MODE_DRP \<and> try_role c = ROLE_MODE_DFP)))"

text \<open>The CC samples of the ticks on which the debounce timer has expired, in order.\<close>

definition cc_samples :: "(hw_in \<times> u32) list \<Rightarrow> (int \<times> int) list" where
  "cc_samples ts =
     map (\<lambda>t. state_cc (fst t)) (filter (\<lambda>t. snd t AND EVENT_TIMER_MUX \<noteq> 0) ts)"

text \<open>
  The pin-assignment selection as the specification words it, on the pin-capability bitmap
  (bit 0 is pin A, bit 5 is pin F): drop the multi-function pins B, D, F unless the UFP
  prefers multi-function, drop the pins of the signalling not in use, drop E and F when C
  or D remains, and take the highest-numbered pin left.
\<close>

definition spec_pin_candidates :: "u32 \<Rightarrow> bool \<Rightarrow> bool \<Rightarrow> nat list" where
  "spec_pin_candidates pins mf gen2 =
     (let offered = filter (bit pins) [0..<6];
          no_mf = (if mf then offered else filter (\<lambda>i. i \<notin> {1, 3, 5}) offered);
          sig = (if gen2 then filter (\<lambda>i. i \<in> {0, 1}) no_mf
                 else filter (\<lambda>i. i \<in> {2, 3, 4, 5}) no_mf)
      in if 2 \<in> set sig \<or> 3 \<in> set sig then filter (\<lambda>i. i \<notin> {4, 5}) sig else sig)"

definition spec_choose_pin_assignment :: "u32 \<Rightarrow> bool \<Rightarrow> bool \<Rightarrow> u32" where
  "spec_choose_pin_assignment pins mf gen2 =
     (let cand = spec_pin_candidates pins mf gen2
      in if cand = [] then 0 else 2 ^ last cand)"

text \<open>
  The body of \<^verbatim>\<open>pd_dfp_dp_get_pin_assignment\<close> after its three reads of the
  arguments.
\<close>

definition pin_select :: "u32 \<Rightarrow> bool \<Rightarrow> bool \<Rightarrow> u32" where
  "pin_select pin_caps mf gen2 =
     (let pin_caps1 = (if \<not> mf
                       then pin_caps AND NOT MODE_DP_PIN_MF_MASK else pin_caps);
          pin_caps2 = (if gen2
                       then pin_caps1 AND NOT MODE_DP_PIN_DP_MASK
                       else pin_caps1 AND NOT MODE_DP_PIN_BR2_MASK);
          pin_caps3 = (if pin_caps2 AND (MODE_DP_PIN_C OR MODE_DP_PIN_D) \<noteq> 0
                       then pin_caps2 AND NOT (MODE_DP_PIN_E OR MODE_DP_PIN_F)
                       else pin_caps2)
      in if pin_caps3 = 0 then 0 else push_bit (31 - builtin_clz pin_caps3) 1)"

text \<open>
  The three attach-wait states, and the relation between the debounce counter and the
  samples seen so far, latest first: the counter never exceeds the number of latest
  samples that equal the stored pair.
\<close>

definition wait_state :: "connection_state \<Rightarrow> bool" where
  "wait_state s = (s = attach_wait_sink \<or> s = attach_wait_source \<or> s = attach_wait_audio_acc)"

definition deb_inv :: "chip \<Rightarrow> (int \<times> int) list \<Rightarrow> bool" where
  "deb_inv c rs =
     (unat (debounce_cnt c) \<le> length rs \<and>
      (\<forall>x \<in> set (take (unat (debounce_cnt c)) rs). x = (cc1 c, cc2 c)))"

text \<open>The concrete input on which the debounce theorem is evaluated.\<close>

definition deb_hdr :: hdr where
  "deb_hdr = hdr_example\<lparr>N_DEBOUNCE_CNT := 1\<rparr>"

definition deb_chip :: chip where
  "deb_chip = (chip_probed deb_hdr)\<lparr>conn_state := attach_wait_source, cc1 := 2\<rparr>"

definition deb_tick :: "int \<times> int \<Rightarrow> hw_in \<times> u32" where
  "deb_tick s = (hw_idle\<lparr>state_cc := s\<rparr>, EVENT_TIMER_MUX)"

text \<open>
  The snapshot that \<^verbatim>\<open>platform_fusb_notify\<close> computes before it compares: the
  current \<^verbatim>\<open>notify\<close> with the orientation refreshed while the CC is connected.
\<close>

definition notify_snapshot :: "chip \<Rightarrow> notify_info" where
  "notify_snapshot c =
     (if is_cc_connected (notify c)
      then (notify c)\<lparr>orientation :=
             (if cc_polarity c = TYPEC_POLARITY_CC1
              then TYPEC_ORIENTATION_CC1 else TYPEC_ORIENTATION_CC2)\<rparr>
      else notify c)"

text \<open>The publications in the output log.\<close>

fun published :: "hw_out list \<Rightarrow> publication list" where
  "published [] = []"
| "published (PUBLISH p # os) = p # published os"
| "published (x # os) = published os"

text \<open>
  A port in a PD state \<open>s\<close> with power role \<open>pr\<close> and data role \<open>dr\<close>,
  attached on CC1: the probed context with the connection flags, the roles and the toggle
  result set as the attach handlers set them.
\<close>

definition pd_chip :: "connection_state \<Rightarrow> int \<Rightarrow> int \<Rightarrow> chip" where
  "pd_chip s pr dr =
     (chip_probed hdr_example)
       \<lparr>conn_state := s, cc_state := (if pr \<noteq> 0 then 9 else 5), is_pd_support := True,
        notify := notify_zero\<lparr>orientation := TYPEC_ORIENTATION_CC1, power_role := pr,
                             data_role := dr, is_cc_connected := True,
                             is_pd_connected := True\<rparr>,
        notify_cmp := notify_zero\<lparr>orientation := TYPEC_ORIENTATION_CC1, power_role := pr,
                                 data_role := dr, is_cc_connected := True,
                                 is_pd_connected := True\<rparr>\<rparr>"

text \<open>The hardware input of a run in which a message has been received.\<close>

definition hw_rx :: "u8 list \<Rightarrow> hw_in" where
  "hw_rx f = hw_idle\<lparr>ib_gcrcsent := True, fifo := f\<rparr>"

text \<open>
  A structured vendor defined message with command type NACK (a refused Discover SVIDs):
  its PD header (one data object, type 15) and its VDM header.
\<close>

definition nack_head :: u16 where "nack_head = 0x100f"
definition nack_vdm :: u32 where "nack_vdm = 0xff008082"

text \<open>
  The event word of a run of \<^verbatim>\<open>state_machine_typec\<close>, and the port context as it
  stands when the received message is decoded: after \<^verbatim>\<open>tcpc_alert\<close>,
  \<^verbatim>\<open>mux_alert\<close> and the detach check.
\<close>

definition typec_evt :: "hdr \<Rightarrow> hw_in \<Rightarrow> chip \<Rightarrow> u32" where
  "typec_evt K hw c =
     snd (mux_alert K (fst (tcpc_alert K hw c 0)) (snd (tcpc_alert K hw c 0)))"

definition typec_before_rx :: "hdr \<Rightarrow> hw_in \<Rightarrow> chip \<Rightarrow> chip" where
  "typec_before_rx K hw c =
     typec_detach_check K hw
       (fst (mux_alert K (fst (tcpc_alert K hw c 0)) (snd (tcpc_alert K hw c 0))))
       (typec_evt K hw c)"

text \<open>A Soft_Reset control message, and a run that also sees the CC line open.\<close>

definition softreset_frame :: "u8 list" where
  "softreset_frame = rx_frame 0xe0 0x000d [] [0, 0, 0, 0]"

definition hw_rx_detach :: "u8 list \<Rightarrow> hw_in" where
  "hw_rx_detach f = (hw_rx f)\<lparr>i_comp_chng := True, status0_comp := True\<rparr>"

text \<open>
  A sink that has sent its Request and waits for the answer, no contract being in place;
  the frames of a Reject and of a Source_Capabilities message offering 5 V at 1.5 A; a run
  in which the transmitter reports that its retries failed; and consecutive runs of the
  state machine.
\<close>

definition snk_requesting :: chip where
  "snk_requesting =
     (pd_chip policy_snk_select_cap 0 0)
       \<lparr>sub_state := 2, tx_state := tx_success,
        timer_state := T_SENDER_RESPONSE hdr_example,
        notify := (notify (pd_chip policy_snk_select_cap 0 0))\<lparr>is_pd_connected := False\<rparr>,
        notify_cmp := (notify (pd_chip policy_snk_select_cap 0 0))\<lparr>is_pd_connected := False\<rparr>\<rparr>"

definition reject_frame :: "u8 list" where
  "reject_frame = rx_frame 0xe0 0x0004 [] [0, 0, 0, 0]"

definition srccap_frame :: "u8 list" where
  "srccap_frame = rx_frame 0xe0 0x1001 [0x00019096] [0, 0, 0, 0]"

definition hw_txfail :: hw_in where
  "hw_txfail = hw_idle\<lparr>ia_retryfail := True\<rparr>"

definition run_machine :: "hdr \<Rightarrow> hw_in list \<Rightarrow> chip \<Rightarrow> chip" where
  "run_machine K hws c = fold (state_machine_typec K) hws c"

text \<open>
  A sink whose Request is rejected, which then receives Source_Capabilities again, fails to
  transmit its new Request and lets the wait for capabilities time out: the port after the
  Reject, when it waits again, after the expiry of the state timer, and one run later.
\<close>

definition snk_rejected :: chip where
  "snk_rejected = state_machine_typec hdr_example (hw_rx reject_frame) snk_requesting"

definition snk_waiting_again :: chip where
  "snk_waiting_again =
     run_machine hdr_example [hw_rx srccap_frame, hw_idle, hw_txfail, hw_idle, hw_idle]
       snk_rejected"

definition snk_timed_out :: chip where
  "snk_timed_out =
     state_machine_typec hdr_example hw_idle
       (fusb_timer_handler_state hdr_example snk_waiting_again)"

definition snk_after_timeout :: chip where
  "snk_after_timeout = state_machine_typec hdr_example hw_idle snk_timed_out"

text \<open>
  The port context at the transmit check of a run, and whether the run confirms a
  transmission: the event word has \<^verbatim>\<open>EVENT_TX\<close> and \<^verbatim>\<open>tx_state\<close> is
  \<^verbatim>\<open>tx_success\<close> at the check.
\<close>

definition typec_before_tx :: "hdr \<Rightarrow> hw_in \<Rightarrow> chip \<Rightarrow> chip" where
  "typec_before_tx K hw c =
     typec_rx_check hw (typec_before_rx K hw c) (typec_evt K hw c)"

definition tx_confirmed :: "hdr \<Rightarrow> hw_in \<Rightarrow> chip \<Rightarrow> bool" where
  "tx_confirmed K hw c =
     (typec_evt K hw c AND EVENT_TX \<noteq> 0 \<and> tx_state (typec_before_tx K hw c) = tx_success)"

text \<open>
  The two ways a run zeroes the message id. \<^verbatim>\<open>tcpc_alert\<close> executes
  \<^verbatim>\<open>pd_execute_hard_reset\<close> on the interrupt of a received hard reset and on the
  first interrupt of a sent one. The handler that the dispatch calls for the state of
  \<open>x\<close> calls \<^verbatim>\<open>fusb_soft_reset_parameter\<close>: always in the two startup states; in
  the states that accept a soft reset when the Accept is found transmitted; in the states
  that send a soft reset when a received Accept is at hand.
\<close>

definition hard_reset_alert :: "hw_in \<Rightarrow> chip \<Rightarrow> bool" where
  "hard_reset_alert hw c = (ia_hardrst hw \<or> ia_hardsent hw \<and> alert_retry c = 0)"

definition soft_reset_state :: "connection_state \<Rightarrow> bool" where
  "soft_reset_state s =
     (s = policy_src_startup \<or> s = policy_snk_startup \<or>
      s = policy_src_softrst \<or> s = policy_snk_softrst \<or>
      s = policy_src_send_softrst \<or> s = policy_snk_send_softrst)"

definition soft_reset_called :: "chip \<Rightarrow> u32 \<Rightarrow> bool" where
  "soft_reset_called x evt =
     (if conn_state x = policy_src_startup \<or> conn_state x = policy_snk_startup then True
      else if conn_state x = policy_src_softrst \<or> conn_state x = policy_snk_softrst then
        sub_state x \<noteq> 0 \<and> tx_state x = tx_success
      else if conn_state x = policy_src_send_softrst \<or> conn_state x = policy_snk_send_softrst
      then evt AND EVENT_RX \<noteq> 0 \<and> PACKET_IS_CONTROL_MSG (rec_head x) CMT_ACCEPT
      else False)"

text \<open>
  The port context at the dispatch of a run; a run that zeroes the message id in its
  dispatch; a run that keeps the message id.
\<close>

definition typec_at_dispatch :: "hdr \<Rightarrow> hw_in \<Rightarrow> chip \<Rightarrow> chip" where
  "typec_at_dispatch K hw c = typec_tx_check (typec_before_tx K hw c) (typec_evt K hw c)"

definition soft_reset_run :: "hdr \<Rightarrow> hw_in \<Rightarrow> chip \<Rightarrow> bool" where
  "soft_reset_run K hw c =
     (typec_evt K hw c \<noteq> 0 \<and>
      soft_reset_called (typec_at_dispatch K hw c) (typec_evt K hw c))"

definition id_kept :: "hdr \<Rightarrow> hw_in \<Rightarrow> chip \<Rightarrow> bool" where
  "id_kept K hw c = (\<not> hard_reset_alert hw c \<and> \<not> soft_reset_run K hw c)"

text \<open>
  Over consecutive runs: every run keeps the message id; the number of runs that confirm
  a transmission.
\<close>

fun kept_runs :: "hdr \<Rightarrow> hw_in list \<Rightarrow> chip \<Rightarrow> bool" where
  "kept_runs K [] c = True"
| "kept_runs K (hw # hws) c = (id_kept K hw c \<and> kept_runs K hws (state_machine_typec K hw c))"

fun confirmed_sends :: "hdr \<Rightarrow> hw_in list \<Rightarrow> chip \<Rightarrow> nat" where
  "confirmed_sends K [] c = 0"
| "confirmed_sends K (hw # hws) c =
     (if tx_confirmed K hw c then 1 else 0) + confirmed_sends K hws (state_machine_typec K hw c)"

text \<open>
  A run in which the transmitter reports a message sent, and a source that is sending the
  Accept of a soft reset, its message id being 3.
\<close>

definition hw_txsent :: hw_in where
  "hw_txsent = hw_idle\<lparr>ia_txsent := True\<rparr>"

definition src_accepting_softreset :: chip where
  "src_accepting_softreset =
     (pd_chip policy_src_softrst 1 1)\<lparr>sub_state := 1, tx_state := tx_busy, msg_id := 3\<rparr>"

text \<open>
  A transport on which every transmission fails. What makes the worker run next: its own
  requeueing (\<^verbatim>\<open>work_continue\<close> set), else the transmitter reporting that the
  retries of the pending transmission failed, else the expiry of the armed state timer;
  else nothing. \<open>fail_step\<close> is the run of the state machine on that trigger, and
  \<open>tx_attempts\<close> counts the messages written to the transmit FIFO.
\<close>

datatype trigger = Requeued | Tx_failed | Timer_expired | Quiescent

definition next_trigger :: "hdr \<Rightarrow> chip \<Rightarrow> trigger" where
  "next_trigger K c =
     (if work_continue c \<noteq> 0 then Requeued
      else if tx_state c = tx_busy then Tx_failed
      else if timer_state c \<noteq> T_DISABLED K then Timer_expired
      else Quiescent)"

definition fail_step :: "hdr \<Rightarrow> chip \<Rightarrow> chip" where
  "fail_step K c =
     (case next_trigger K c of
        Requeued \<Rightarrow> state_machine_typec K hw_idle c
      | Tx_failed \<Rightarrow> state_machine_typec K hw_txfail c
      | Timer_expired \<Rightarrow> state_machine_typec K hw_idle (fusb_timer_handler_state K c)
      | Quiescent \<Rightarrow> c)"

fun is_fifo_write :: "hw_out \<Rightarrow> bool" where
  "is_fifo_write (FIFO_WRITE bs) = True"
| "is_fifo_write SEND_HARDRESET = False"
| "is_fifo_write (PUBLISH p) = False"

definition tx_attempts :: "chip \<Rightarrow> nat" where
  "tx_attempts c = length (filter is_fifo_write (out c))"

text \<open>
  The four phases of one round of the capability retry cycle, \<open>k\<close> failed rounds being
  behind: about to send, waiting for the transmitter, about to count the failure, waiting
  for the retry timer.
\<close>

definition caps_phase :: "hdr \<Rightarrow> int \<Rightarrow> nat \<Rightarrow> chip \<Rightarrow> bool" where
  "caps_phase K k p c =
     (timer_mux c = T_DISABLED K \<and>
      (if p = 0 then
         conn_state c = policy_src_send_caps \<and> sub_state c = 0 \<and> caps_counter c = k \<and>
         work_continue c = EVENT_WORK_CONTINUE \<and> timer_state c = T_DISABLED K
       else if p = 1 then
         conn_state c = policy_src_send_caps \<and> sub_state c = 1 \<and> caps_counter c = k \<and>
         work_continue c = 0 \<and> tx_state c = tx_busy \<and> timer_state c = T_DISABLED K
       else if p = 2 then
         conn_state c = policy_src_discovery \<and> sub_state c = 0 \<and> caps_counter c = k \<and>
         work_continue c = EVENT_WORK_CONTINUE \<and> tx_state c = tx_failed \<and>
         timer_state c = T_DISABLED K
       else
         conn_state c = policy_src_discovery \<and> sub_state c = 1 \<and> caps_counter c = k + 1 \<and>
         work_continue c = 0 \<and> tx_state c = tx_failed \<and>
         timer_state c = T_TYPEC_SEND_SOURCECAP K))"

text \<open>
  The trigger of each phase; a source that has just been attached, about to run
  \<^verbatim>\<open>policy_src_startup\<close>; and the example constants with two capability attempts.
\<close>

definition phase_trigger :: "nat \<Rightarrow> trigger" where
  "phase_trigger p =
     (if p = 0 \<or> p = 2 then Requeued else if p = 1 then Tx_failed else Timer_expired)"

definition src_attached :: chip where
  "src_attached =
     (pd_chip policy_src_startup 1 1)
       \<lparr>work_continue := EVENT_WORK_CONTINUE,
        notify := (notify (pd_chip policy_src_startup 1 1))\<lparr>is_pd_connected := False\<rparr>,
        notify_cmp := (notify (pd_chip policy_src_startup 1 1))\<lparr>is_pd_connected := False\<rparr>\<rparr>"

definition hdr_two_caps :: hdr where
  "hdr_two_caps = hdr_example\<lparr>N_CAPS_COUNT := 2\<rparr>"

text \<open>
  A source that has sent its capabilities, advertising one, and has received a Request
  whose object position is 2; and the port after the run of the state machine that handles
  the Request.
\<close>

definition src_bad_request :: chip where
  "src_bad_request =
     (pd_chip policy_src_negotiate_cap 1 1)
       \<lparr>work_continue := EVENT_WORK_CONTINUE, tx_state := tx_success,
        rec_head := 0x1002, rec_load := 0x20000000 # replicate 6 0,
        notify := (notify (pd_chip policy_src_negotiate_cap 1 1))\<lparr>is_pd_connected := False\<rparr>,
        notify_cmp :=
          (notify (pd_chip policy_src_negotiate_cap 1 1))\<lparr>is_pd_connected := False\<rparr>\<rparr>"

definition src_bad_request_run :: chip where
  "src_bad_request_run = state_machine_typec hdr_example hw_idle src_bad_request"

text \<open>
  A sink whose connection has just been published for the first time, and the same port
  with an Attention message in its receive buffer (a structured vendor defined message,
  command type initiator, command Attention, DisplayPort status word 0).
\<close>

definition snk_published :: chip where
  "snk_published =
     platform_fusb_notify hdr_example
       ((pd_chip policy_snk_ready 0 0)\<lparr>notify_cmp := notify_zero\<rparr>)"

definition snk_attention :: chip where
  "snk_attention =
     snk_published\<lparr>rec_head := 0x200f, rec_load := 0xff018006 # replicate 6 0\<rparr>"

text \<open>
  A source that has sent a hard reset and waits in \<^verbatim>\<open>policy_src_transition_default\<close>
  for the recovery time to pass; the port five runs later on the failing transport, when it
  waits for the retry timer after its first failed capability transmission; and the port
  after the run in which the mux timer, armed with \<^verbatim>\<open>T_NO_RESPONSE\<close>, expires then.
\<close>

definition src_hard_reset_sent :: chip where
  "src_hard_reset_sent =
     (pd_chip policy_src_transition_default 1 1)
       \<lparr>sub_state := 1, hardrst_count := 1, timer_state := T_SRC_RECOVER hdr_two_caps,
        notify := (notify (pd_chip policy_src_transition_default 1 1))
                    \<lparr>is_pd_connected := False\<rparr>,
        notify_cmp := (notify (pd_chip policy_src_transition_default 1 1))
                        \<lparr>is_pd_connected := False\<rparr>\<rparr>"

definition src_retry_wait :: chip where
  "src_retry_wait = (fail_step hdr_two_caps ^^ 5) src_hard_reset_sent"

definition src_no_response :: chip where
  "src_no_response =
     state_machine_typec hdr_two_caps hw_idle (fusb_timer_handler_mux hdr_two_caps src_retry_wait)"

section \<open>Bytes, words and the receive FIFO\<close>

lemma and_3f_range: "(x::u32) AND 0x3f \<in> set (map of_nat [0..<64])"
proof -
  have "unat (x AND 0x3f) \<le> unat (0x3f :: u32)"
    by (rule word_and_le1 [THEN word_le_nat_alt [THEN iffD1]])
  then have "unat (x AND 0x3f) < 64" by simp
  moreover have "x AND 0x3f = of_nat (unat (x AND 0x3f))" by simp
  ultimately show ?thesis
    by (metis atLeastLessThan_iff image_eqI set_map set_upt zero_le)
qed

lemma pin_caps_range: "PD_DP_PIN_CAPS caps \<in> set (map of_nat [0..<64])"
  by (metis PD_DP_PIN_CAPS_def and_3f_range)

lemma head_bytes:
  "((ucast (ucast (h::u16) :: u8) AND 0xff) OR
    (push_bit 8 (ucast (ucast (drop_bit 8 h) :: u8)) AND 0xff00) :: u16) = h"
proof -
  have m1: "(0xff::u16) = mask 8" by (simp add: mask_eq_exp_minus_1)
  have m2: "(0xff00::u16) = push_bit 8 (mask 8)" by (simp add: mask_eq_exp_minus_1)
  show ?thesis
    unfolding m1 m2
    by (rule bit_word_eqI) (auto simp add: bit_simps)
qed

lemma le32_bytes:
  "le32 (ucast (w::u32)) (ucast (drop_bit 8 w)) (ucast (drop_bit 16 w)) (ucast (drop_bit 24 w)) = w"
  unfolding le32_def
proof (rule bit_word_eqI)
  fix n assume "n < LENGTH(32)"
  consider "n < 8" | "8 \<le> n" "n < 16" | "16 \<le> n" "n < 24" | "24 \<le> n" by linarith
  then show "bit (ucast (ucast w :: u8) OR push_bit 8 (ucast (ucast (drop_bit 8 w) :: u8)) OR
       push_bit 16 (ucast (ucast (drop_bit 16 w) :: u8)) OR push_bit 24 (ucast (ucast (drop_bit 24 w) :: u8)) :: u32) n = bit w n"
    using \<open>n < LENGTH(32)\<close> by cases (auto simp add: bit_simps)
qed

lemma le_words_bytes: "le_words (le_bytes ws @ r) = ws @ le_words r"
  by (induction ws) (simp_all add: le32_bytes)

lemma length_le_bytes: "length (le_bytes ws) = 4 * length ws"
  by (induction ws) simp_all

lemma fifo_read_app:
  "length xs = n \<Longrightarrow> fifo_read n (xs @ r) = (xs, r)"
  by (simp add: fifo_read_def)

lemma loop_frame:
  assumes "length objs = unat (PD_HEADER_CNT head)" "length crc = 4"
  shows "tcpm_get_message_loop (rx_frame tok head objs crc @ rest) =
           (if PACKET_IS_CONTROL_MSG head CMT_GOODCRC then tcpm_get_message_loop rest
            else (head, le_bytes objs @ crc, rest))"
proof -
  have r3: "fifo_read 3 (rx_frame tok head objs crc @ rest) =
              ([tok, ucast head, ucast (drop_bit 8 head)], le_bytes objs @ crc @ rest)"
    using fifo_read_app [of "[tok, ucast head, ucast (drop_bit 8 head)]" 3 "le_bytes objs @ crc @ rest"]
    by (simp add: rx_frame_def)
  have h: "fifo_head [tok, ucast head, ucast (drop_bit 8 head)] = head"
    by (simp add: fifo_head_def head_bytes numeral_2_eq_2)
  have r2: "fifo_read (unat (PD_HEADER_CNT head) * 4 + 4) (le_bytes objs @ crc @ rest) =
              (le_bytes objs @ crc, rest)"
    using fifo_read_app [of "le_bytes objs @ crc" "unat (PD_HEADER_CNT head) * 4 + 4" rest] assms
    by (simp add: length_le_bytes)
  show ?thesis
    by (subst tcpm_get_message_loop.simps) (simp add: r3 h r2 Let_def)
qed


lemma loop_goodcrcs:
  assumes "\<forall>g \<in> set gs. PACKET_IS_CONTROL_MSG (fst (snd g)) CMT_GOODCRC \<and> length (snd (snd g)) = 4"
  shows "tcpm_get_message_loop (goodcrc_frames gs @ rest) = tcpm_get_message_loop rest"
  using assms
proof (induction gs)
  case Nil
  then show ?case by (simp add: goodcrc_frames_def)
next
  case (Cons g gs)
  obtain tok head crc where g: "g = (tok, head, crc)" by (cases g) auto
  from Cons.prems g have gc: "PACKET_IS_CONTROL_MSG head CMT_GOODCRC" and l: "length crc = 4"
    by auto
  from gc have cnt: "unat (PD_HEADER_CNT head) = 0"
    by (simp add: PACKET_IS_CONTROL_MSG_def)
  have "tcpm_get_message_loop (rx_frame tok head [] crc @ (goodcrc_frames gs @ rest)) =
          tcpm_get_message_loop (goodcrc_frames gs @ rest)"
    using loop_frame [of "[]" head crc tok "goodcrc_frames gs @ rest"] gc l cnt by simp
  moreover have "goodcrc_frames (g # gs) @ rest =
                   rx_frame tok head [] crc @ (goodcrc_frames gs @ rest)"
    by (simp add: goodcrc_frames_def g)
  ultimately show ?case using Cons by simp
qed

section \<open>Debounce\<close>

lemma conn_state_notify [simp]: "conn_state (platform_fusb_notify K c) = conn_state c"
  by (simp add: platform_fusb_notify_def Let_def)

lemma conn_state_unattached [simp]: "conn_state (set_state_unattached K c) = unattached"
  by (simp add: set_state_unattached_def Let_def set_state_def)

lemma conn_state_set_state [simp]: "conn_state (set_state c s) = s"
  by (simp add: set_state_def)

lemma conn_state_try_attach_set:
  "mode = ROLE_MODE_DFP \<or> mode = ROLE_MODE_UFP \<Longrightarrow>
   conn_state (fusb_state_try_attach_set K c mode) = (if mode = ROLE_MODE_DFP then attach_try_src else attach_try_snk)"
  by (auto simp add: fusb_state_try_attach_set_def)

lemma debounce_sample_fields [simp]:
  "conn_state (debounce_sample c s) = conn_state c"
  "role (debounce_sample c s) = role c"
  "try_role (debounce_sample c s) = try_role c"
  "try_role_complete (debounce_sample c s) = try_role_complete c"
  by (simp_all add: debounce_sample_def)

lemma debounce_sample_timer [simp]:
  "debounce_cnt (debounce_sample (c\<lparr>timer_mux := t\<rparr>) s) = debounce_cnt (debounce_sample c s)"
  "cc1 (debounce_sample (c\<lparr>timer_mux := t\<rparr>) s) = cc1 (debounce_sample c s)"
  "cc2 (debounce_sample (c\<lparr>timer_mux := t\<rparr>) s) = cc2 (debounce_sample c s)"
  by (simp_all add: debounce_sample_def)

lemma step_nopoll:
  "wait_state (conn_state c) \<Longrightarrow> evt AND EVENT_TIMER_MUX = 0 \<Longrightarrow> state_dispatch K hw c evt = c"
  by (auto simp add: wait_state_def state_dispatch_def fusb_state_attach_wait_sink_def
      fusb_state_attach_wait_source_def fusb_state_attach_wait_audio_acc_def)

lemma step_shortcut:
  "evt AND EVENT_TIMER_MUX \<noteq> 0 \<Longrightarrow> vbus_shortcut c hw \<Longrightarrow>
   conn_state (state_dispatch K hw c evt) \<noteq> conn_state c"
  by (auto simp add: vbus_shortcut_def state_dispatch_def fusb_state_attach_wait_sink_def
      conn_state_try_attach_set Let_def)

lemma step_poll_low:
  assumes "wait_state (conn_state c)" "evt AND EVENT_TIMER_MUX \<noteq> 0" "\<not> vbus_shortcut c hw"
      and "uint (debounce_cnt (debounce_sample c (state_cc hw))) \<le> N_DEBOUNCE_CNT K"
  shows "conn_state (state_dispatch K hw c evt) = conn_state c \<and>
         debounce_cnt (state_dispatch K hw c evt) = debounce_cnt (debounce_sample c (state_cc hw)) \<and>
         cc1 (state_dispatch K hw c evt) = cc1 (debounce_sample c (state_cc hw)) \<and>
         cc2 (state_dispatch K hw c evt) = cc2 (debounce_sample c (state_cc hw))"
  using assms
  by (auto simp add: wait_state_def vbus_shortcut_def state_dispatch_def fusb_state_attach_wait_sink_def
      fusb_state_attach_wait_source_def fusb_state_attach_wait_audio_acc_def Let_def)

lemma step_poll_high:
  assumes "wait_state (conn_state c)" "evt AND EVENT_TIMER_MUX \<noteq> 0" "\<not> vbus_shortcut c hw"
      and "uint (debounce_cnt (debounce_sample c (state_cc hw))) > N_DEBOUNCE_CNT K"
  shows "conn_state (state_dispatch K hw c evt) \<noteq> conn_state c"
  using assms
  by (auto simp add: wait_state_def vbus_shortcut_def state_dispatch_def fusb_state_attach_wait_sink_def
      fusb_state_attach_wait_source_def fusb_state_attach_wait_audio_acc_def Let_def
      conn_state_try_attach_set split: if_splits)

lemma deb_inv_sample:
  assumes "deb_inv c rs"
  shows "deb_inv (debounce_sample c smp) (smp # rs) \<and>
         (cc1 (debounce_sample c smp), cc2 (debounce_sample c smp)) = smp"
proof (cases "cc1 c = fst smp \<and> cc2 c = snd smp")
  case True
  have le: "unat (debounce_cnt c + 1) \<le> unat (debounce_cnt c) + 1"
    by (simp add: unat_word_ariths)
  have "set (take (unat (debounce_cnt c + 1)) (smp # rs)) \<subseteq>
        set (take (Suc (unat (debounce_cnt c))) (smp # rs))"
    using le by (intro set_take_subset_set_take) simp
  with True assms le show ?thesis
    by (auto simp add: deb_inv_def debounce_sample_def)
next
  case False
  then show ?thesis by (auto simp add: deb_inv_def debounce_sample_def)
qed

lemma deb_inv_cong:
  "deb_inv c rs \<Longrightarrow> debounce_cnt d = debounce_cnt c \<Longrightarrow> cc1 d = cc1 c \<Longrightarrow> cc2 d = cc2 c \<Longrightarrow>
   deb_inv d rs"
  by (simp add: deb_inv_def)

lemma cc_samples_Cons:
  "cc_samples (t # ts) =
     (if snd t AND EVENT_TIMER_MUX \<noteq> 0 then state_cc (fst t) # cc_samples ts else cc_samples ts)"
  by (simp add: cc_samples_def)

lemma cc_samples_snoc:
  "cc_samples (ts @ [t]) =
     (if snd t AND EVENT_TIMER_MUX \<noteq> 0 then cc_samples ts @ [state_cc (fst t)] else cc_samples ts)"
  by (simp add: cc_samples_def)

lemma run_inv:
  assumes "wait_state s"
  shows "conn_state c = s \<Longrightarrow> deb_inv c rs \<Longrightarrow>
         (\<forall>i \<le> length ts. conn_state (run_ticks K c (take i ts)) = s) \<Longrightarrow>
         deb_inv (run_ticks K c ts) (rev (cc_samples ts) @ rs)"
proof (induction ts arbitrary: c rs)
  case Nil
  then show ?case by (simp add: cc_samples_def)
next
  case (Cons t ts)
  define c' where "c' = state_dispatch K (fst t) c (snd t)"
  have run: "\<And>i. run_ticks K c (take (Suc i) (t # ts)) = run_ticks K c' (take i ts)"
    by (simp add: c'_def)
  have "conn_state (run_ticks K c (take (Suc 0) (t # ts))) = s"
    using Cons.prems(3) by (metis Suc_leI length_Cons zero_less_Suc)
  then have st': "conn_state c' = s" unfolding run by simp
  have rest: "\<forall>i \<le> length ts. conn_state (run_ticks K c' (take i ts)) = s"
  proof (intro allI impI)
    fix i assume "i \<le> length ts"
    then have "Suc i \<le> length (t # ts)" by simp
    then have "conn_state (run_ticks K c (take (Suc i) (t # ts))) = s"
      using Cons.prems(3) by blast
    then show "conn_state (run_ticks K c' (take i ts)) = s" unfolding run .
  qed
  have ws: "wait_state (conn_state c)" using assms Cons.prems(1) by simp
  have res: "run_ticks K c (t # ts) = run_ticks K c' ts" by (simp add: c'_def)
  show ?case
  proof (cases "snd t AND EVENT_TIMER_MUX \<noteq> 0")
    case False
    then have "c' = c" unfolding c'_def using step_nopoll [OF ws] by simp
    then have "deb_inv c' rs" using Cons.prems(2) by simp
    from Cons.IH [OF st' this rest] have "deb_inv (run_ticks K c' ts) (rev (cc_samples ts) @ rs)" .
    moreover have "cc_samples (t # ts) = cc_samples ts" using False by (simp add: cc_samples_Cons)
    ultimately show ?thesis unfolding res by simp
  next
    case True
    have ns: "\<not> vbus_shortcut c (fst t)"
    proof
      assume "vbus_shortcut c (fst t)"
      from step_shortcut [OF True this, of K] have "conn_state c' \<noteq> conn_state c"
        unfolding c'_def .
      with st' Cons.prems(1) show False by simp
    qed
    have low: "uint (debounce_cnt (debounce_sample c (state_cc (fst t)))) \<le> N_DEBOUNCE_CNT K"
    proof (rule ccontr)
      assume "\<not> ?thesis"
      then have "uint (debounce_cnt (debounce_sample c (state_cc (fst t)))) > N_DEBOUNCE_CNT K"
        by simp
      from step_poll_high [OF ws True ns this] have "conn_state c' \<noteq> conn_state c"
        unfolding c'_def .
      with st' Cons.prems(1) show False by simp
    qed
    from step_poll_low [OF ws True ns low]
    have f: "debounce_cnt c' = debounce_cnt (debounce_sample c (state_cc (fst t)))"
            "cc1 c' = cc1 (debounce_sample c (state_cc (fst t)))"
            "cc2 c' = cc2 (debounce_sample c (state_cc (fst t)))"
      unfolding c'_def by blast+
    have "deb_inv (debounce_sample c (state_cc (fst t))) (state_cc (fst t) # rs)"
      using deb_inv_sample [OF Cons.prems(2)] by blast
    then have "deb_inv c' (state_cc (fst t) # rs)"
      using f by (rule deb_inv_cong)
    from Cons.IH [OF st' this rest]
    have "deb_inv (run_ticks K c' ts) (rev (cc_samples ts) @ state_cc (fst t) # rs)" .
    moreover have "cc_samples (t # ts) = state_cc (fst t) # cc_samples ts"
      using True by (simp add: cc_samples_Cons)
    ultimately show ?thesis unfolding res by simp
  qed
qed

lemma last_samples:
  assumes "wait_state s" "conn_state c = s" "debounce_cnt c = 0" "0 \<le> N_DEBOUNCE_CNT K"
      and stay: "\<forall>i \<le> length ts. conn_state (run_ticks K c (take i ts)) = s"
      and leave: "conn_state (state_dispatch K hw (run_ticks K c ts) evt) \<noteq> s"
      and ns: "\<not> vbus_shortcut (run_ticks K c ts) hw"
  shows "take (nat (N_DEBOUNCE_CNT K) + 1) (rev (cc_samples (ts @ [(hw, evt)]))) =
           replicate (nat (N_DEBOUNCE_CNT K) + 1) (state_cc hw)"
proof -
  define d where "d = run_ticks K c ts"
  define n where "n = nat (N_DEBOUNCE_CNT K) + 1"
  define e where "e = debounce_sample d (state_cc hw)"
  define rs where "rs = state_cc hw # rev (cc_samples ts)"
  have "conn_state (run_ticks K c (take (length ts) ts)) = s" using stay by blast
  then have std: "conn_state d = s" by (simp add: d_def)
  have leave': "conn_state (state_dispatch K hw d evt) \<noteq> s" using leave unfolding d_def .
  have ws: "wait_state (conn_state d)" using assms(1) std by simp
  have "deb_inv c []" using assms(3) by (simp add: deb_inv_def)
  from run_inv [OF assms(1) assms(2) this stay]
  have inv: "deb_inv d (rev (cc_samples ts))" unfolding d_def by simp
  have poll: "evt AND EVENT_TIMER_MUX \<noteq> 0"
  proof
    assume "evt AND EVENT_TIMER_MUX = 0"
    from step_nopoll [OF ws this] have "conn_state (state_dispatch K hw d evt) = conn_state d"
      by (rule arg_cong)
    with leave' std show False by argo
  qed
  have ns': "\<not> vbus_shortcut d hw" using ns unfolding d_def .
  have high: "uint (debounce_cnt e) > N_DEBOUNCE_CNT K"
  proof (rule ccontr)
    assume "\<not> ?thesis"
    then have "uint (debounce_cnt (debounce_sample d (state_cc hw))) \<le> N_DEBOUNCE_CNT K"
      by (simp add: e_def)
    from step_poll_low [OF ws poll ns' this]
    have "conn_state (state_dispatch K hw d evt) = conn_state d" by blast
    with leave' std show False by argo
  qed
  have "uint (debounce_cnt e) = int (unat (debounce_cnt e))" by (rule uint_nat)
  with high have n: "n \<le> unat (debounce_cnt e)"
    using assms(4) unfolding n_def by linarith
  from deb_inv_sample [OF inv, of "state_cc hw"]
  have i2: "deb_inv e rs" and st: "(cc1 e, cc2 e) = state_cc hw"
    unfolding e_def rs_def by blast+
  have len: "n \<le> length rs" using i2 n by (simp add: deb_inv_def)
  have "set (take n rs) \<subseteq> set (take (unat (debounce_cnt e)) rs)"
    using n by (rule set_take_subset_set_take)
  moreover have "\<forall>x \<in> set (take (unat (debounce_cnt e)) rs). x = state_cc hw"
    using i2 st by (simp add: deb_inv_def)
  ultimately have all: "\<forall>x \<in> set (take n rs). x = state_cc hw" by blast
  have "take n rs = replicate n (state_cc hw)"
  proof (rule replicate_eqI)
    show "length (take n rs) = n" using len by simp
  next
    fix y assume "y \<in> set (take n rs)"
    with all show "y = state_cc hw" by blast
  qed
  moreover have "rev (cc_samples (ts @ [(hw, evt)])) = rs"
    using poll by (simp add: cc_samples_snoc rs_def)
  ultimately show ?thesis unfolding n_def by simp
qed

lemma differing_sample:
  assumes "wait_state (conn_state c)" "0 \<le> N_DEBOUNCE_CNT K"
      and "evt AND EVENT_TIMER_MUX \<noteq> 0" "\<not> vbus_shortcut c hw"
      and "state_cc hw \<noteq> (cc1 c, cc2 c)"
  shows "debounce_cnt (state_dispatch K hw c evt) = 0 \<and>
         conn_state (state_dispatch K hw c evt) = conn_state c \<and>
         (cc1 (state_dispatch K hw c evt), cc2 (state_dispatch K hw c evt)) = state_cc hw"
proof -
  have d: "debounce_cnt (debounce_sample c (state_cc hw)) = 0"
    "cc1 (debounce_sample c (state_cc hw)) = fst (state_cc hw)"
    "cc2 (debounce_sample c (state_cc hw)) = snd (state_cc hw)"
    using assms(5) by (auto simp add: debounce_sample_def prod_eq_iff)
  then have "uint (debounce_cnt (debounce_sample c (state_cc hw))) \<le> N_DEBOUNCE_CNT K"
    using assms(2) by simp
  from step_poll_low [OF assms(1) assms(3) assms(4) this] d show ?thesis by simp
qed

text \<open>
  Claim C1 (debounce). Let the port be in one of the three attach-wait states with the
  debounce counter at 0, as the handlers that enter these states leave it, and let the
  handler of that state run over any list of ticks. If the port stays in the state through
  the ticks \<open>ts\<close> and the next tick leaves it, other than by the VBUS guard of
  \<^verbatim>\<open>attach_wait_sink\<close> that does not look at the CC lines, then the latest
  \<open>N_DEBOUNCE_CNT + 1\<close> samples fed to the handler are all the same pair. And on any
  tick that samples, a sample that differs from the stored previous one leaves the counter
  at 0, the state unchanged and the new sample stored.
\<close>

theorem debounce_monotonicity:
  assumes "conn_state c = attach_wait_sink \<or> conn_state c = attach_wait_source \<or>
           conn_state c = attach_wait_audio_acc"
      and "0 \<le> N_DEBOUNCE_CNT K"
  shows "(debounce_cnt c = 0 \<and>
          (\<forall>i \<le> length ts. conn_state (run_ticks K c (take i ts)) = conn_state c) \<and>
          conn_state (state_dispatch K hw (run_ticks K c ts) evt) \<noteq> conn_state c \<and>
          \<not> vbus_shortcut (run_ticks K c ts) hw
          \<longrightarrow> take (nat (N_DEBOUNCE_CNT K) + 1) (rev (cc_samples (ts @ [(hw, evt)]))) =
                replicate (nat (N_DEBOUNCE_CNT K) + 1) (state_cc hw)) \<and>
         (evt' AND EVENT_TIMER_MUX \<noteq> 0 \<and> \<not> vbus_shortcut c hw' \<and>
          state_cc hw' \<noteq> (cc1 c, cc2 c)
          \<longrightarrow> debounce_cnt (state_dispatch K hw' c evt') = 0 \<and>
                conn_state (state_dispatch K hw' c evt') = conn_state c \<and>
                (cc1 (state_dispatch K hw' c evt'), cc2 (state_dispatch K hw' c evt')) =
                  state_cc hw')"
proof -
  have ws: "wait_state (conn_state c)" using assms(1) by (simp add: wait_state_def)
  show ?thesis
  proof (intro conjI impI)
    assume a: "debounce_cnt c = 0 \<and>
          (\<forall>i \<le> length ts. conn_state (run_ticks K c (take i ts)) = conn_state c) \<and>
          conn_state (state_dispatch K hw (run_ticks K c ts) evt) \<noteq> conn_state c \<and>
          \<not> vbus_shortcut (run_ticks K c ts) hw"
    show "take (nat (N_DEBOUNCE_CNT K) + 1) (rev (cc_samples (ts @ [(hw, evt)]))) =
            replicate (nat (N_DEBOUNCE_CNT K) + 1) (state_cc hw)"
      by (rule last_samples [OF ws refl _ assms(2)]) (use a in blast)+
  next
    assume b: "evt' AND EVENT_TIMER_MUX \<noteq> 0 \<and> \<not> vbus_shortcut c hw' \<and>
               state_cc hw' \<noteq> (cc1 c, cc2 c)"
    from differing_sample [OF ws assms(2), of evt' hw'] b
    show "debounce_cnt (state_dispatch K hw' c evt') = 0"
      and "conn_state (state_dispatch K hw' c evt') = conn_state c"
      and "(cc1 (state_dispatch K hw' c evt'), cc2 (state_dispatch K hw' c evt')) = state_cc hw'"
      by blast+
  qed
qed


theorem debounce_monotonicity_witness:
  "take 2 (rev (cc_samples [deb_tick (2, 0), deb_tick (2, 0)])) = replicate 2 (2, 0) \<and>
   debounce_cnt (state_dispatch deb_hdr (fst (deb_tick (0, 0))) deb_chip EVENT_TIMER_MUX) = 0"
proof -
  have s: "conn_state deb_chip = attach_wait_source \<or> conn_state deb_chip = attach_wait_sink \<or>
           conn_state deb_chip = attach_wait_audio_acc"
    by code_simp
  have n: "0 \<le> N_DEBOUNCE_CNT deb_hdr" "nat (N_DEBOUNCE_CNT deb_hdr) + 1 = 2"
    by (simp_all add: deb_hdr_def hdr_example_def)
  have c0: "debounce_cnt deb_chip = 0" by code_simp
  have r0: "conn_state (run_ticks deb_hdr deb_chip []) = conn_state deb_chip" by simp
  have r1: "conn_state (run_ticks deb_hdr deb_chip [deb_tick (2, 0)]) = conn_state deb_chip"
    by code_simp
  have stay: "\<forall>i \<le> length [deb_tick (2, 0)].
                conn_state (run_ticks deb_hdr deb_chip (take i [deb_tick (2, 0)])) =
                conn_state deb_chip"
    using r0 r1 by (auto simp add: le_Suc_eq)
  have leave: "conn_state (state_dispatch deb_hdr (fst (deb_tick (2, 0)))
                 (run_ticks deb_hdr deb_chip [deb_tick (2, 0)]) (snd (deb_tick (2, 0)))) \<noteq>
               conn_state deb_chip"
    by code_simp
  have ns: "\<not> vbus_shortcut (run_ticks deb_hdr deb_chip [deb_tick (2, 0)]) (fst (deb_tick (2, 0)))"
    by code_simp
  have d: "EVENT_TIMER_MUX AND EVENT_TIMER_MUX \<noteq> 0 \<and>
           \<not> vbus_shortcut deb_chip (fst (deb_tick (0, 0))) \<and>
           state_cc (fst (deb_tick (0, 0))) \<noteq> (cc1 deb_chip, cc2 deb_chip)"
    by code_simp
  from debounce_monotonicity [of deb_chip deb_hdr "[deb_tick (2, 0)]" "fst (deb_tick (2, 0))"
      "snd (deb_tick (2, 0))" EVENT_TIMER_MUX "fst (deb_tick (0, 0))"] s n(1)
  have "(debounce_cnt deb_chip = 0 \<and>
          (\<forall>i \<le> length [deb_tick (2, 0)].
             conn_state (run_ticks deb_hdr deb_chip (take i [deb_tick (2, 0)])) = conn_state deb_chip) \<and>
          conn_state (state_dispatch deb_hdr (fst (deb_tick (2, 0)))
             (run_ticks deb_hdr deb_chip [deb_tick (2, 0)]) (snd (deb_tick (2, 0)))) \<noteq> conn_state deb_chip \<and>
          \<not> vbus_shortcut (run_ticks deb_hdr deb_chip [deb_tick (2, 0)]) (fst (deb_tick (2, 0)))
          \<longrightarrow> take (nat (N_DEBOUNCE_CNT deb_hdr) + 1)
                  (rev (cc_samples ([deb_tick (2, 0)] @ [(fst (deb_tick (2, 0)), snd (deb_tick (2, 0)))]))) =
                replicate (nat (N_DEBOUNCE_CNT deb_hdr) + 1) (state_cc (fst (deb_tick (2, 0))))) \<and>
         (EVENT_TIMER_MUX AND EVENT_TIMER_MUX \<noteq> 0 \<and> \<not> vbus_shortcut deb_chip (fst (deb_tick (0, 0))) \<and>
          state_cc (fst (deb_tick (0, 0))) \<noteq> (cc1 deb_chip, cc2 deb_chip)
          \<longrightarrow> debounce_cnt (state_dispatch deb_hdr (fst (deb_tick (0, 0))) deb_chip EVENT_TIMER_MUX) = 0 \<and>
                conn_state (state_dispatch deb_hdr (fst (deb_tick (0, 0))) deb_chip EVENT_TIMER_MUX) = conn_state deb_chip \<and>
                (cc1 (state_dispatch deb_hdr (fst (deb_tick (0, 0))) deb_chip EVENT_TIMER_MUX),
                 cc2 (state_dispatch deb_hdr (fst (deb_tick (0, 0))) deb_chip EVENT_TIMER_MUX)) =
                  state_cc (fst (deb_tick (0, 0))))"
    by blast
  with c0 stay leave ns d
  have "take (nat (N_DEBOUNCE_CNT deb_hdr) + 1)
          (rev (cc_samples ([deb_tick (2, 0)] @ [(fst (deb_tick (2, 0)), snd (deb_tick (2, 0)))]))) =
        replicate (nat (N_DEBOUNCE_CNT deb_hdr) + 1) (state_cc (fst (deb_tick (2, 0))))"
    and "debounce_cnt (state_dispatch deb_hdr (fst (deb_tick (0, 0))) deb_chip EVENT_TIMER_MUX) = 0"
    by blast+
  then show ?thesis
    unfolding n(2) by (simp add: deb_tick_def)
qed

section \<open>GoodCRC frames\<close>

text \<open>
  Claim C3 (GoodCRC transparency). Let the receive FIFO hold any number of GoodCRC control
  frames, then one frame that is not a GoodCRC control message with as many data objects as
  its header counts, then any further bytes. \<^verbatim>\<open>tcpm_get_message\<close> leaves exactly
  that frame in the port context: its header in \<^verbatim>\<open>rec_head\<close>, its data objects at
  the front of \<^verbatim>\<open>rec_load\<close>; it has consumed the GoodCRC frames and that frame and
  nothing after it. No GoodCRC header is left in \<^verbatim>\<open>rec_head\<close>.
\<close>

theorem goodcrc_transparency:
  assumes "\<forall>g \<in> set gs. PACKET_IS_CONTROL_MSG (fst (snd g)) CMT_GOODCRC \<and> length (snd (snd g)) = 4"
      and "\<not> PACKET_IS_CONTROL_MSG head CMT_GOODCRC"
      and "length objs = unat (PD_HEADER_CNT head)"
      and "length crc = 4"
  shows "tcpm_get_message c (goodcrc_frames gs @ rx_frame tok head objs crc @ rest) =
           (c\<lparr>rec_head := head, rec_load := objs @ drop (length objs) (rec_load c)\<rparr>, rest)"
proof -
  have "tcpm_get_message_loop (goodcrc_frames gs @ rx_frame tok head objs crc @ rest) =
          (head, le_bytes objs @ crc, rest)"
    using loop_goodcrcs [OF assms(1)] loop_frame [OF assms(3) assms(4)] assms(2) by simp
  moreover have "le_words (take (unat (PD_HEADER_CNT head) * 4) (le_bytes objs @ crc)) = objs"
    using le_words_bytes [of objs "[]"] assms(3) by (simp add: length_le_bytes)
  ultimately show ?thesis
    using assms(3) by (simp add: tcpm_get_message_def Let_def)
qed


theorem goodcrc_transparency_witness:
  "tcpm_get_message (chip_probed hdr_example)
     (goodcrc_frames [(0xe0, 0x0041, [1, 2, 3, 4]), (0xe0, 0x0241, [5, 6, 7, 8])] @
      rx_frame 0xe0 0x1042 [0x11000000] [9, 10, 11, 12] @ [])
   = ((chip_probed hdr_example)\<lparr>rec_head := 0x1042,
        rec_load := [0x11000000] @ drop (length [0x11000000 :: u32])
                      (rec_load (chip_probed hdr_example))\<rparr>, [])"
proof -
  have g: "\<forall>g \<in> set [(0xe0 :: u8, 0x0041 :: u16, [1, 2, 3, 4 :: u8]), (0xe0, 0x0241, [5, 6, 7, 8])].
             PACKET_IS_CONTROL_MSG (fst (snd g)) CMT_GOODCRC \<and> length (snd (snd g)) = 4"
    by (simp add: PACKET_IS_CONTROL_MSG_def PD_HEADER_CNT_def PD_HEADER_TYPE_def CMT_GOODCRC_def)
  have h: "\<not> PACKET_IS_CONTROL_MSG 0x1042 CMT_GOODCRC"
    by (simp add: PACKET_IS_CONTROL_MSG_def PD_HEADER_CNT_def PD_HEADER_TYPE_def CMT_GOODCRC_def)
  have l: "length [0x11000000 :: u32] = unat (PD_HEADER_CNT 0x1042)"
    by (simp add: PD_HEADER_CNT_def)
  have c: "length [9, 10, 11, 12 :: u8] = 4" by simp
  show ?thesis by (rule goodcrc_transparency [OF g h l c])
qed

section \<open>Pin assignment\<close>

lemma get_pin_select:
  "pd_dfp_dp_get_pin_assignment caps status =
     pin_select (PD_DP_PIN_CAPS caps) (PD_VDO_DPSTS_MF_PREF status \<noteq> 0) (PD_DP_SIGNAL_GEN2 caps \<noteq> 0)"
  by (simp add: pd_dfp_dp_get_pin_assignment_def pin_select_def Let_def)

lemmas pin_defs = pin_select_def spec_choose_pin_assignment_def spec_pin_candidates_def
  MODE_DP_PIN_MF_MASK_def MODE_DP_PIN_DP_MASK_def MODE_DP_PIN_BR2_MASK_def
  MODE_DP_PIN_A_def MODE_DP_PIN_B_def MODE_DP_PIN_C_def MODE_DP_PIN_D_def MODE_DP_PIN_E_def MODE_DP_PIN_F_def
  builtin_clz_def Let_def

lemma all64: "\<forall>p \<in> set (map of_nat [0..<64]). \<forall>mf gen2. pin_select p mf gen2 = spec_choose_pin_assignment p mf gen2"
  apply (simp only: list_all_iff[symmetric])
  apply code_simp
  done

text \<open>
  Claim C5 (pin-assignment selection), as amended. \<^verbatim>\<open>pd_dfp_dp_get_pin_assignment\<close>
  is a function of \<open>caps\<close> and \<open>status\<close> alone, and it computes the selection that
  the specification words: from the pin-capability bitmap of \<open>caps\<close> it drops B, D and F
  unless \<open>status\<close> asserts the multi-function preference, drops the pins of the
  signalling not in use (C to F under USB Gen 2 signalling, A and B otherwise), drops E and
  F when C or D remains, and returns the highest-numbered pin left, or 0 when none is left.
  For the bitmap \<open>0b000110\<close> (B and C) and no multi-function preference it returns pin
  C when \<open>caps\<close> signals DisplayPort, and 0 when \<open>caps\<close> signals USB Gen 2.
\<close>

theorem pin_assignment_selection:
  "pd_dfp_dp_get_pin_assignment caps status =
     spec_choose_pin_assignment (PD_DP_PIN_CAPS caps)
       (PD_VDO_DPSTS_MF_PREF status \<noteq> 0) (PD_DP_SIGNAL_GEN2 caps \<noteq> 0) \<and>
   (PD_DP_PIN_CAPS caps = 6 \<and> PD_VDO_DPSTS_MF_PREF status = 0 \<and> PD_DP_SIGNAL_GEN2 caps = 0
      \<longrightarrow> pd_dfp_dp_get_pin_assignment caps status = MODE_DP_PIN_C) \<and>
   (PD_DP_PIN_CAPS caps = 6 \<and> PD_VDO_DPSTS_MF_PREF status = 0 \<and> PD_DP_SIGNAL_GEN2 caps \<noteq> 0
      \<longrightarrow> pd_dfp_dp_get_pin_assignment caps status = 0)"
proof -
  have eq: "pd_dfp_dp_get_pin_assignment caps status =
     spec_choose_pin_assignment (PD_DP_PIN_CAPS caps)
       (PD_VDO_DPSTS_MF_PREF status \<noteq> 0) (PD_DP_SIGNAL_GEN2 caps \<noteq> 0)"
    using all64 pin_caps_range [of caps] unfolding get_pin_select by blast
  have "spec_choose_pin_assignment 6 False False = MODE_DP_PIN_C"
    "spec_choose_pin_assignment 6 False True = 0"
    by code_simp+
  with eq show ?thesis by simp
qed

theorem pin_assignment_selection_witness:
  "PD_DP_PIN_CAPS 0x600 = 6 \<and> PD_VDO_DPSTS_MF_PREF 0 = 0 \<and> PD_DP_SIGNAL_GEN2 0x600 = 0 \<and>
   pd_dfp_dp_get_pin_assignment 0x600 0 = MODE_DP_PIN_C"
proof -
  have h: "PD_DP_PIN_CAPS 0x600 = 6 \<and> PD_VDO_DPSTS_MF_PREF 0 = 0 \<and> PD_DP_SIGNAL_GEN2 0x600 = 0"
    by (simp add: PD_DP_PIN_CAPS_def PD_VDO_DPSTS_MF_PREF_def PD_DP_SIGNAL_GEN2_def)
  with pin_assignment_selection [of "0x600" 0] show ?thesis by blast
qed

text \<open>
  The example of the claim as worded fails: with the same pin bitmap and no multi-function
  preference, but \<open>caps\<close> signalling USB Gen 2, pin C is dropped and the result is 0.
\<close>

theorem pin_assignment_selection_counterexample:
  "PD_DP_PIN_CAPS 0x608 = 6 \<and> PD_VDO_DPSTS_MF_PREF 0 = 0 \<and>
   pd_dfp_dp_get_pin_assignment 0x608 0 = 0 \<and>
   pd_dfp_dp_get_pin_assignment 0x608 0 \<noteq> MODE_DP_PIN_C"
  by code_simp

section \<open>Frame lemmas\<close>

lemma set_mesg_frame:
  "set_mesg K c cmd d =
     c\<lparr>send_head := send_head (set_mesg K c cmd d), send_load := send_load (set_mesg K c cmd d)\<rparr>"
  by (simp add: set_mesg_def Let_def)

lemma set_mesg_fields [simp]:
  "conn_state (set_mesg K c cmd d) = conn_state c"
  "sub_state (set_mesg K c cmd d) = sub_state c"
  "tx_state (set_mesg K c cmd d) = tx_state c"
  "msg_id (set_mesg K c cmd d) = msg_id c"
  "out (set_mesg K c cmd d) = out c"
  "work_continue (set_mesg K c cmd d) = work_continue c"
  "timer_state (set_mesg K c cmd d) = timer_state c"
  "timer_mux (set_mesg K c cmd d) = timer_mux c"
  "caps_counter (set_mesg K c cmd d) = caps_counter c"
  "hardrst_count (set_mesg K c cmd d) = hardrst_count c"
  "notify (set_mesg K c cmd d) = notify c"
  "vdm_state (set_mesg K c cmd d) = vdm_state c"
  "rec_head (set_mesg K c cmd d) = rec_head c"
  "rec_load (set_mesg K c cmd d) = rec_load c"
  "is_pd_support (set_mesg K c cmd d) = is_pd_support c"
  "alert_retry (set_mesg K c cmd d) = alert_retry c"
  "val_tmp (set_mesg K c cmd d) = val_tmp c"
  "partner_cap (set_mesg K c cmd d) = partner_cap c"
  "pos_power (set_mesg K c cmd d) = pos_power c"
  "vbus_begin (set_mesg K c cmd d) = vbus_begin c"
  by (subst set_mesg_frame, simp)+

lemma policy_send_data_idle:
  "tx_state c = tx_idle \<Longrightarrow>
   policy_send_data K c =
     c\<lparr>out := hd (out (policy_send_data K c)) # out c, tx_state := tx_busy\<rparr>"
  by (simp add: policy_send_data_def Let_def)

lemma policy_send_data_other:
  "tx_state c \<noteq> tx_idle \<Longrightarrow> policy_send_data K c = c"
  by (simp add: policy_send_data_def)

lemma policy_send_data_fields [simp]:
  "conn_state (policy_send_data K c) = conn_state c"
  "sub_state (policy_send_data K c) = sub_state c"
  "msg_id (policy_send_data K c) = msg_id c"
  "work_continue (policy_send_data K c) = work_continue c"
  "timer_state (policy_send_data K c) = timer_state c"
  "timer_mux (policy_send_data K c) = timer_mux c"
  "caps_counter (policy_send_data K c) = caps_counter c"
  "hardrst_count (policy_send_data K c) = hardrst_count c"
  "notify (policy_send_data K c) = notify c"
  "vdm_state (policy_send_data K c) = vdm_state c"
  "rec_head (policy_send_data K c) = rec_head c"
  "rec_load (policy_send_data K c) = rec_load c"
  "is_pd_support (policy_send_data K c) = is_pd_support c"
  "alert_retry (policy_send_data K c) = alert_retry c"
  "val_tmp (policy_send_data K c) = val_tmp c"
  "partner_cap (policy_send_data K c) = partner_cap c"
  "pos_power (policy_send_data K c) = pos_power c"
  "vbus_begin (policy_send_data K c) = vbus_begin c"
  by (simp_all add: policy_send_data_def Let_def)

lemma policy_send_data_tx:
  "tx_state (policy_send_data K c) = (if tx_state c = tx_idle then tx_busy else tx_state c)"
  by (simp add: policy_send_data_def Let_def)

lemma set_state_fields [simp]:
  "conn_state (set_state c s) = s"
  "sub_state (set_state c s) = 0"
  "val_tmp (set_state c s) = 0"
  "work_continue (set_state c s) = work_continue c OR EVENT_WORK_CONTINUE"
  "tx_state (set_state c s) = tx_state c"
  "msg_id (set_state c s) = msg_id c"
  "out (set_state c s) = out c"
  "timer_state (set_state c s) = timer_state c"
  "timer_mux (set_state c s) = timer_mux c"
  "caps_counter (set_state c s) = caps_counter c"
  "hardrst_count (set_state c s) = hardrst_count c"
  "notify (set_state c s) = notify c"
  "vdm_state (set_state c s) = vdm_state c"
  "rec_head (set_state c s) = rec_head c"
  "rec_load (set_state c s) = rec_load c"
  "is_pd_support (set_state c s) = is_pd_support c"
  "alert_retry (set_state c s) = alert_retry c"
  "partner_cap (set_state c s) = partner_cap c"
  "pos_power (set_state c s) = pos_power c"
  "vbus_begin (set_state c s) = vbus_begin c"
  "n_caps_used (set_state c s) = n_caps_used c"
  by (simp_all add: set_state_def)

lemma platform_fusb_notify_fields [simp]:
  "conn_state (platform_fusb_notify K c) = conn_state c"
  "sub_state (platform_fusb_notify K c) = sub_state c"
  "val_tmp (platform_fusb_notify K c) = val_tmp c"
  "work_continue (platform_fusb_notify K c) = work_continue c"
  "tx_state (platform_fusb_notify K c) = tx_state c"
  "msg_id (platform_fusb_notify K c) = msg_id c"
  "timer_state (platform_fusb_notify K c) = timer_state c"
  "timer_mux (platform_fusb_notify K c) = timer_mux c"
  "caps_counter (platform_fusb_notify K c) = caps_counter c"
  "hardrst_count (platform_fusb_notify K c) = hardrst_count c"
  "vdm_state (platform_fusb_notify K c) = vdm_state c"
  "rec_head (platform_fusb_notify K c) = rec_head c"
  "rec_load (platform_fusb_notify K c) = rec_load c"
  "is_pd_support (platform_fusb_notify K c) = is_pd_support c"
  "alert_retry (platform_fusb_notify K c) = alert_retry c"
  "partner_cap (platform_fusb_notify K c) = partner_cap c"
  "pos_power (platform_fusb_notify K c) = pos_power c"
  "vbus_begin (platform_fusb_notify K c) = vbus_begin c"
  by (simp_all add: platform_fusb_notify_def Let_def)

lemma platform_fusb_notify_notify:
  "notify (platform_fusb_notify K c) =
     (if notify_snapshot c \<noteq> notify_cmp c
      then (notify_snapshot c)\<lparr>attention := False\<rparr> else notify_snapshot c)"
  by (simp add: platform_fusb_notify_def notify_snapshot_def Let_def)

lemma notify_snapshot_roles:
  "power_role (notify_snapshot c) = power_role (notify c)"
  "data_role (notify_snapshot c) = data_role (notify c)"
  "is_pd_connected (notify_snapshot c) = is_pd_connected (notify c)"
  "is_cc_connected (notify_snapshot c) = is_cc_connected (notify c)"
  by (simp_all add: notify_snapshot_def)

lemma platform_fusb_notify_roles [simp]:
  "power_role (notify (platform_fusb_notify K c)) = power_role (notify c)"
  "data_role (notify (platform_fusb_notify K c)) = data_role (notify c)"
  "is_pd_connected (notify (platform_fusb_notify K c)) = is_pd_connected (notify c)"
  "is_cc_connected (notify (platform_fusb_notify K c)) = is_cc_connected (notify c)"
proof -
  consider "notify (platform_fusb_notify K c) = (notify_snapshot c)\<lparr>attention := False\<rparr>"
    | "notify (platform_fusb_notify K c) = notify_snapshot c"
    unfolding platform_fusb_notify_notify by presburger
  then show
    "power_role (notify (platform_fusb_notify K c)) = power_role (notify c)"
    "data_role (notify (platform_fusb_notify K c)) = data_role (notify c)"
    "is_pd_connected (notify (platform_fusb_notify K c)) = is_pd_connected (notify c)"
    "is_cc_connected (notify (platform_fusb_notify K c)) = is_cc_connected (notify c)"
    by (cases; simp add: notify_snapshot_roles)+
qed

lemma set_state_unattached_fields [simp]:
  "conn_state (set_state_unattached K c) = unattached"
  "sub_state (set_state_unattached K c) = 0"
  "msg_id (set_state_unattached K c) = msg_id c"
  "tx_state (set_state_unattached K c) = tx_state c"
  "hardrst_count (set_state_unattached K c) = hardrst_count c"
  "power_role (notify (set_state_unattached K c)) = 0"
  "rec_head (set_state_unattached K c) = rec_head c"
  "rec_load (set_state_unattached K c) = rec_load c"
  by (simp_all add: set_state_unattached_def Let_def tcpm_init_def tcpm_set_vconn_def
      notify_zero_def)

lemma rx_flag_event: "evt AND EVENT_RX \<noteq> 0 \<Longrightarrow> evt AND FLAG_EVENT \<noteq> 0"
  by (simp add: FLAG_EVENT_def bit.conj_disj_distrib or_eq_0_iff)

section \<open>Negotiation, vendor defined messages, notification\<close>

lemma transition_supply_first:
  "sub_state c = 0 \<Longrightarrow>
   conn_state (fusb_state_src_transition_supply K c evt) = conn_state c"
  by (simp add: fusb_state_src_transition_supply_def Let_def policy_send_data_tx)

lemma negotiate_cap_label:
  assumes "conn_state c = policy_src_negotiate_cap"
      and "0 \<le> n_caps_used c" and "n_caps_used c < 2 ^ 31"
  shows "conn_state (fusb_state_src_negotiate_cap c evt) =
           (if uint ((drop_bit 28 (load_at (rec_load c) 0)) AND 0x07) \<le> n_caps_used c
            then policy_src_transition_supply else policy_src_cap_response) \<and>
         conn_state (state_dispatch K hw c evt) =
           conn_state (fusb_state_src_negotiate_cap c evt)"
proof -
  define tmp where "tmp = (drop_bit 28 (load_at (rec_load c) 0)) AND (0x07 :: u32)"
  have "uint (word_of_int (n_caps_used c) :: u32) = n_caps_used c"
    using assms(2,3) by (simp add: uint_word_of_int take_bit_int_eq_self)
  then have cmp: "(tmp > word_of_int (n_caps_used c)) = (uint tmp > n_caps_used c)"
    by (simp add: word_less_def)
  have h: "conn_state (fusb_state_src_negotiate_cap c evt) =
           (if uint tmp \<le> n_caps_used c
            then policy_src_transition_supply else policy_src_cap_response)"
    using cmp by (simp add: fusb_state_src_negotiate_cap_def Let_def tmp_def [symmetric] not_less)
  have s0: "sub_state (fusb_state_src_negotiate_cap c evt) = 0"
    by (simp add: fusb_state_src_negotiate_cap_def Let_def)
  have "state_dispatch K hw c evt =
          fusb_state_src_transition_supply K (fusb_state_src_negotiate_cap c evt) evt"
    using assms(1) by (simp add: state_dispatch_def)
  then have "conn_state (state_dispatch K hw c evt) =
               conn_state (fusb_state_src_negotiate_cap c evt)"
    using transition_supply_first [OF s0] by simp
  with h show ?thesis unfolding tmp_def by simp
qed

lemma set_mesg_control_head:
  "PD_HEADER_TYPE (send_head (set_mesg K c cmd CONTROLMESSAGE)) = cmd AND 0xf"
  "PD_HEADER_CNT (send_head (set_mesg K c cmd CONTROLMESSAGE)) = 0"
proof -
  have m: "(0xf :: u16) = mask 4" "(7 :: u16) = mask 3" "(7 :: u32) = mask 3"
    by (simp_all add: mask_eq_exp_minus_1)
  have "(64 :: u16) = push_bit 6 1" by simp
  then have b16: "bit (64 :: u16) n = (n = 6)" for n
    by (simp only: bit_push_bit_iff bit_1_iff) auto
  have "(64 :: int) = push_bit 6 1" by simp
  then have b: "bit (64 :: int) n = (n = 6)" for n
    by (simp only: bit_push_bit_iff bit_1_iff) auto
  show "PD_HEADER_TYPE (send_head (set_mesg K c cmd CONTROLMESSAGE)) = cmd AND 0xf"
    unfolding set_mesg_def PD_HEADER_TYPE_def CONTROLMESSAGE_def Let_def m
    by (rule bit_word_eqI) (auto simp add: bit_simps b b16)
  show "PD_HEADER_CNT (send_head (set_mesg K c cmd CONTROLMESSAGE)) = 0"
    unfolding set_mesg_def PD_HEADER_CNT_def CONTROLMESSAGE_def Let_def m
    by (rule bit_word_eqI) (auto simp add: bit_simps b b16)
qed

lemma cap_response_later:
  "sub_state d \<noteq> 0 \<Longrightarrow> send_head (fusb_state_src_cap_response K d e) = send_head d"
  "sub_state d \<noteq> 0 \<Longrightarrow> tx_state d \<noteq> tx_idle \<Longrightarrow>
   out (fusb_state_src_cap_response K d e) = out d"
  by (simp_all add: fusb_state_src_cap_response_def Let_def policy_send_data_def set_state_def)

text \<open>
  Claim C7 (negotiate_cap). The requested index is bits 30:28 of the first received data
  object, and \<^verbatim>\<open>fusb_state_src_negotiate_cap\<close> sets
  \<^verbatim>\<open>policy_src_transition_supply\<close> when the index is at most the advertised count
  \<^verbatim>\<open>n_caps_used\<close>, and \<^verbatim>\<open>policy_src_cap_response\<close> otherwise. But the
  \<^verbatim>\<open>case policy_src_negotiate_cap\<close> of the dispatch has no \<^verbatim>\<open>break\<close>, so the same
  run goes on into \<^verbatim>\<open>fusb_state_src_transition_supply\<close>. For an index above the
  count the run therefore ends in \<^verbatim>\<open>policy_src_cap_response\<close> with \<^verbatim>\<open>sub_state\<close> 1
  and a transmission pending, and the message it has built and written to the transmit
  FIFO is an Accept. From then on \<^verbatim>\<open>fusb_state_src_cap_response\<close>, which builds the
  Reject only at \<^verbatim>\<open>sub_state\<close> 0, builds no message any more and writes none while
  that transmission is not idle: the request that is out of range is answered with Accept.
\<close>

theorem negotiate_cap_out_of_range_accepts:
  assumes "conn_state c = policy_src_negotiate_cap"
      and "0 \<le> n_caps_used c" and "n_caps_used c < 2 ^ 31"
      and "n_caps_used c < uint ((drop_bit 28 (load_at (rec_load c) 0)) AND 0x07)"
  shows "conn_state (fusb_state_src_negotiate_cap c evt) = policy_src_cap_response \<and>
         state_dispatch K hw c evt =
           policy_send_data K
             ((set_mesg K (set_state c policy_src_cap_response) CMT_ACCEPT CONTROLMESSAGE)
                \<lparr>tx_state := tx_idle, sub_state := 1\<rparr>) \<and>
         conn_state (state_dispatch K hw c evt) = policy_src_cap_response \<and>
         sub_state (state_dispatch K hw c evt) = 1 \<and>
         tx_state (state_dispatch K hw c evt) = tx_busy \<and>
         tx_attempts (state_dispatch K hw c evt) = tx_attempts c + 1 \<and>
         PD_HEADER_CNT (send_head (state_dispatch K hw c evt)) = 0 \<and>
         PD_HEADER_TYPE (send_head (state_dispatch K hw c evt)) = CMT_ACCEPT \<and>
         (sub_state d \<noteq> 0 \<longrightarrow>
            send_head (fusb_state_src_cap_response K d e) = send_head d \<and>
            (tx_state d \<noteq> tx_idle \<longrightarrow> out (fusb_state_src_cap_response K d e) = out d))"
proof -
  let ?n = "fusb_state_src_negotiate_cap c evt"
  let ?m = "(set_mesg K (set_state c policy_src_cap_response) CMT_ACCEPT CONTROLMESSAGE)
              \<lparr>tx_state := tx_idle, sub_state := 1\<rparr>"
  from negotiate_cap_label [OF assms(1,2,3), of evt K hw] assms(4)
  have l: "conn_state ?n = policy_src_cap_response" by simp
  then have n: "?n = set_state c policy_src_cap_response"
    by (simp add: fusb_state_src_negotiate_cap_def Let_def split: if_splits)
  have t: "tx_state (policy_send_data K ?m) = tx_busy"
    by (simp add: policy_send_data_tx)
  from assms(1) have "state_dispatch K hw c evt = fusb_state_src_transition_supply K ?n evt"
    by (simp add: state_dispatch_def)
  also from t have "\<dots> = policy_send_data K ?m"
    unfolding n by (simp add: fusb_state_src_transition_supply_def Let_def)
  finally have d: "state_dispatch K hw c evt = policy_send_data K ?m" .
  have a: "tx_attempts (policy_send_data K ?m) = tx_attempts c + 1"
    by (simp add: policy_send_data_def Let_def tx_attempts_def)
  have h: "send_head (policy_send_data K ?m) =
      send_head (set_mesg K (set_state c policy_src_cap_response) CMT_ACCEPT CONTROLMESSAGE)"
    by (simp add: policy_send_data_def Let_def)
  have ty: "PD_HEADER_TYPE (send_head (policy_send_data K ?m)) = CMT_ACCEPT"
    unfolding h set_mesg_control_head by (simp add: CMT_ACCEPT_def)
  have cn: "PD_HEADER_CNT (send_head (policy_send_data K ?m)) = 0"
    unfolding h set_mesg_control_head by (rule refl)
  have s: "conn_state (policy_send_data K ?m) = policy_src_cap_response"
    "sub_state (policy_send_data K ?m) = 1"
    by simp_all
  from l d s t a cn ty cap_response_later [of d K e] show ?thesis
    by (simp only:) blast
qed

theorem negotiate_cap_out_of_range_accepts_witness:
  "conn_state (state_dispatch hdr_example hw_idle src_bad_request EVENT_WORK_CONTINUE) =
     policy_src_cap_response \<and>
   PD_HEADER_TYPE (send_head
     (state_dispatch hdr_example hw_idle src_bad_request EVENT_WORK_CONTINUE)) = CMT_ACCEPT \<and>
   tx_attempts (state_dispatch hdr_example hw_idle src_bad_request EVENT_WORK_CONTINUE) = 1"
proof -
  have a: "conn_state src_bad_request = policy_src_negotiate_cap"
    "0 \<le> n_caps_used src_bad_request" "n_caps_used src_bad_request < 2 ^ 31"
    "n_caps_used src_bad_request <
       uint ((drop_bit 28 (load_at (rec_load src_bad_request) 0)) AND 0x07)"
    by code_simp+
  have t: "tx_attempts src_bad_request = 0" by code_simp
  let ?r = "state_dispatch hdr_example hw_idle src_bad_request EVENT_WORK_CONTINUE"
  from negotiate_cap_out_of_range_accepts
    [where K = hdr_example and hw = hw_idle and evt = EVENT_WORK_CONTINUE, OF a]
  have "conn_state ?r = policy_src_cap_response"
    and "PD_HEADER_TYPE (send_head ?r) = CMT_ACCEPT"
    and "tx_attempts ?r = tx_attempts src_bad_request + 1"
    by blast+
  with t show ?thesis by simp
qed

text \<open>
  The runs of the whole state machine on that input: the source has received a Request
  for capability 2 while it advertises one. The run that handles it ends in
  \<^verbatim>\<open>policy_src_cap_response\<close> having written one message, an Accept; when the
  transmitter reports it sent, the next run goes to \<^verbatim>\<open>policy_src_send_hardrst\<close>, and
  still only that one message has been written.
\<close>

theorem negotiate_cap_out_of_range_runs:
  "conn_state src_bad_request_run = policy_src_cap_response \<and>
   sub_state src_bad_request_run = 1 \<and>
   tx_attempts src_bad_request_run = 1 \<and>
   PD_HEADER_TYPE (send_head src_bad_request_run) = CMT_ACCEPT \<and>
   conn_state (state_machine_typec hdr_example hw_txsent src_bad_request_run) =
     policy_src_send_hardrst \<and>
   tx_attempts (state_machine_typec hdr_example hw_txsent src_bad_request_run) = 1"
  by code_simp

lemma process_vdm_msg_nack:
  assumes "GET_VDMHEAD_STRUCT_TYPE (load_at (rec_load c) 0) \<noteq> 0"
      and "GET_VDMHEAD_CMD_TYPE (load_at (rec_load c) 0) = VDM_TYPE_NACK"
  shows "process_vdm_msg K c = c\<lparr>vdm_state := VDM_STATE_ERR\<rparr>"
  using assms
  by (simp add: process_vdm_msg_def Let_def VDM_TYPE_NACK_def VDM_TYPE_INIT_def VDM_TYPE_ACK_def)

lemma ready_rx_nack:
  assumes "evt AND EVENT_RX \<noteq> 0"
      and "PACKET_IS_DATA_MSG (rec_head c) DMT_VENDERDEFINED"
      and "GET_VDMHEAD_STRUCT_TYPE (load_at (rec_load c) 0) \<noteq> 0"
      and "GET_VDMHEAD_CMD_TYPE (load_at (rec_load c) 0) = VDM_TYPE_NACK"
  shows "ready_rx K c evt =
           c\<lparr>vdm_state := VDM_STATE_ERR,
             work_continue := work_continue c OR EVENT_WORK_CONTINUE,
             timer_state := T_DISABLED K\<rparr>"
  using assms(1,2) by (simp add: ready_rx_def Let_def process_vdm_msg_nack [OF assms(3,4)])

lemma swap_msg_process_data:
  "PACKET_IS_DATA_MSG (rec_head c) t \<Longrightarrow> fusb_state_swap_msg_process c evt = c"
  by (simp add: fusb_state_swap_msg_process_def PACKET_IS_DATA_MSG_def PACKET_IS_CONTROL_MSG_def)

lemma vdm_state_notify [simp]: "vdm_state (platform_fusb_notify K c) = vdm_state c"
  by (simp add: platform_fusb_notify_def Let_def)

text \<open>
  Claim C8 (alt-mode isolation), as amended. A structured vendor defined message whose
  command type is NACK has been received. In \<^verbatim>\<open>policy_snk_ready\<close>, and in
  \<^verbatim>\<open>policy_src_ready\<close> when the first stored sink capability
  \<^verbatim>\<open>partner_cap[0]\<close> is not zero, the dispatch of the tick sets \<^verbatim>\<open>vdm_state\<close>
  to \<open>VDM_STATE_ERR\<close> and leaves \<^verbatim>\<open>conn_state\<close> at the ready state. In
  \<^verbatim>\<open>policy_src_ready\<close> with \<^verbatim>\<open>partner_cap[0]\<close> zero it sets
  \<^verbatim>\<open>vdm_state\<close> to \<open>VDM_STATE_ERR\<close> as well, and moves on to
  \<^verbatim>\<open>policy_src_get_sink_caps\<close>.
\<close>

theorem vdm_nack_isolation:
  assumes "evt AND EVENT_RX \<noteq> 0"
      and "PACKET_IS_DATA_MSG (rec_head c) DMT_VENDERDEFINED"
      and "GET_VDMHEAD_STRUCT_TYPE (load_at (rec_load c) 0) \<noteq> 0"
      and "GET_VDMHEAD_CMD_TYPE (load_at (rec_load c) 0) = VDM_TYPE_NACK"
  shows "(conn_state c = policy_snk_ready \<longrightarrow>
            conn_state (state_dispatch K hw c evt) = policy_snk_ready \<and>
            vdm_state (state_dispatch K hw c evt) = VDM_STATE_ERR) \<and>
         (conn_state c = policy_src_ready \<and> load_at (partner_cap c) 0 \<noteq> 0 \<longrightarrow>
            conn_state (state_dispatch K hw c evt) = policy_src_ready \<and>
            vdm_state (state_dispatch K hw c evt) = VDM_STATE_ERR) \<and>
         (conn_state c = policy_src_ready \<and> load_at (partner_cap c) 0 = 0 \<longrightarrow>
            conn_state (state_dispatch K hw c evt) = policy_src_get_sink_caps \<and>
            vdm_state (state_dispatch K hw c evt) = VDM_STATE_ERR)"
proof -
  note r = ready_rx_nack [OF assms, of K]
  have na: "\<not> VDM_IS_ACTIVE (ready_rx K c evt)"
    by (simp add: r VDM_IS_ACTIVE_def VDM_STATE_ERR_def VDM_STATE_READY_def)
  have dm: "PACKET_IS_DATA_MSG (rec_head (ready_rx K c evt)) DMT_VENDERDEFINED"
    using assms(2) by (simp add: r)
  have snk: "fusb_state_snk_ready K c evt = platform_fusb_notify K (ready_rx K c evt)"
    using na swap_msg_process_data [OF dm] by (simp add: fusb_state_snk_ready_def Let_def)
  have src: "fusb_state_src_ready K c evt =
               (if load_at (partner_cap c) 0 = 0
                then set_state (ready_rx K c evt) policy_src_get_sink_caps
                else ready_rx K c evt)"
    using na by (simp add: fusb_state_src_ready_def Let_def) (simp add: r)
  show ?thesis
    by (simp add: state_dispatch_def snk src) (simp add: r)
qed


theorem vdm_nack_isolation_witness:
  "conn_state (state_dispatch hdr_example hw_idle
      ((pd_chip policy_snk_ready 0 1)\<lparr>rec_head := nack_head,
         rec_load := nack_vdm # replicate 6 0\<rparr>) EVENT_RX) = policy_snk_ready \<and>
   conn_state (state_dispatch hdr_example hw_idle
      ((pd_chip policy_src_ready 1 1)\<lparr>rec_head := nack_head,
         rec_load := nack_vdm # replicate 6 0, partner_cap := 1 # replicate 6 0\<rparr>) EVENT_RX) =
     policy_src_ready \<and>
   conn_state (state_dispatch hdr_example hw_idle
      ((pd_chip policy_src_ready 1 1)\<lparr>rec_head := nack_head,
         rec_load := nack_vdm # replicate 6 0\<rparr>) EVENT_RX) = policy_src_get_sink_caps"
proof -
  let ?a = "(pd_chip policy_snk_ready 0 1)\<lparr>rec_head := nack_head,
              rec_load := nack_vdm # replicate 6 0\<rparr>"
  let ?b = "(pd_chip policy_src_ready 1 1)\<lparr>rec_head := nack_head,
              rec_load := nack_vdm # replicate 6 0, partner_cap := 1 # replicate 6 0\<rparr>"
  let ?d = "(pd_chip policy_src_ready 1 1)\<lparr>rec_head := nack_head,
              rec_load := nack_vdm # replicate 6 0\<rparr>"
  have e: "EVENT_RX AND EVENT_RX \<noteq> 0" by (simp add: EVENT_RX_def)
  have a: "PACKET_IS_DATA_MSG (rec_head ?a) DMT_VENDERDEFINED"
    "GET_VDMHEAD_STRUCT_TYPE (load_at (rec_load ?a) 0) \<noteq> 0"
    "GET_VDMHEAD_CMD_TYPE (load_at (rec_load ?a) 0) = VDM_TYPE_NACK"
    "conn_state ?a = policy_snk_ready"
    by code_simp+
  have b: "PACKET_IS_DATA_MSG (rec_head ?b) DMT_VENDERDEFINED"
    "GET_VDMHEAD_STRUCT_TYPE (load_at (rec_load ?b) 0) \<noteq> 0"
    "GET_VDMHEAD_CMD_TYPE (load_at (rec_load ?b) 0) = VDM_TYPE_NACK"
    "conn_state ?b = policy_src_ready \<and> load_at (partner_cap ?b) 0 \<noteq> 0"
    by code_simp+
  have d: "PACKET_IS_DATA_MSG (rec_head ?d) DMT_VENDERDEFINED"
    "GET_VDMHEAD_STRUCT_TYPE (load_at (rec_load ?d) 0) \<noteq> 0"
    "GET_VDMHEAD_CMD_TYPE (load_at (rec_load ?d) 0) = VDM_TYPE_NACK"
    "conn_state ?d = policy_src_ready \<and> load_at (partner_cap ?d) 0 = 0"
    by code_simp+
  from vdm_nack_isolation [OF e a(1,2,3), of hdr_example hw_idle] a(4)
    vdm_nack_isolation [OF e b(1,2,3), of hdr_example hw_idle] b(4)
    vdm_nack_isolation [OF e d(1,2,3), of hdr_example hw_idle] d(4)
  show ?thesis by blast
qed

text \<open>
  The claim as stated fails in \<^verbatim>\<open>policy_src_ready\<close>: a source whose stored sink
  capabilities are still zero receives the NACK, and the run of the state machine leaves the
  ready state for \<^verbatim>\<open>policy_src_get_sink_caps\<close>.
\<close>

theorem vdm_nack_isolation_counterexample:
  "conn_state (pd_chip policy_src_ready 1 1) = policy_src_ready \<and>
   rec_head (state_machine_typec hdr_example
      (hw_rx (rx_frame 0xe0 nack_head [nack_vdm] [0, 0, 0, 0]))
      (pd_chip policy_src_ready 1 1)) = nack_head \<and>
   GET_VDMHEAD_CMD_TYPE (load_at (rec_load (state_machine_typec hdr_example
      (hw_rx (rx_frame 0xe0 nack_head [nack_vdm] [0, 0, 0, 0]))
      (pd_chip policy_src_ready 1 1))) 0) = VDM_TYPE_NACK \<and>
   vdm_state (state_machine_typec hdr_example
      (hw_rx (rx_frame 0xe0 nack_head [nack_vdm] [0, 0, 0, 0]))
      (pd_chip policy_src_ready 1 1)) = VDM_STATE_ERR \<and>
   conn_state (state_machine_typec hdr_example
      (hw_rx (rx_frame 0xe0 nack_head [nack_vdm] [0, 0, 0, 0]))
      (pd_chip policy_src_ready 1 1)) = policy_src_get_sink_caps"
  by code_simp

lemma notify_changed:
  assumes "notify_snapshot c \<noteq> notify_cmp c"
  shows "platform_fusb_notify K c =
           c\<lparr>notify := (notify_snapshot c)\<lparr>attention := False\<rparr>,
             notify_cmp := (notify_snapshot c)\<lparr>attention := False\<rparr>,
             out := hd (out (platform_fusb_notify K c)) # out c\<rparr>"
    and "published (out (platform_fusb_notify K c)) =
           hd (published (out (platform_fusb_notify K c))) # published (out c)"
    and "pub_snapshot (hd (published (out (platform_fusb_notify K c)))) =
           (notify_snapshot c)\<lparr>attention := False\<rparr>"
  using assms by (simp_all add: platform_fusb_notify_def notify_snapshot_def Let_def)

lemma notify_unchanged:
  assumes "notify_snapshot c = notify_cmp c"
  shows "platform_fusb_notify K c = c\<lparr>notify := notify_snapshot c\<rparr>"
  using assms by (simp add: platform_fusb_notify_def notify_snapshot_def Let_def)

lemma snapshot_fixed:
  "notify_snapshot (c\<lparr>notify := (notify_snapshot c)\<lparr>attention := a\<rparr>, notify_cmp := m,
                      out := os\<rparr>) =
     (notify_snapshot c)\<lparr>attention := a\<rparr>"
  "notify_snapshot (c\<lparr>notify := notify_snapshot c\<rparr>) = notify_snapshot c"
  by (simp_all add: notify_snapshot_def)

lemma notify_twice:
  "platform_fusb_notify K (platform_fusb_notify K c) = platform_fusb_notify K c"
proof (cases "notify_snapshot c = notify_cmp c")
  case True
  let ?p = "c\<lparr>notify := notify_snapshot c\<rparr>"
  have p: "platform_fusb_notify K c = ?p" using True by (rule notify_unchanged)
  have f: "notify_snapshot ?p = notify_snapshot c" by (rule snapshot_fixed(2))
  have "notify_cmp ?p = notify_cmp c" by simp
  with True f have "notify_snapshot ?p = notify_cmp ?p" by (simp only:)
  then have "platform_fusb_notify K ?p = ?p\<lparr>notify := notify_snapshot ?p\<rparr>"
    by (rule notify_unchanged)
  then show ?thesis unfolding p f by simp
next
  case False
  let ?n = "(notify_snapshot c)\<lparr>attention := False\<rparr>"
  let ?p = "c\<lparr>notify := ?n, notify_cmp := ?n,
              out := hd (out (platform_fusb_notify K c)) # out c\<rparr>"
  have p: "platform_fusb_notify K c = ?p" using False by (rule notify_changed)
  have "notify_snapshot ?p = notify_cmp ?p" by (simp add: snapshot_fixed)
  then have "platform_fusb_notify K ?p = ?p\<lparr>notify := notify_snapshot ?p\<rparr>"
    by (rule notify_unchanged)
  also have "\<dots> = ?p" by (simp add: snapshot_fixed)
  finally show ?thesis using p by simp
qed

lemma attention_only:
  assumes "\<not> attention m"
  shows "(s \<noteq> m \<and> s\<lparr>attention := False\<rparr> = m) = (s = m\<lparr>attention := True\<rparr>)"
proof
  assume a: "s \<noteq> m \<and> s\<lparr>attention := False\<rparr> = m"
  then have "attention s" using assms by (cases s; cases m) auto
  with a show "s = m\<lparr>attention := True\<rparr>" by (cases s; cases m) auto
next
  assume "s = m\<lparr>attention := True\<rparr>"
  with assms show "s \<noteq> m \<and> s\<lparr>attention := False\<rparr> = m" by (cases m) auto
qed

text \<open>
  Claim C9 (notification publish), as amended. \<^verbatim>\<open>platform_fusb_notify\<close> compares the
  snapshot it has computed (\<^verbatim>\<open>notify\<close> with the orientation refreshed) with the
  shadow copy \<^verbatim>\<open>notify_cmp\<close>, the comparison of the two structures being the equality
  of the two records. It publishes exactly when they differ, and then once. What it
  publishes, and stores in both \<^verbatim>\<open>notify\<close> and the shadow copy, is the computed
  snapshot with the attention flag cleared, the flag being cleared after the comparison.
  So, the shadow copy having the flag clear, the snapshot published is equal to the shadow
  copy, the last one published, exactly when the computed snapshot differs from it in the
  attention flag alone: a raised attention flag publishes the same snapshot again. When
  the two are equal nothing is published and the shadow copy stays. A second call right
  after the first changes nothing and publishes nothing.
\<close>

theorem notify_publish:
  "map pub_snapshot (published (out (platform_fusb_notify K c))) =
     (if notify_snapshot c \<noteq> notify_cmp c
      then (notify_snapshot c)\<lparr>attention := False\<rparr> # map pub_snapshot (published (out c))
      else map pub_snapshot (published (out c))) \<and>
   notify_cmp (platform_fusb_notify K c) =
     (if notify_snapshot c \<noteq> notify_cmp c
      then (notify_snapshot c)\<lparr>attention := False\<rparr> else notify_cmp c) \<and>
   notify (platform_fusb_notify K c) =
     (if notify_snapshot c \<noteq> notify_cmp c
      then (notify_snapshot c)\<lparr>attention := False\<rparr> else notify_snapshot c) \<and>
   (notify_snapshot c = notify_cmp c \<longrightarrow> out (platform_fusb_notify K c) = out c) \<and>
   (\<not> attention (notify_cmp c) \<longrightarrow>
      (notify_snapshot c \<noteq> notify_cmp c \<and>
       pub_snapshot (hd (published (out (platform_fusb_notify K c)))) = notify_cmp c) =
      (notify_snapshot c = (notify_cmp c)\<lparr>attention := True\<rparr>)) \<and>
   platform_fusb_notify K (platform_fusb_notify K c) = platform_fusb_notify K c"
proof (cases "notify_snapshot c = notify_cmp c")
  case True
  from notify_unchanged [OF True, of K] have p:
    "platform_fusb_notify K c = c\<lparr>notify := notify_snapshot c\<rparr>" .
  have "\<not> attention (notify_cmp c) \<Longrightarrow>
      notify_snapshot c \<noteq> (notify_cmp c)\<lparr>attention := True\<rparr>"
    using True by (cases "notify_cmp c") auto
  with True notify_twice [of K c] show ?thesis
    unfolding p by auto
next
  case False
  note n = notify_changed [OF False, of K]
  have a: "\<not> attention (notify_cmp c) \<Longrightarrow>
      ((notify_snapshot c)\<lparr>attention := False\<rparr> = notify_cmp c) =
      (notify_snapshot c = (notify_cmp c)\<lparr>attention := True\<rparr>)"
    using attention_only [of "notify_cmp c" "notify_snapshot c"] False by blast
  have 1: "map pub_snapshot (published (out (platform_fusb_notify K c))) =
      (notify_snapshot c)\<lparr>attention := False\<rparr> # map pub_snapshot (published (out c))"
    by (subst n(2)) (simp add: n(3))
  have 2: "notify_cmp (platform_fusb_notify K c) = (notify_snapshot c)\<lparr>attention := False\<rparr>"
    "notify (platform_fusb_notify K c) = (notify_snapshot c)\<lparr>attention := False\<rparr>"
    by (subst n(1), simp)+
  from False 1 2 n(3) a notify_twice [of K c] show ?thesis
    by (simp only: if_True if_False simp_thms) blast
qed

theorem notify_publish_witness:
  "map pub_snapshot (published (out (platform_fusb_notify hdr_example
       ((chip_probed hdr_example)\<lparr>notify := notify_zero\<lparr>is_pd_connected := True\<rparr>\<rparr>)))) =
     [notify_zero\<lparr>is_pd_connected := True\<rparr>] \<and>
   out (platform_fusb_notify hdr_example (chip_probed hdr_example)) = []"
proof -
  let ?c = "(chip_probed hdr_example)\<lparr>notify := notify_zero\<lparr>is_pd_connected := True\<rparr>\<rparr>"
  have d: "notify_snapshot ?c \<noteq> notify_cmp ?c"
    by (simp add: notify_snapshot_def chip_probed_def notify_zero_def)
  have e: "notify_snapshot (chip_probed hdr_example) = notify_cmp (chip_probed hdr_example)"
    by (simp add: notify_snapshot_def chip_probed_def notify_zero_def)
  have "map pub_snapshot (published (out (platform_fusb_notify hdr_example ?c))) =
          (notify_snapshot ?c)\<lparr>attention := False\<rparr> # map pub_snapshot (published (out ?c))"
    using notify_publish [of hdr_example ?c] d by presburger
  moreover have "out (platform_fusb_notify hdr_example (chip_probed hdr_example)) =
                   out (chip_probed hdr_example)"
    using notify_publish [of hdr_example "chip_probed hdr_example"] e by blast
  ultimately show ?thesis
    by (simp add: notify_snapshot_def chip_probed_def notify_zero_def)
qed

text \<open>
  The claim as worded fails: a snapshot equal to the last one published is published
  again. The connection of the sink has been published and the shadow copy holds that
  snapshot; an Attention message arrives with the DisplayPort status unchanged;
  \<^verbatim>\<open>process_vdm_msg\<close> raises the attention flag and calls \<^verbatim>\<open>platform_fusb_notify\<close>,
  which publishes the snapshot that the shadow copy already holds.
\<close>

theorem notify_publish_counterexample:
  "map pub_snapshot (published (out snk_published)) = [notify_cmp snk_published] \<and>
   map pub_snapshot (published (out (process_vdm_msg hdr_example snk_attention))) =
     [notify_cmp snk_published, notify_cmp snk_published]"
  by code_simp

section \<open>Sink request rejected\<close>

lemma select_cap_reply:
  assumes "evt AND EVENT_RX \<noteq> 0"
      and "PD_HEADER_CNT (rec_head c) = 0"
      and "PD_HEADER_TYPE (rec_head c) = CMT_REJECT \<or> PD_HEADER_TYPE (rec_head c) = CMT_WAIT"
      and "\<not> is_pd_connected (notify c)"
      and "sub_state c = 1 \<longrightarrow> tx_state c \<noteq> tx_failed"
  shows "conn_state (fusb_state_snk_select_cap K c evt) = policy_snk_wait_caps \<and>
         hardrst_count (fusb_state_snk_select_cap K c evt) = N_HARDRESET_COUNT K + 1 \<and>
         is_pd_support (fusb_state_snk_select_cap K c evt) = is_pd_support c"
proof -
  from assms(3) have na: "PD_HEADER_TYPE (rec_head c) \<noteq> CMT_ACCEPT"
    by (auto simp add: CMT_ACCEPT_def CMT_REJECT_def CMT_WAIT_def)
  note f = rx_flag_event [OF assms(1)]
  consider "sub_state c = 0" | "sub_state c = 1" | "sub_state c \<noteq> 0" "sub_state c \<noteq> 1"
    by blast
  then show ?thesis
  proof cases
    case 1
    with assms(1,2,3,4) na f show ?thesis
      by (auto simp add: fusb_state_snk_select_cap_def Let_def policy_send_data_tx)
  next
    case 2
    with assms na f show ?thesis
      by (cases "tx_state c")
         (auto simp add: fusb_state_snk_select_cap_def Let_def policy_send_data_tx)
  next
    case 3
    with assms(1,2,3,4) na show ?thesis
      by (auto simp add: fusb_state_snk_select_cap_def Let_def)
  qed
qed

lemma wait_caps_blocked:
  assumes "hardrst_count d > N_HARDRESET_COUNT K"
  shows "out (fusb_state_snk_wait_caps K d e) = out d"
    and "hardrst_count (fusb_state_snk_wait_caps K d e) = hardrst_count d"
    and "conn_state (fusb_state_snk_wait_caps K d e) = conn_state d \<or>
         conn_state (fusb_state_snk_wait_caps K d e) = policy_snk_evaluate_caps \<or>
         conn_state (fusb_state_snk_wait_caps K d e) = error_recovery \<or>
         conn_state (fusb_state_snk_wait_caps K d e) = disabled"
    and "e AND EVENT_RX = 0 \<Longrightarrow> e AND EVENT_TIMER_STATE \<noteq> 0 \<Longrightarrow>
         conn_state (fusb_state_snk_wait_caps K d e) =
           (if is_pd_support d then error_recovery else disabled)"
  using assms by (simp_all add: fusb_state_snk_wait_caps_def)

lemma evaluate_caps_count:
  "hardrst_count (fusb_state_snk_evaluate_caps K hw d e) = 0"
proof -
  have s: "hardrst_count (snk_evaluate_cap K n x) = hardrst_count x" for n x
    by (simp add: snk_evaluate_cap_def Let_def)
  have f: "hardrst_count (fold (snk_evaluate_cap K) ns x) = hardrst_count x" for ns x
    by (induction ns arbitrary: x) (simp_all add: s)
  have t: "hardrst_count (fst (fusb_set_pos_power_step K v u n x)) = hardrst_count x"
    for v u n x
    by (simp add: fusb_set_pos_power_step_def Let_def)
  have l: "hardrst_count (fusb_set_pos_power_loop K v u n x) = hardrst_count x" for v u n x
  proof (induction n arbitrary: x)
    case 0
    show ?case by simp
  next
    case (Suc n)
    obtain y b where y: "fusb_set_pos_power_step K v u n x = (y, b)"
      by (cases "fusb_set_pos_power_step K v u n x")
    with t [of v u n x] have "hardrst_count y = hardrst_count x" by simp
    with y Suc [of y] show ?case by simp
  qed
  have p: "hardrst_count (fusb302_set_pos_power_by_charge_ic K hw x) = hardrst_count x" for x
    by (simp add: fusb302_set_pos_power_by_charge_ic_def fusb_set_pos_power_def l
        split: option.split)
  show ?thesis
    by (simp add: fusb_state_snk_evaluate_caps_def Let_def p f)
qed

text \<open>
  Claim C10 (a rejected first Request blocks the hard reset), as amended. In
  \<^verbatim>\<open>fusb_state_snk_select_cap\<close>, when the event word has a received message, the
  message is a Reject or a Wait control message, no contract is in place
  (\<^verbatim>\<open>notify.is_pd_connected\<close> false) and the Request has not just failed to transmit,
  the handler leaves the port in \<^verbatim>\<open>policy_snk_wait_caps\<close> with \<^verbatim>\<open>hardrst_count\<close> equal
  to \<^verbatim>\<open>N_HARDRESET_COUNT + 1\<close>. For as long as \<^verbatim>\<open>hardrst_count\<close> exceeds
  \<^verbatim>\<open>N_HARDRESET_COUNT\<close>, \<^verbatim>\<open>fusb_state_snk_wait_caps\<close> sends nothing, keeps the count,
  leaves the state only for \<^verbatim>\<open>policy_snk_evaluate_caps\<close>, \<^verbatim>\<open>error_recovery\<close> or
  \<^verbatim>\<open>disabled\<close>, and on a state-timer expiry without a received message goes to
  \<^verbatim>\<open>error_recovery\<close> (PD seen) or \<^verbatim>\<open>disabled\<close>. The count does not stay above the
  bound for the whole connection: \<^verbatim>\<open>fusb_state_snk_evaluate_caps\<close>, entered when
  Source_Capabilities arrives during the wait, sets it back to 0.
\<close>

theorem snk_reject_blocks_hard_reset:
  assumes "evt AND EVENT_RX \<noteq> 0"
      and "PD_HEADER_CNT (rec_head c) = 0"
      and "PD_HEADER_TYPE (rec_head c) = CMT_REJECT \<or> PD_HEADER_TYPE (rec_head c) = CMT_WAIT"
      and "\<not> is_pd_connected (notify c)"
      and "sub_state c = 1 \<longrightarrow> tx_state c \<noteq> tx_failed"
  shows "conn_state (fusb_state_snk_select_cap K c evt) = policy_snk_wait_caps \<and>
         hardrst_count (fusb_state_snk_select_cap K c evt) = N_HARDRESET_COUNT K + 1 \<and>
         (N_HARDRESET_COUNT K < hardrst_count d \<longrightarrow>
            out (fusb_state_snk_wait_caps K d e) = out d \<and>
            hardrst_count (fusb_state_snk_wait_caps K d e) = hardrst_count d \<and>
            (conn_state (fusb_state_snk_wait_caps K d e) = conn_state d \<or>
             conn_state (fusb_state_snk_wait_caps K d e) = policy_snk_evaluate_caps \<or>
             conn_state (fusb_state_snk_wait_caps K d e) = error_recovery \<or>
             conn_state (fusb_state_snk_wait_caps K d e) = disabled) \<and>
            (e AND EVENT_RX = 0 \<and> e AND EVENT_TIMER_STATE \<noteq> 0 \<longrightarrow>
               conn_state (fusb_state_snk_wait_caps K d e) =
                 (if is_pd_support d then error_recovery else disabled))) \<and>
         hardrst_count (fusb_state_snk_evaluate_caps K hw d e) = 0"
  using select_cap_reply [OF assms, of K] wait_caps_blocked [of K d e]
    evaluate_caps_count [of K hw d e]
  by blast

theorem snk_reject_blocks_hard_reset_witness:
  "conn_state (fusb_state_snk_select_cap hdr_example
       (snk_requesting\<lparr>rec_head := 0x0004\<rparr>) EVENT_RX) = policy_snk_wait_caps \<and>
   hardrst_count (fusb_state_snk_select_cap hdr_example
       (snk_requesting\<lparr>rec_head := 0x0004\<rparr>) EVENT_RX) = 1 \<and>
   out (fusb_state_snk_wait_caps hdr_example snk_rejected EVENT_TIMER_STATE) =
     out snk_rejected \<and>
   conn_state (fusb_state_snk_wait_caps hdr_example snk_rejected EVENT_TIMER_STATE) =
     error_recovery"
proof -
  have h: "EVENT_RX AND EVENT_RX \<noteq> 0"
    "PD_HEADER_CNT (rec_head (snk_requesting\<lparr>rec_head := 0x0004\<rparr>)) = 0"
    "PD_HEADER_TYPE (rec_head (snk_requesting\<lparr>rec_head := 0x0004\<rparr>)) = CMT_REJECT \<or>
     PD_HEADER_TYPE (rec_head (snk_requesting\<lparr>rec_head := 0x0004\<rparr>)) = CMT_WAIT"
    "\<not> is_pd_connected (notify (snk_requesting\<lparr>rec_head := 0x0004\<rparr>))"
    "sub_state (snk_requesting\<lparr>rec_head := 0x0004\<rparr>) = 1 \<longrightarrow>
     tx_state (snk_requesting\<lparr>rec_head := 0x0004\<rparr>) \<noteq> tx_failed"
    by code_simp+
  have g: "N_HARDRESET_COUNT hdr_example < hardrst_count snk_rejected"
    "EVENT_TIMER_STATE AND EVENT_RX = 0 \<and> EVENT_TIMER_STATE AND EVENT_TIMER_STATE \<noteq> 0"
    "is_pd_support snk_rejected"
    "N_HARDRESET_COUNT hdr_example + 1 = 1"
    by code_simp+
  from snk_reject_blocks_hard_reset [OF h, of hdr_example snk_rejected EVENT_TIMER_STATE] g
  show ?thesis by simp
qed

text \<open>
  The claim as worded fails: after the Reject the count is above the bound, but a
  Source_Capabilities message received during the wait zeroes it; when the new Request
  fails to transmit and the port waits again, the expiry of the state timer leads to
  \<^verbatim>\<open>policy_snk_send_hardrst\<close>, and the next run sends a hard reset, the cable being
  attached throughout.
\<close>

theorem snk_reject_blocks_hard_reset_counterexample:
  "conn_state snk_rejected = policy_snk_wait_caps \<and>
   hardrst_count snk_rejected = N_HARDRESET_COUNT hdr_example + 1 \<and>
   conn_state snk_waiting_again = policy_snk_wait_caps \<and>
   hardrst_count snk_waiting_again = 0 \<and>
   is_cc_connected (notify snk_timed_out) \<and>
   conn_state snk_timed_out = policy_snk_send_hardrst \<and>
   out snk_after_timeout = SEND_HARDRESET # out snk_timed_out"
  by code_simp

section \<open>One run of the state machine\<close>

lemma rx_bit: "(evt AND EVENT_RX \<noteq> 0) = bit evt (Suc 0)"
  using bit_iff_and_push_bit_not_eq_0 [of evt "Suc 0"] by (simp add: EVENT_RX_def)

lemma bit_EVENT_RX: "bit EVENT_RX (Suc 0)"
  by (simp add: EVENT_RX_def bit_simps)

lemma or_if_bit: "bit x n \<Longrightarrow> bit (if b then x OR m else x) n"
  by (simp add: bit_or_iff)

lemma tcpc_alert_rx: "ib_gcrcsent hw \<Longrightarrow> bit (snd (tcpc_alert K hw c e)) (Suc 0)"
  by (simp add: tcpc_alert_def Let_def bit_or_iff bit_EVENT_RX if_distrib [of snd]
      if_distrib [of "\<lambda>x. bit x (Suc 0)"] split del: if_split cong: if_cong)

lemma mux_alert_rx: "bit e (Suc 0) \<Longrightarrow> bit (snd (mux_alert K c e)) (Suc 0)"
  by (simp add: mux_alert_def Let_def bit_or_iff)

lemma typec_evt_rx: "ib_gcrcsent hw \<Longrightarrow> typec_evt K hw c AND EVENT_RX \<noteq> 0"
  unfolding rx_bit typec_evt_def by (intro mux_alert_rx tcpc_alert_rx)

lemma pd_execute_hard_reset_notify [simp]: "notify (pd_execute_hard_reset c) = notify c"
  by (simp add: pd_execute_hard_reset_def Let_def)

lemma tcpc_alert_notify [simp]: "notify (fst (tcpc_alert K hw c e)) = notify c"
  by (simp add: tcpc_alert_def Let_def if_distrib [of fst] if_distrib [of notify]
      if_distrib [of pd_execute_hard_reset] split del: if_split cong: if_cong)

lemma mux_alert_notify [simp]: "notify (fst (mux_alert K c e)) = notify c"
  by (simp add: mux_alert_def Let_def if_distrib [of fst] if_distrib [of notify]
      split del: if_split cong: if_cong)

lemma detach_check_cases:
  "notify (typec_detach_check K hw c evt) = notify c \<or>
   typec_detach_check K hw c evt = set_state_unattached K c"
  by (simp add: typec_detach_check_def fusb_try_detach_def Let_def)

lemma get_message_fields [simp]:
  "notify (fst (tcpm_get_message c f)) = notify c"
  "rec_head (fst (tcpm_get_message c f)) = fst (tcpm_get_message_loop f)"
  by (cases "tcpm_get_message_loop f"; simp add: tcpm_get_message_def Let_def)+

lemma rx_check_softreset:
  assumes "evt AND EVENT_RX \<noteq> 0"
      and "PACKET_IS_CONTROL_MSG (fst (tcpm_get_message_loop (fifo hw))) CMT_SOFTRESET"
  shows "conn_state (typec_rx_check hw c evt) =
           (if power_role (notify c) \<noteq> 0 then policy_src_softrst else policy_snk_softrst) \<and>
         sub_state (typec_rx_check hw c evt) = 0"
  using assms by (simp add: typec_rx_check_def Let_def)

lemma tx_check_fields [simp]:
  "conn_state (typec_tx_check c evt) = conn_state c"
  "sub_state (typec_tx_check c evt) = sub_state c"
  by (simp_all add: typec_tx_check_def)

lemma softreset_first:
  "sub_state c = 0 \<Longrightarrow> conn_state (fusb_state_src_softreset K c) = conn_state c"
  "sub_state c = 0 \<Longrightarrow> conn_state (fusb_state_snk_softreset K c) = conn_state c"
  by (simp_all add: fusb_state_src_softreset_def fusb_state_snk_softreset_def Let_def
      policy_send_data_tx)

lemma state_machine_split:
  assumes "typec_evt K hw c \<noteq> 0"
  shows "state_machine_typec K hw c =
     state_dispatch K hw
       (typec_tx_check (typec_rx_check hw (typec_before_rx K hw c) (typec_evt K hw c))
          (typec_evt K hw c))
       (typec_evt K hw c)"
proof -
  obtain c1 e1 where a: "tcpc_alert K hw c 0 = (c1, e1)" by (cases "tcpc_alert K hw c 0")
  obtain c2 e2 where m: "mux_alert K c1 e1 = (c2, e2)" by (cases "mux_alert K c1 e1")
  from a m have e: "typec_evt K hw c = e2" by (simp add: typec_evt_def)
  from a m e have b: "typec_before_rx K hw c = typec_detach_check K hw c2 e2"
    by (simp add: typec_before_rx_def)
  from assms e have "e2 \<noteq> 0" by simp
  with a m e b show ?thesis by (simp add: state_machine_typec_def)
qed

lemma state_machine_idle:
  assumes "typec_evt K hw c = 0"
  shows "state_machine_typec K hw c =
     fst (mux_alert K (fst (tcpc_alert K hw c 0)) (snd (tcpc_alert K hw c 0)))"
proof -
  obtain c1 e1 where a: "tcpc_alert K hw c 0 = (c1, e1)" by (cases "tcpc_alert K hw c 0")
  obtain c2 e2 where m: "mux_alert K c1 e1 = (c2, e2)" by (cases "mux_alert K c1 e1")
  from a m assms have "e2 = 0" by (simp add: typec_evt_def)
  with a m show ?thesis by (simp add: state_machine_typec_def)
qed

lemma detach_check_idle:
  "\<not> is_cc_connected (notify c) \<or> evt AND (EVENT_CC OR EVENT_DELAY_CC) = 0 \<Longrightarrow>
   typec_detach_check K hw c evt = c"
  by (auto simp add: typec_detach_check_def)

lemma before_rx_notify:
  "power_role (notify (typec_before_rx K hw c)) = power_role (notify c) \<or>
   power_role (notify (typec_before_rx K hw c)) = 0 \<and>
   conn_state (typec_before_rx K hw c) = unattached"
proof -
  let ?c2 = "fst (mux_alert K (fst (tcpc_alert K hw c 0)) (snd (tcpc_alert K hw c 0)))"
  have n: "notify ?c2 = notify c" by simp
  from detach_check_cases [of K hw ?c2 "typec_evt K hw c"] show ?thesis
  proof
    assume "notify (typec_detach_check K hw ?c2 (typec_evt K hw c)) = notify ?c2"
    with n show ?thesis by (simp add: typec_before_rx_def)
  next
    assume "typec_detach_check K hw ?c2 (typec_evt K hw c) = set_state_unattached K ?c2"
    then have "typec_before_rx K hw c = set_state_unattached K ?c2"
      by (simp add: typec_before_rx_def)
    then show ?thesis by (simp add: notify_zero_def)
  qed
qed

lemma before_rx_idle:
  assumes "\<not> is_cc_connected (notify c) \<or>
           typec_evt K hw c AND (EVENT_CC OR EVENT_DELAY_CC) = 0"
  shows "power_role (notify (typec_before_rx K hw c)) = power_role (notify c)"
proof -
  let ?c2 = "fst (mux_alert K (fst (tcpc_alert K hw c 0)) (snd (tcpc_alert K hw c 0)))"
  have n: "notify ?c2 = notify c" by simp
  with assms have "typec_detach_check K hw ?c2 (typec_evt K hw c) = ?c2"
    by (intro detach_check_idle) simp
  with n show ?thesis by (simp add: typec_before_rx_def)
qed

lemma dispatch_softreset:
  assumes "sub_state c = 0"
      and "conn_state c = policy_src_softrst \<or> conn_state c = policy_snk_softrst"
  shows "conn_state (state_dispatch K hw c evt) = conn_state c"
  using assms by (auto simp add: state_dispatch_def softreset_first)

text \<open>
  Claim C6 (soft reset is universal), as amended. Whenever a run of
  \<^verbatim>\<open>state_machine_typec\<close> has a received message and that message is a Soft_Reset
  control message, then whatever \<^verbatim>\<open>conn_state\<close> and \<^verbatim>\<open>sub_state\<close> were: the run
  is the per-state dispatch applied after the detach, receive and transmit checks, in this
  order; the receive check sets the soft-reset state of the power role that \<^verbatim>\<open>notify\<close>
  holds at that point, source or sink; and the dispatch of the same run, which sends the
  Accept, leaves that state in place. The power role at that point is the one the run
  began with, unless the detach check of the same run has reset the port to
  \<^verbatim>\<open>unattached\<close>, which clears \<^verbatim>\<open>notify\<close>: then it is the sink flow that is entered.
  The detach check leaves the port alone when the port is not connected or the event word
  holds no CC event.
\<close>

theorem softreset_universal:
  assumes "ib_gcrcsent hw"
      and "PACKET_IS_CONTROL_MSG (fst (tcpm_get_message_loop (fifo hw))) CMT_SOFTRESET"
  shows "state_machine_typec K hw c =
           state_dispatch K hw
             (typec_tx_check
                (typec_rx_check hw (typec_before_rx K hw c) (typec_evt K hw c))
                (typec_evt K hw c))
             (typec_evt K hw c) \<and>
         conn_state (typec_rx_check hw (typec_before_rx K hw c) (typec_evt K hw c)) =
           (if power_role (notify (typec_before_rx K hw c)) \<noteq> 0
            then policy_src_softrst else policy_snk_softrst) \<and>
         conn_state (state_machine_typec K hw c) =
           (if power_role (notify (typec_before_rx K hw c)) \<noteq> 0
            then policy_src_softrst else policy_snk_softrst) \<and>
         (power_role (notify (typec_before_rx K hw c)) = power_role (notify c) \<or>
          power_role (notify (typec_before_rx K hw c)) = 0 \<and>
          conn_state (typec_before_rx K hw c) = unattached) \<and>
         (\<not> is_cc_connected (notify c) \<or>
          typec_evt K hw c AND (EVENT_CC OR EVENT_DELAY_CC) = 0 \<longrightarrow>
          power_role (notify (typec_before_rx K hw c)) = power_role (notify c))"
proof -
  let ?evt = "typec_evt K hw c"
  let ?pre = "typec_before_rx K hw c"
  let ?rx = "typec_rx_check hw ?pre ?evt"
  let ?tx = "typec_tx_check ?rx ?evt"
  let ?s = "if power_role (notify ?pre) \<noteq> 0 then policy_src_softrst else policy_snk_softrst"
  from assms(1) have rx: "?evt AND EVENT_RX \<noteq> 0" by (rule typec_evt_rx)
  then have "?evt \<noteq> 0" by auto
  then have split: "state_machine_typec K hw c = state_dispatch K hw ?tx ?evt"
    by (rule state_machine_split)
  from rx assms(2) have r: "conn_state ?rx = ?s" "sub_state ?rx = 0"
    using rx_check_softreset [of ?evt hw ?pre] by blast+
  then have t: "conn_state ?tx = ?s" "sub_state ?tx = 0" by simp_all
  then have "conn_state ?tx = policy_src_softrst \<or> conn_state ?tx = policy_snk_softrst"
    by presburger
  with t have "conn_state (state_dispatch K hw ?tx ?evt) = ?s"
    using dispatch_softreset [of ?tx K hw ?evt] by presburger
  with split have fin: "conn_state (state_machine_typec K hw c) = ?s" by presburger
  from split r(1) fin before_rx_notify [of K hw c] before_rx_idle [of c K hw]
  show ?thesis by blast
qed

theorem softreset_universal_witness:
  "conn_state (state_machine_typec hdr_example (hw_rx softreset_frame)
                 (pd_chip policy_src_ready 1 1)) = policy_src_softrst \<and>
   conn_state (state_machine_typec hdr_example (hw_rx softreset_frame)
                 (pd_chip policy_snk_transition_sink 0 0)) = policy_snk_softrst"
proof -
  have h: "ib_gcrcsent (hw_rx softreset_frame)"
    "PACKET_IS_CONTROL_MSG (fst (tcpm_get_message_loop (fifo (hw_rx softreset_frame))))
       CMT_SOFTRESET"
    by code_simp+
  have p: "power_role (notify (typec_before_rx hdr_example (hw_rx softreset_frame)
             (pd_chip policy_src_ready 1 1))) = 1"
    "power_role (notify (typec_before_rx hdr_example (hw_rx softreset_frame)
             (pd_chip policy_snk_transition_sink 0 0))) = 0"
    by code_simp+
  have a: "conn_state (state_machine_typec hdr_example (hw_rx softreset_frame) c) =
           (if power_role (notify (typec_before_rx hdr_example (hw_rx softreset_frame) c)) \<noteq> 0
            then policy_src_softrst else policy_snk_softrst)" for c
    using softreset_universal [OF h, of hdr_example c] by blast
  from a [of "pd_chip policy_src_ready 1 1"] a [of "pd_chip policy_snk_transition_sink 0 0"] p
  show ?thesis by simp
qed

text \<open>
  The claim as worded fails for a source: when the run that receives the Soft_Reset also
  sees a CC event with the CC line open, the detach check resets the port first, and the
  run of a port whose power role was source ends in the sink soft-reset state.
\<close>

theorem softreset_universal_counterexample:
  "power_role (notify (pd_chip policy_src_ready 1 1)) \<noteq> 0 \<and>
   conn_state (state_machine_typec hdr_example (hw_rx_detach softreset_frame)
                 (pd_chip policy_src_ready 1 1)) = policy_snk_softrst"
  by code_simp

section \<open>Capability retries\<close>

lemma alert_idle: "tcpc_alert K hw_idle c 0 = (c, 0)"
  by (simp add: tcpc_alert_def hw_idle_def)

lemma alert_txfail: "tcpc_alert K hw_txfail c 0 = (c\<lparr>tx_state := tx_failed\<rparr>, EVENT_TX)"
  by (simp add: tcpc_alert_def hw_txfail_def hw_idle_def)

lemma event_bits:
  "EVENT_WORK_CONTINUE \<noteq> 0" "EVENT_TX \<noteq> 0" "EVENT_TIMER_STATE \<noteq> 0"
  "EVENT_WORK_CONTINUE AND (EVENT_CC OR EVENT_DELAY_CC) = 0"
  "EVENT_TX AND (EVENT_CC OR EVENT_DELAY_CC) = 0"
  "EVENT_TIMER_STATE AND (EVENT_CC OR EVENT_DELAY_CC) = 0"
  "EVENT_WORK_CONTINUE AND EVENT_RX = 0" "EVENT_TX AND EVENT_RX = 0"
  "EVENT_TIMER_STATE AND EVENT_RX = 0"
  "EVENT_WORK_CONTINUE AND EVENT_TX = 0" "EVENT_TX AND EVENT_TX \<noteq> 0"
  "EVENT_TIMER_STATE AND EVENT_TX = 0"
  "EVENT_WORK_CONTINUE AND FLAG_EVENT = 0"
  "EVENT_WORK_CONTINUE AND EVENT_TIMER_STATE = 0"
  "EVENT_WORK_CONTINUE AND EVENT_TIMER_MUX = 0"
  "EVENT_TX AND EVENT_TIMER_STATE = 0" "EVENT_TX AND EVENT_TIMER_MUX = 0"
  "EVENT_TX AND FLAG_EVENT = 0"
  "EVENT_TIMER_STATE AND EVENT_TIMER_STATE \<noteq> 0"
  by (simp_all add: EVENT_WORK_CONTINUE_def EVENT_TX_def EVENT_TIMER_STATE_def EVENT_CC_def
      EVENT_DELAY_CC_def EVENT_RX_def EVENT_TIMER_MUX_def FLAG_EVENT_def)

lemma run_requeued:
  assumes "work_continue c = EVENT_WORK_CONTINUE" "timer_state c \<noteq> 0" "timer_mux c \<noteq> 0"
  shows "state_machine_typec K hw_idle c =
           state_dispatch K hw_idle (c\<lparr>work_continue := 0\<rparr>) EVENT_WORK_CONTINUE"
  using assms
  by (simp add: state_machine_typec_def alert_idle mux_alert_def typec_detach_check_def
      typec_rx_check_def typec_tx_check_def event_bits)

lemma run_tx_failed:
  assumes "work_continue c = 0" "timer_state c \<noteq> 0" "timer_mux c \<noteq> 0"
  shows "state_machine_typec K hw_txfail c =
           state_dispatch K hw_txfail (c\<lparr>tx_state := tx_failed\<rparr>) EVENT_TX"
  using assms
  by (simp add: state_machine_typec_def alert_txfail mux_alert_def typec_detach_check_def
      typec_rx_check_def typec_tx_check_def event_bits)

lemma run_timer_expired:
  assumes "work_continue c = 0" "timer_state c = 0" "timer_mux c \<noteq> 0"
  shows "state_machine_typec K hw_idle c =
           state_dispatch K hw_idle (c\<lparr>timer_state := T_DISABLED K\<rparr>) EVENT_TIMER_STATE"
  using assms
  by (simp add: state_machine_typec_def alert_idle mux_alert_def typec_detach_check_def
      typec_rx_check_def typec_tx_check_def event_bits)

lemma tx_attempts_fields [simp]:
  "tx_attempts (set_state c s) = tx_attempts c"
  "tx_attempts (c\<lparr>work_continue := w\<rparr>) = tx_attempts c"
  "tx_attempts (c\<lparr>tx_state := t\<rparr>) = tx_attempts c"
  "tx_attempts (c\<lparr>timer_state := n\<rparr>) = tx_attempts c"
  "tx_attempts (c\<lparr>sub_state := m\<rparr>) = tx_attempts c"
  "tx_attempts (c\<lparr>caps_counter := m\<rparr>) = tx_attempts c"
  "tx_attempts (set_mesg K c cmd d) = tx_attempts c"
  by (simp_all add: tx_attempts_def)

lemma send_caps_first:
  assumes "sub_state c = 0" "evt AND FLAG_EVENT = 0"
  shows "conn_state (fusb_state_src_send_caps K c evt) = conn_state c"
    and "sub_state (fusb_state_src_send_caps K c evt) = 1"
    and "tx_state (fusb_state_src_send_caps K c evt) = tx_busy"
    and "caps_counter (fusb_state_src_send_caps K c evt) = caps_counter c"
    and "work_continue (fusb_state_src_send_caps K c evt) = work_continue c"
    and "timer_state (fusb_state_src_send_caps K c evt) = timer_state c"
    and "timer_mux (fusb_state_src_send_caps K c evt) = timer_mux c"
    and "tx_attempts (fusb_state_src_send_caps K c evt) = tx_attempts c + 1"
proof -
  let ?c1 = "(set_mesg K c DMT_SOURCECAPABILITIES DATAMESSAGE)\<lparr>sub_state := 1, tx_state := tx_idle\<rparr>"
  have t: "tx_state (policy_send_data K ?c1) = tx_busy"
    by (simp add: policy_send_data_tx)
  from assms t have e: "fusb_state_src_send_caps K c evt = policy_send_data K ?c1"
    by (simp add: fusb_state_src_send_caps_def Let_def)
  have a: "tx_attempts (policy_send_data K ?c1) = tx_attempts c + 1"
    by (simp add: policy_send_data_def Let_def tx_attempts_def)
  show "conn_state (fusb_state_src_send_caps K c evt) = conn_state c"
    and "sub_state (fusb_state_src_send_caps K c evt) = 1"
    and "tx_state (fusb_state_src_send_caps K c evt) = tx_busy"
    and "caps_counter (fusb_state_src_send_caps K c evt) = caps_counter c"
    and "work_continue (fusb_state_src_send_caps K c evt) = work_continue c"
    and "timer_state (fusb_state_src_send_caps K c evt) = timer_state c"
    and "timer_mux (fusb_state_src_send_caps K c evt) = timer_mux c"
    and "tx_attempts (fusb_state_src_send_caps K c evt) = tx_attempts c + 1"
    unfolding e using t a by simp_all
qed

lemma send_caps_failed:
  "sub_state c = 1 \<Longrightarrow> tx_state c = tx_failed \<Longrightarrow>
   fusb_state_src_send_caps K c evt = set_state c policy_src_discovery"
  by (simp add: fusb_state_src_send_caps_def Let_def policy_send_data_other)

lemma phase_send:
  assumes "caps_phase K k 0 c" and "T_DISABLED K \<noteq> 0"
  shows "next_trigger K c = Requeued"
    and "caps_phase K k 1 (fail_step K c)"
    and "tx_attempts (fail_step K c) = tx_attempts c + 1"
proof -
  from assms have c: "conn_state c = policy_src_send_caps" "sub_state c = 0"
    "caps_counter c = k" "work_continue c = EVENT_WORK_CONTINUE"
    "timer_state c = T_DISABLED K" "timer_mux c = T_DISABLED K"
    by (simp_all add: caps_phase_def)
  from c show n: "next_trigger K c = Requeued"
    by (simp add: next_trigger_def event_bits)
  let ?c = "c\<lparr>work_continue := 0\<rparr>"
  let ?d = "fusb_state_src_send_caps K ?c EVENT_WORK_CONTINUE"
  note s = send_caps_first [of ?c EVENT_WORK_CONTINUE K, simplified, OF c(2) event_bits(13)]
  from c assms(2) have "fail_step K c = state_dispatch K hw_idle ?c EVENT_WORK_CONTINUE"
    by (simp add: fail_step_def n run_requeued)
  also from c s(1) have "\<dots> = ?d" by (simp add: state_dispatch_def Let_def)
  finally have f: "fail_step K c = ?d" .
  from c s show "caps_phase K k 1 (fail_step K c)"
    unfolding f by (simp add: caps_phase_def)
  from s show "tx_attempts (fail_step K c) = tx_attempts c + 1"
    unfolding f by simp
qed

lemma phase_fail:
  assumes "caps_phase K k 1 c" and "T_DISABLED K \<noteq> 0"
  shows "next_trigger K c = Tx_failed"
    and "caps_phase K k 2 (fail_step K c)"
    and "tx_attempts (fail_step K c) = tx_attempts c"
proof -
  from assms have c: "conn_state c = policy_src_send_caps" "sub_state c = 1"
    "caps_counter c = k" "work_continue c = 0" "tx_state c = tx_busy"
    "timer_state c = T_DISABLED K" "timer_mux c = T_DISABLED K"
    by (simp_all add: caps_phase_def)
  from c show n: "next_trigger K c = Tx_failed"
    by (simp add: next_trigger_def)
  let ?c = "c\<lparr>tx_state := tx_failed\<rparr>"
  from c assms(2) have "fail_step K c = state_dispatch K hw_txfail ?c EVENT_TX"
    by (simp add: fail_step_def n run_tx_failed)
  also from c have "\<dots> = set_state ?c policy_src_discovery"
    by (simp add: state_dispatch_def Let_def send_caps_failed)
  finally have f: "fail_step K c = set_state ?c policy_src_discovery" .
  from c show "caps_phase K k 2 (fail_step K c)"
    unfolding f by (simp add: caps_phase_def)
  show "tx_attempts (fail_step K c) = tx_attempts c"
    unfolding f by simp
qed

lemma phase_count:
  assumes "caps_phase K k 2 c" and "T_DISABLED K \<noteq> 0"
  shows "next_trigger K c = Requeued"
    and "k + 1 < N_CAPS_COUNT K \<Longrightarrow> caps_phase K k 3 (fail_step K c)"
    and "\<not> k + 1 < N_CAPS_COUNT K \<Longrightarrow> conn_state (fail_step K c) = disabled"
    and "tx_attempts (fail_step K c) = tx_attempts c"
proof -
  from assms have c: "conn_state c = policy_src_discovery" "sub_state c = 0"
    "caps_counter c = k" "work_continue c = EVENT_WORK_CONTINUE"
    "timer_state c = T_DISABLED K" "timer_mux c = T_DISABLED K" "tx_state c = tx_failed"
    by (simp_all add: caps_phase_def)
  from c show n: "next_trigger K c = Requeued"
    by (simp add: next_trigger_def event_bits)
  let ?c = "c\<lparr>work_continue := 0\<rparr>"
  from c assms(2) have "fail_step K c = state_dispatch K hw_idle ?c EVENT_WORK_CONTINUE"
    by (simp add: fail_step_def n run_requeued)
  also from c have "\<dots> = fusb_state_src_discovery K ?c EVENT_WORK_CONTINUE"
    by (simp add: state_dispatch_def)
  finally have f: "fail_step K c = fusb_state_src_discovery K ?c EVENT_WORK_CONTINUE" .
  from c show "k + 1 < N_CAPS_COUNT K \<Longrightarrow> caps_phase K k 3 (fail_step K c)"
    unfolding f by (simp add: fusb_state_src_discovery_def Let_def caps_phase_def)
  from c show "\<not> k + 1 < N_CAPS_COUNT K \<Longrightarrow> conn_state (fail_step K c) = disabled"
    unfolding f by (simp add: fusb_state_src_discovery_def Let_def)
  from c show "tx_attempts (fail_step K c) = tx_attempts c"
    unfolding f by (simp add: fusb_state_src_discovery_def Let_def)
qed

lemma phase_timer:
  assumes "caps_phase K k 3 c" and "T_DISABLED K \<noteq> 0"
      and "T_TYPEC_SEND_SOURCECAP K \<noteq> 0" and "T_TYPEC_SEND_SOURCECAP K \<noteq> T_DISABLED K"
  shows "next_trigger K c = Timer_expired"
    and "caps_phase K (k + 1) 0 (fail_step K c)"
    and "tx_attempts (fail_step K c) = tx_attempts c"
proof -
  from assms(1) have c: "conn_state c = policy_src_discovery" "sub_state c = 1"
    "caps_counter c = k + 1" "work_continue c = 0" "tx_state c = tx_failed"
    "timer_state c = T_TYPEC_SEND_SOURCECAP K" "timer_mux c = T_DISABLED K"
    by (simp_all add: caps_phase_def)
  from c assms(4) show n: "next_trigger K c = Timer_expired"
    by (simp add: next_trigger_def)
  let ?e = "c\<lparr>timer_state := 0\<rparr>"
  let ?c = "?e\<lparr>timer_state := T_DISABLED K\<rparr>"
  from c assms(4) have h: "fusb_timer_handler_state K c = ?e"
    by (simp add: fusb_timer_handler_state_def)
  from c assms(2) have "state_machine_typec K hw_idle ?e =
      state_dispatch K hw_idle ?c EVENT_TIMER_STATE"
    by (intro run_timer_expired) simp_all
  with h have "fail_step K c = state_dispatch K hw_idle ?c EVENT_TIMER_STATE"
    by (simp add: fail_step_def n)
  also from c have "\<dots> = set_state ?c policy_src_send_caps"
    by (simp add: state_dispatch_def fusb_state_src_discovery_def event_bits)
  finally have f: "fail_step K c = set_state ?c policy_src_send_caps" .
  from c show "caps_phase K (k + 1) 0 (fail_step K c)"
    unfolding f by (simp add: caps_phase_def)
  show "tx_attempts (fail_step K c) = tx_attempts c"
    unfolding f by simp
qed

lemma phase_step:
  assumes wf: "T_DISABLED K \<noteq> 0" "T_TYPEC_SEND_SOURCECAP K \<noteq> 0"
      "T_TYPEC_SEND_SOURCECAP K \<noteq> T_DISABLED K"
    and ph: "caps_phase K (int (j div 4)) (j mod 4) c"
    and lt: "int (j div 4) + 1 < N_CAPS_COUNT K \<or> j mod 4 \<noteq> 2"
  shows "next_trigger K c = phase_trigger (j mod 4)"
    and "caps_phase K (int (Suc j div 4)) (Suc j mod 4) (fail_step K c)"
    and "tx_attempts (fail_step K c) = tx_attempts c + (if j mod 4 = 0 then 1 else 0)"
proof -
  consider "j mod 4 = 0" | "j mod 4 = 1" | "j mod 4 = 2" | "j mod 4 = 3"
    by linarith
  then have "next_trigger K c = phase_trigger (j mod 4) \<and>
      caps_phase K (int (Suc j div 4)) (Suc j mod 4) (fail_step K c) \<and>
      tx_attempts (fail_step K c) = tx_attempts c + (if j mod 4 = 0 then 1 else 0)"
  proof cases
    case 1
    then have s: "Suc j div 4 = j div 4" "Suc j mod 4 = 1" by presburger+
    from ph 1 have "caps_phase K (int (j div 4)) 0 c" by simp
    from phase_send [OF this wf(1)] 1 s show ?thesis by (simp add: phase_trigger_def)
  next
    case 2
    then have s: "Suc j div 4 = j div 4" "Suc j mod 4 = 2" by presburger+
    from ph 2 have "caps_phase K (int (j div 4)) 1 c" by simp
    from phase_fail [OF this wf(1)] 2 s show ?thesis by (simp add: phase_trigger_def)
  next
    case 3
    then have s: "Suc j div 4 = j div 4" "Suc j mod 4 = 3" by presburger+
    from ph 3 have p: "caps_phase K (int (j div 4)) 2 c" by simp
    from lt 3 have "int (j div 4) + 1 < N_CAPS_COUNT K" by simp
    with phase_count [OF p wf(1)] 3 s show ?thesis by (simp add: phase_trigger_def)
  next
    case 4
    then have s: "Suc j div 4 = Suc (j div 4)" "Suc j mod 4 = 0" by presburger+
    from ph 4 have p: "caps_phase K (int (j div 4)) 3 c" by simp
    from phase_timer [OF p wf] 4 s show ?thesis by (simp add: phase_trigger_def add.commute)
  qed
  then show "next_trigger K c = phase_trigger (j mod 4)"
    and "caps_phase K (int (Suc j div 4)) (Suc j mod 4) (fail_step K c)"
    and "tx_attempts (fail_step K c) = tx_attempts c + (if j mod 4 = 0 then 1 else 0)"
    by blast+
qed

lemma phase_count_end:
  assumes "caps_phase K k 2 c" and "T_DISABLED K \<noteq> 0" and "\<not> k + 1 < N_CAPS_COUNT K"
  shows "conn_state (fail_step K (fail_step K c)) = disabled"
    and "next_trigger K (fail_step K (fail_step K c)) = Quiescent"
proof -
  from assms have c: "conn_state c = policy_src_discovery" "sub_state c = 0"
    "caps_counter c = k" "work_continue c = EVENT_WORK_CONTINUE"
    "timer_state c = T_DISABLED K" "timer_mux c = T_DISABLED K" "tx_state c = tx_failed"
    by (simp_all add: caps_phase_def)
  let ?c = "c\<lparr>work_continue := 0\<rparr>"
  let ?d = "set_state (?c\<lparr>caps_counter := k + 1\<rparr>) disabled"
  from c have n: "next_trigger K c = Requeued"
    by (simp add: next_trigger_def event_bits)
  from c assms(2) have "fail_step K c = state_dispatch K hw_idle ?c EVENT_WORK_CONTINUE"
    by (simp add: fail_step_def n run_requeued)
  also from c assms(3) have "\<dots> = ?d"
    by (simp add: state_dispatch_def fusb_state_src_discovery_def Let_def)
  finally have f: "fail_step K c = ?d" .
  from c have n': "next_trigger K ?d = Requeued"
    by (simp add: next_trigger_def event_bits)
  from c assms(2) have "fail_step K ?d =
      state_dispatch K hw_idle (?d\<lparr>work_continue := 0\<rparr>) EVENT_WORK_CONTINUE"
    by (simp add: fail_step_def n' run_requeued event_bits)
  also have "\<dots> = ?d\<lparr>work_continue := 0\<rparr>"
    by (simp add: state_dispatch_def fusb_state_disabled_def)
  finally have g: "fail_step K (fail_step K c) = ?d\<lparr>work_continue := 0\<rparr>"
    unfolding f .
  show "conn_state (fail_step K (fail_step K c)) = disabled"
    unfolding g by simp
  from c show "next_trigger K (fail_step K (fail_step K c)) = Quiescent"
    unfolding g by (simp add: next_trigger_def)
qed

lemma phase_trigger_of:
  assumes "T_DISABLED K \<noteq> 0" "T_TYPEC_SEND_SOURCECAP K \<noteq> 0"
      "T_TYPEC_SEND_SOURCECAP K \<noteq> T_DISABLED K"
    and "caps_phase K k (j mod 4) c"
  shows "next_trigger K c = phase_trigger (j mod 4)"
proof -
  consider "j mod 4 = 0" | "j mod 4 = 1" | "j mod 4 = 2" | "j mod 4 = 3"
    by linarith
  then show ?thesis
  proof cases
    case 1
    with assms(4) have "caps_phase K k 0 c" by simp
    from phase_send(1) [OF this assms(1)] 1 show ?thesis by (simp add: phase_trigger_def)
  next
    case 2
    with assms(4) have "caps_phase K k 1 c" by simp
    from phase_fail(1) [OF this assms(1)] 2 show ?thesis by (simp add: phase_trigger_def)
  next
    case 3
    with assms(4) have "caps_phase K k 2 c" by simp
    from phase_count(1) [OF this assms(1)] 3 show ?thesis by (simp add: phase_trigger_def)
  next
    case 4
    with assms(4) have "caps_phase K k 3 c" by simp
    from phase_timer(1) [OF this assms(1,2,3)] 4 show ?thesis by (simp add: phase_trigger_def)
  qed
qed

lemma phase_states:
  "caps_phase K k (j mod 4) c \<Longrightarrow>
   conn_state c = (if j mod 4 < 2 then policy_src_send_caps else policy_src_discovery)"
proof -
  assume p: "caps_phase K k (j mod 4) c"
  consider "j mod 4 = 0" | "j mod 4 = 1" | "j mod 4 = 2" | "j mod 4 = 3"
    by linarith
  then show ?thesis
    using p by cases (simp_all add: caps_phase_def)
qed

lemma retry_invariant:
  assumes wf: "1 \<le> N_CAPS_COUNT K" "T_DISABLED K \<noteq> 0" "T_TYPEC_SEND_SOURCECAP K \<noteq> 0"
      "T_TYPEC_SEND_SOURCECAP K \<noteq> T_DISABLED K"
    and start: "caps_phase K 0 0 c"
  shows "j < 4 * nat (N_CAPS_COUNT K) - 1 \<Longrightarrow>
         caps_phase K (int (j div 4)) (j mod 4) ((fail_step K ^^ j) c) \<and>
         tx_attempts ((fail_step K ^^ j) c) = tx_attempts c + (j + 3) div 4"
proof (induction j)
  case 0
  from start show ?case by simp
next
  case (Suc j)
  let ?s = "(fail_step K ^^ j) c"
  from Suc.prems have "j < 4 * nat (N_CAPS_COUNT K) - 1" by simp
  with Suc.IH have ph: "caps_phase K (int (j div 4)) (j mod 4) ?s"
    and at: "tx_attempts ?s = tx_attempts c + (j + 3) div 4" by simp_all
  have lt: "int (j div 4) + 1 < N_CAPS_COUNT K \<or> j mod 4 \<noteq> 2"
  proof (cases "j mod 4 = 2")
    case True
    define n where "n = nat (N_CAPS_COUNT K)"
    from Suc.prems have "Suc j < 4 * n - 1" by (simp add: n_def)
    with True have "j div 4 + 1 < n" by presburger
    with wf(1) show ?thesis unfolding n_def by linarith
  qed simp
  note st = phase_step [OF wf(2,3,4) ph lt]
  have "(j + 3) div 4 + (if j mod 4 = 0 then 1 else 0) = (Suc j + 3) div 4"
    by presburger
  with st(2,3) at show ?case by simp
qed

text \<open>
  Claim C4 (retry-bound termination), as amended. The transport fails every transmission
  and nothing else happens: the worker runs when it has requeued itself, else when the
  transmitter reports that the retries of the pending transmission failed, else when the
  armed state timer expires; there is no CC or receive event, and the mux timer is
  disabled and stays so. From \<^verbatim>\<open>policy_src_send_caps\<close> as \<^verbatim>\<open>policy_src_startup\<close>
  leaves it on a fresh attachment (\<^verbatim>\<open>sub_state\<close> 0, \<^verbatim>\<open>caps_counter\<close> 0, the worker
  requeued, the state timer and the mux timer disabled), with \<^verbatim>\<open>N_CAPS_COUNT\<close> at
  least 1 and the timer constants distinct from 0 and from each other, the port reaches
  \<^verbatim>\<open>disabled\<close> at run \<open>4 * N_CAPS_COUNT - 1\<close>, having written exactly
  \<^verbatim>\<open>N_CAPS_COUNT\<close> messages to the transmit FIFO. Before that it is in
  \<^verbatim>\<open>policy_src_send_caps\<close> or \<^verbatim>\<open>policy_src_discovery\<close>, and its runs alternate: a
  run the worker requeued itself for is followed by a run that consumes a transmit-failure
  event or a timer expiry. One run after reaching \<^verbatim>\<open>disabled\<close> nothing is pending any
  more.
\<close>

theorem caps_retry_bound:
  assumes "1 \<le> N_CAPS_COUNT K" and "T_DISABLED K \<noteq> 0"
      and "T_TYPEC_SEND_SOURCECAP K \<noteq> 0" and "T_TYPEC_SEND_SOURCECAP K \<noteq> T_DISABLED K"
      and "conn_state c = policy_src_send_caps" and "sub_state c = 0"
      and "caps_counter c = 0" and "work_continue c = EVENT_WORK_CONTINUE"
      and "timer_state c = T_DISABLED K" and "timer_mux c = T_DISABLED K"
  shows "conn_state ((fail_step K ^^ (4 * nat (N_CAPS_COUNT K) - 1)) c) = disabled \<and>
         tx_attempts ((fail_step K ^^ (4 * nat (N_CAPS_COUNT K) - 1)) c) =
           tx_attempts c + nat (N_CAPS_COUNT K) \<and>
         (\<forall>j < 4 * nat (N_CAPS_COUNT K) - 1.
            conn_state ((fail_step K ^^ j) c) =
              (if j mod 4 < 2 then policy_src_send_caps else policy_src_discovery) \<and>
            next_trigger K ((fail_step K ^^ j) c) = phase_trigger (j mod 4) \<and>
            tx_attempts ((fail_step K ^^ j) c) = tx_attempts c + (j + 3) div 4) \<and>
         conn_state ((fail_step K ^^ (4 * nat (N_CAPS_COUNT K))) c) = disabled \<and>
         next_trigger K ((fail_step K ^^ (4 * nat (N_CAPS_COUNT K))) c) = Quiescent"
proof -
  let ?n = "nat (N_CAPS_COUNT K)"
  let ?s = "\<lambda>j. (fail_step K ^^ j) c"
  note wf = assms(1-4)
  from assms(5-10) have start: "caps_phase K 0 0 c" by (simp add: caps_phase_def)
  note inv = retry_invariant [OF wf start]
  from wf(1) have n: "1 \<le> ?n" by simp
  from n obtain y where y: "?n = Suc y" by (cases ?n) simp_all
  define m where "m = 4 * y + 2"
  have dm: "(4 * y + 2) div 4 = y" "(4 * y + 2) mod 4 = 2" "(4 * y + 2 + 3) div 4 = Suc y"
    by presburger+
  have m: "m < 4 * ?n - 1" "Suc m = 4 * ?n - 1" "Suc (Suc m) = 4 * ?n"
    "m div 4 = ?n - 1" "m mod 4 = 2" "(m + 3) div 4 = ?n"
    unfolding m_def y dm by simp_all
  from inv [OF m(1)] have "caps_phase K (int (m div 4)) (m mod 4) (?s m)"
    and "tx_attempts (?s m) = tx_attempts c + (m + 3) div 4" by blast+
  then have ph: "caps_phase K (int (?n - 1)) 2 (?s m)"
    and at: "tx_attempts (?s m) = tx_attempts c + ?n"
    unfolding m(4,5,6) .
  from n wf(1) have last: "\<not> int (?n - 1) + 1 < N_CAPS_COUNT K" by linarith
  have s1: "?s (4 * ?n - 1) = fail_step K (?s m)"
    unfolding m(2) [symmetric] by simp
  have s2: "?s (4 * ?n) = fail_step K (fail_step K (?s m))"
    unfolding m(3) [symmetric] by simp
  have a: "conn_state (?s (4 * ?n - 1)) = disabled"
    unfolding s1 by (rule phase_count(3) [OF ph wf(2) last])
  have b: "tx_attempts (?s (4 * ?n - 1)) = tx_attempts c + ?n"
    unfolding s1 at [symmetric] by (rule phase_count(4) [OF ph wf(2)])
  have d: "conn_state (?s (4 * ?n)) = disabled" "next_trigger K (?s (4 * ?n)) = Quiescent"
    unfolding s2 by (rule phase_count_end [OF ph wf(2) last])+
  have e: "\<forall>j < 4 * ?n - 1.
      conn_state (?s j) = (if j mod 4 < 2 then policy_src_send_caps else policy_src_discovery) \<and>
      next_trigger K (?s j) = phase_trigger (j mod 4) \<and>
      tx_attempts (?s j) = tx_attempts c + (j + 3) div 4"
  proof (intro allI impI)
    fix j assume "j < 4 * ?n - 1"
    from inv [OF this] have p: "caps_phase K (int (j div 4)) (j mod 4) (?s j)"
      and t: "tx_attempts (?s j) = tx_attempts c + (j + 3) div 4" by simp_all
    from phase_states [OF p] phase_trigger_of [OF wf(2,3,4) p] t
    show "conn_state (?s j) =
        (if j mod 4 < 2 then policy_src_send_caps else policy_src_discovery) \<and>
      next_trigger K (?s j) = phase_trigger (j mod 4) \<and>
      tx_attempts (?s j) = tx_attempts c + (j + 3) div 4" by simp
  qed
  show ?thesis by (intro conjI a b e d)
qed

theorem caps_retry_bound_witness:
  "conn_state (state_machine_typec hdr_two_caps hw_idle src_attached) = policy_src_send_caps \<and>
   conn_state ((fail_step hdr_two_caps ^^ 7)
     (state_machine_typec hdr_two_caps hw_idle src_attached)) = disabled \<and>
   tx_attempts ((fail_step hdr_two_caps ^^ 7)
     (state_machine_typec hdr_two_caps hw_idle src_attached)) = 2"
proof -
  let ?c = "state_machine_typec hdr_two_caps hw_idle src_attached"
  have h: "1 \<le> N_CAPS_COUNT hdr_two_caps" "T_DISABLED hdr_two_caps \<noteq> 0"
    "T_TYPEC_SEND_SOURCECAP hdr_two_caps \<noteq> 0"
    "T_TYPEC_SEND_SOURCECAP hdr_two_caps \<noteq> T_DISABLED hdr_two_caps"
    "conn_state ?c = policy_src_send_caps" "sub_state ?c = 0"
    "caps_counter ?c = 0" "work_continue ?c = EVENT_WORK_CONTINUE"
    "timer_state ?c = T_DISABLED hdr_two_caps" "timer_mux ?c = T_DISABLED hdr_two_caps"
    by code_simp+
  have n: "4 * nat (N_CAPS_COUNT hdr_two_caps) - 1 = 7" "nat (N_CAPS_COUNT hdr_two_caps) = 2"
    "tx_attempts ?c = 0"
    by code_simp+
  from caps_retry_bound [OF h] h(5) n show ?thesis by simp
qed

text \<open>
  The claim as worded fails when the mux timer is armed: after a hard reset
  \<^verbatim>\<open>fusb_state_src_transition_default\<close> arms it with \<^verbatim>\<open>T_NO_RESPONSE\<close>. With two
  capability attempts allowed, the source goes through startup, sends its capabilities
  once, the transmission fails, and it waits in \<^verbatim>\<open>policy_src_discovery\<close> for the retry
  timer; the mux timer expires first and the port leaves the cycle for
  \<^verbatim>\<open>error_recovery\<close>, after one attempt.
\<close>

theorem caps_retry_bound_counterexample:
  "N_CAPS_COUNT hdr_two_caps = 2 \<and>
   conn_state ((fail_step hdr_two_caps ^^ 2) src_hard_reset_sent) = policy_src_send_caps \<and>
   timer_mux ((fail_step hdr_two_caps ^^ 2) src_hard_reset_sent) = T_NO_RESPONSE hdr_two_caps \<and>
   conn_state src_retry_wait = policy_src_discovery \<and>
   tx_attempts src_retry_wait = 1 \<and>
   conn_state src_no_response = error_recovery \<and>
   tx_attempts src_no_response = 1"
  by code_simp

section \<open>The message id\<close>

lemma msg_id_fusb_set_pos_power_step [simp]: "msg_id (fst (fusb_set_pos_power_step K x1 x2 x3 c)) = msg_id c"
  by (simp add: fusb_set_pos_power_step_def Let_def split: prod.split option.split)

lemma msg_id_fusb_set_pos_power_loop [simp]:
  "msg_id (fusb_set_pos_power_loop K x1 x2 x3 c) = msg_id c"
proof (induction x3 arbitrary: c)
  case 0
  show ?case by simp
next
  case (Suc n)
  obtain y b where y: "fusb_set_pos_power_step K x1 x2 n c = (y, b)"
    by (cases "fusb_set_pos_power_step K x1 x2 n c")
  with msg_id_fusb_set_pos_power_step [of K x1 x2 n c] have "msg_id y = msg_id c" by simp
  with y Suc [of y] show ?case by simp
qed

lemma msg_id_fusb_set_pos_power [simp]: "msg_id (fusb_set_pos_power K c x1 x2) = msg_id c"
  by (simp add: fusb_set_pos_power_def Let_def split: prod.split option.split)

lemma msg_id_fusb302_set_pos_power_by_charge_ic [simp]: "msg_id (fusb302_set_pos_power_by_charge_ic K hw c) = msg_id c"
  by (simp add: fusb302_set_pos_power_by_charge_ic_def Let_def split: prod.split option.split)

lemma msg_id_tcpm_set_polarity [simp]: "msg_id (tcpm_set_polarity c x1) = msg_id c"
  by (simp add: tcpm_set_polarity_def Let_def split: prod.split option.split)

lemma msg_id_tcpm_set_vconn [simp]: "msg_id (tcpm_set_vconn c x1) = msg_id c"
  by (simp add: tcpm_set_vconn_def Let_def split: prod.split option.split)

lemma msg_id_tcpm_init [simp]: "msg_id (tcpm_init c) = msg_id c"
  by (simp add: tcpm_init_def Let_def split: prod.split option.split)

lemma msg_id_fusb_timer_handler_state [simp]: "msg_id (fusb_timer_handler_state K c) = msg_id c"
  by (simp add: fusb_timer_handler_state_def Let_def split: prod.split option.split)

lemma msg_id_fusb_timer_handler_mux [simp]: "msg_id (fusb_timer_handler_mux K c) = msg_id c"
  by (simp add: fusb_timer_handler_mux_def Let_def split: prod.split option.split)

lemma msg_id_set_vdm_mesg [simp]: "msg_id (set_vdm_mesg K c x1 x2 x3) = msg_id c"
  by (simp add: set_vdm_mesg_def Let_def split: prod.split option.split)

lemma msg_id_policy_send_hardrst [simp]: "msg_id (policy_send_hardrst K c evt) = msg_id c"
  by (simp add: policy_send_hardrst_def Let_def split: prod.split option.split)

lemma msg_id_process_svids [simp]: "msg_id (process_svids x1 x2 c) = msg_id c"
  by (induction x1 x2 c rule: process_svids.induct) (simp_all add: Let_def)

lemma msg_id_process_vdm_msg [simp]: "msg_id (process_vdm_msg K c) = msg_id c"
  by (simp add: process_vdm_msg_def Let_def split: prod.split option.split)

lemma msg_id_vdm_send_timeout [simp]: "msg_id (fst (vdm_send_timeout c evt)) = msg_id c"
  by (simp add: vdm_send_timeout_def Let_def split: prod.split option.split)

lemma msg_id_vdm_send_case1:
  assumes "\<And>d. msg_id (fst (dflt d)) = msg_id d"
  shows "msg_id (fst (vdm_send_case1 K c dflt)) = msg_id c"
  using assms by (simp add: vdm_send_case1_def Let_def)

lemma msg_id_vdm_send_discoveryid [simp]: "msg_id (fst (vdm_send_discoveryid K c evt)) = msg_id c"
  by (simp add: vdm_send_discoveryid_def Let_def msg_id_vdm_send_case1 split: prod.split option.split)

lemma msg_id_vdm_send_discoverysvid [simp]: "msg_id (fst (vdm_send_discoverysvid K c evt)) = msg_id c"
  by (simp add: vdm_send_discoverysvid_def Let_def msg_id_vdm_send_case1 split: prod.split option.split)

lemma msg_id_vdm_send_discoverymodes [simp]: "msg_id (fst (vdm_send_discoverymodes K c evt)) = msg_id c"
  by (simp add: vdm_send_discoverymodes_def Let_def msg_id_vdm_send_case1 split: prod.split option.split)

lemma msg_id_vdm_send_entermode [simp]: "msg_id (fst (vdm_send_entermode K c evt)) = msg_id c"
  by (simp add: vdm_send_entermode_def Let_def msg_id_vdm_send_case1 split: prod.split option.split)

lemma msg_id_vdm_send_getdpstatus [simp]: "msg_id (fst (vdm_send_getdpstatus K c evt)) = msg_id c"
  by (simp add: vdm_send_getdpstatus_def Let_def msg_id_vdm_send_case1 split: prod.split option.split)

lemma msg_id_vdm_send_dpconfig [simp]: "msg_id (fst (vdm_send_dpconfig K c evt)) = msg_id c"
  by (simp add: vdm_send_dpconfig_def Let_def msg_id_vdm_send_case1 split: prod.split option.split)

lemma msg_id_AUTO_VDM_HANDLE [simp]: "msg_id (AUTO_VDM_HANDLE r) = msg_id (fst r)"
  by (simp add: AUTO_VDM_HANDLE_def split: prod.split)

lemma msg_id_auto_vdm_machine [simp]: "msg_id (auto_vdm_machine K c evt) = msg_id c"
  by (simp add: auto_vdm_machine_def Let_def split: prod.split option.split)

lemma msg_id_fusb_state_disabled [simp]: "msg_id (fusb_state_disabled c evt) = msg_id c"
  by (simp add: fusb_state_disabled_def Let_def split: prod.split option.split)

lemma msg_id_fusb_state_unattached [simp]: "msg_id (fusb_state_unattached K hw c evt) = msg_id c"
  by (simp add: fusb_state_unattached_def Let_def split: prod.split option.split)

lemma msg_id_fusb_state_try_attach_set [simp]: "msg_id (fusb_state_try_attach_set K c x1) = msg_id c"
  by (simp add: fusb_state_try_attach_set_def Let_def split: prod.split option.split)

lemma msg_id_debounce_sample [simp]: "msg_id (debounce_sample c x1) = msg_id c"
  by (simp add: debounce_sample_def Let_def split: prod.split option.split)

lemma msg_id_fusb_state_attach_wait_sink [simp]: "msg_id (fusb_state_attach_wait_sink K hw c evt) = msg_id c"
  by (simp add: fusb_state_attach_wait_sink_def Let_def split: prod.split option.split)

lemma msg_id_fusb_state_attach_wait_source [simp]: "msg_id (fusb_state_attach_wait_source K hw c evt) = msg_id c"
  by (simp add: fusb_state_attach_wait_source_def Let_def split: prod.split option.split)

lemma msg_id_fusb_state_attached_source [simp]: "msg_id (fusb_state_attached_source K c evt) = msg_id c"
  by (simp add: fusb_state_attached_source_def Let_def split: prod.split option.split)

lemma msg_id_fusb_state_attached_sink [simp]: "msg_id (fusb_state_attached_sink K hw c evt) = msg_id c"
  by (simp add: fusb_state_attached_sink_def Let_def split: prod.split option.split)

lemma msg_id_fusb_state_try_attach [simp]: "msg_id (fusb_state_try_attach K hw c evt x1) = msg_id c"
  by (simp add: fusb_state_try_attach_def Let_def split: prod.split option.split)

lemma msg_id_fusb_state_attach_wait_audio_acc [simp]: "msg_id (fusb_state_attach_wait_audio_acc K hw c evt) = msg_id c"
  by (simp add: fusb_state_attach_wait_audio_acc_def Let_def split: prod.split option.split)

lemma msg_id_fusb_state_attached_audio_acc [simp]: "msg_id (fusb_state_attached_audio_acc K c evt) = msg_id c"
  by (simp add: fusb_state_attached_audio_acc_def Let_def split: prod.split option.split)

lemma msg_id_fusb_state_src_discovery [simp]: "msg_id (fusb_state_src_discovery K c evt) = msg_id c"
  by (simp add: fusb_state_src_discovery_def Let_def split: prod.split option.split)

lemma msg_id_fusb_state_src_send_caps [simp]: "msg_id (fusb_state_src_send_caps K c evt) = msg_id c"
  by (simp add: fusb_state_src_send_caps_def Let_def split: prod.split option.split)

lemma msg_id_fusb_state_src_negotiate_cap [simp]: "msg_id (fusb_state_src_negotiate_cap c evt) = msg_id c"
  by (simp add: fusb_state_src_negotiate_cap_def Let_def split: prod.split option.split)

lemma msg_id_fusb_state_src_transition_supply [simp]: "msg_id (fusb_state_src_transition_supply K c evt) = msg_id c"
  by (simp add: fusb_state_src_transition_supply_def Let_def split: prod.split option.split)

lemma msg_id_fusb_state_src_cap_response [simp]: "msg_id (fusb_state_src_cap_response K c evt) = msg_id c"
  by (simp add: fusb_state_src_cap_response_def Let_def split: prod.split option.split)

lemma msg_id_fusb_state_src_transition_default [simp]: "msg_id (fusb_state_src_transition_default K c evt) = msg_id c"
  by (simp add: fusb_state_src_transition_default_def Let_def split: prod.split option.split)

lemma msg_id_fusb_state_vcs_ufp_evaluate_swap [simp]: "msg_id (fusb_state_vcs_ufp_evaluate_swap c evt) = msg_id c"
  by (simp add: fusb_state_vcs_ufp_evaluate_swap_def Let_def split: prod.split option.split)

lemma msg_id_fusb_state_swap_msg_process [simp]: "msg_id (fusb_state_swap_msg_process c evt) = msg_id c"
  by (simp add: fusb_state_swap_msg_process_def Let_def split: prod.split option.split)

lemma msg_id_ready_rx [simp]: "msg_id (ready_rx K c evt) = msg_id c"
  by (simp add: ready_rx_def Let_def split: prod.split option.split)

lemma msg_id_fusb_state_src_ready [simp]: "msg_id (fusb_state_src_ready K c evt) = msg_id c"
  by (simp add: fusb_state_src_ready_def Let_def split: prod.split option.split)

lemma msg_id_fusb_state_prs_evaluate [simp]: "msg_id (fusb_state_prs_evaluate c evt) = msg_id c"
  by (simp add: fusb_state_prs_evaluate_def Let_def split: prod.split option.split)

lemma msg_id_fusb_state_send_simple_msg [simp]: "msg_id (fusb_state_send_simple_msg K c evt x1 x2 x3 x4) = msg_id c"
  by (simp add: fusb_state_send_simple_msg_def Let_def split: prod.split option.split)

lemma msg_id_fusb_state_prs_reject [simp]: "msg_id (fusb_state_prs_reject K c evt) = msg_id c"
  by (simp add: fusb_state_prs_reject_def Let_def split: prod.split option.split)

lemma msg_id_fusb_state_prs_accept [simp]: "msg_id (fusb_state_prs_accept K c evt) = msg_id c"
  by (simp add: fusb_state_prs_accept_def Let_def split: prod.split option.split)

lemma msg_id_fusb_state_vcs_ufp_accept [simp]: "msg_id (fusb_state_vcs_ufp_accept K c evt) = msg_id c"
  by (simp add: fusb_state_vcs_ufp_accept_def Let_def split: prod.split option.split)

lemma msg_id_fusb_state_vcs_set_vconn [simp]: "msg_id (fusb_state_vcs_set_vconn c evt x1) = msg_id c"
  by (simp add: fusb_state_vcs_set_vconn_def Let_def split: prod.split option.split)

lemma msg_id_fusb_state_vcs_send_ps_rdy [simp]: "msg_id (fusb_state_vcs_send_ps_rdy K c evt) = msg_id c"
  by (simp add: fusb_state_vcs_send_ps_rdy_def Let_def split: prod.split option.split)

lemma msg_id_fusb_state_vcs_wait_for_vconn [simp]: "msg_id (fusb_state_vcs_wait_for_vconn K c evt) = msg_id c"
  by (simp add: fusb_state_vcs_wait_for_vconn_def Let_def split: prod.split option.split)

lemma msg_id_fusb_state_src_prs_transition_to_off [simp]: "msg_id (fusb_state_src_prs_transition_to_off K c evt) = msg_id c"
  by (simp add: fusb_state_src_prs_transition_to_off_def Let_def split: prod.split option.split)

lemma msg_id_fusb_state_src_prs_assert_rd [simp]: "msg_id (fusb_state_src_prs_assert_rd c evt) = msg_id c"
  by (simp add: fusb_state_src_prs_assert_rd_def Let_def split: prod.split option.split)

lemma msg_id_fusb_state_src_prs_source_off [simp]: "msg_id (fusb_state_src_prs_source_off K c evt) = msg_id c"
  by (simp add: fusb_state_src_prs_source_off_def Let_def split: prod.split option.split)

lemma msg_id_fusb_state_drs_evaluate [simp]: "msg_id (fusb_state_drs_evaluate c evt) = msg_id c"
  by (simp add: fusb_state_drs_evaluate_def Let_def split: prod.split option.split)

lemma msg_id_fusb_state_drs_send_accept [simp]: "msg_id (fusb_state_drs_send_accept K c evt) = msg_id c"
  by (simp add: fusb_state_drs_send_accept_def Let_def split: prod.split option.split)

lemma msg_id_fusb_state_drs_role_change [simp]: "msg_id (fusb_state_drs_role_change c evt) = msg_id c"
  by (simp add: fusb_state_drs_role_change_def Let_def split: prod.split option.split)

lemma msg_id_fusb_state_src_get_sink_cap [simp]: "msg_id (fusb_state_src_get_sink_cap K c evt) = msg_id c"
  by (simp add: fusb_state_src_get_sink_cap_def Let_def split: prod.split option.split)

lemma msg_id_fusb_state_src_send_hardreset [simp]: "msg_id (fusb_state_src_send_hardreset K c evt) = msg_id c"
  by (simp add: fusb_state_src_send_hardreset_def Let_def split: prod.split option.split)

lemma msg_id_fusb_state_snk_discovery [simp]: "msg_id (fusb_state_snk_discovery K c evt) = msg_id c"
  by (simp add: fusb_state_snk_discovery_def Let_def split: prod.split option.split)

lemma msg_id_fusb_state_snk_wait_caps [simp]: "msg_id (fusb_state_snk_wait_caps K c evt) = msg_id c"
  by (simp add: fusb_state_snk_wait_caps_def Let_def split: prod.split option.split)

lemma msg_id_snk_evaluate_cap [simp]: "msg_id (snk_evaluate_cap K x1 c) = msg_id c"
  by (simp add: snk_evaluate_cap_def Let_def split: prod.split option.split)

lemma msg_id_fold_snk_evaluate_cap [simp]:
  "msg_id (fold (snk_evaluate_cap K) ns c) = msg_id c"
  by (induction ns arbitrary: c) simp_all

lemma msg_id_fusb_state_snk_evaluate_caps [simp]: "msg_id (fusb_state_snk_evaluate_caps K hw c evt) = msg_id c"
  by (simp add: fusb_state_snk_evaluate_caps_def Let_def split: prod.split option.split)

lemma msg_id_fusb_state_snk_select_cap [simp]: "msg_id (fusb_state_snk_select_cap K c evt) = msg_id c"
  by (simp add: fusb_state_snk_select_cap_def Let_def split: prod.split option.split)

lemma msg_id_fusb_state_snk_transition_sink [simp]: "msg_id (fusb_state_snk_transition_sink c evt) = msg_id c"
  by (simp add: fusb_state_snk_transition_sink_def Let_def split: prod.split option.split)

lemma msg_id_fusb_state_snk_transition_default [simp]: "msg_id (fusb_state_snk_transition_default K hw c evt) = msg_id c"
  by (simp add: fusb_state_snk_transition_default_def Let_def split: prod.split option.split)

lemma msg_id_fusb_state_snk_ready [simp]: "msg_id (fusb_state_snk_ready K c evt) = msg_id c"
  by (simp add: fusb_state_snk_ready_def Let_def split: prod.split option.split)

lemma msg_id_fusb_state_snk_send_hardreset [simp]: "msg_id (fusb_state_snk_send_hardreset K c evt) = msg_id c"
  by (simp add: fusb_state_snk_send_hardreset_def Let_def split: prod.split option.split)

lemma msg_id_fusb_state_send_swap [simp]: "msg_id (fusb_state_send_swap K c evt x1) = msg_id c"
  by (simp add: fusb_state_send_swap_def Let_def split: prod.split option.split)

lemma msg_id_fusb_state_snk_prs_transition_to_off [simp]: "msg_id (fusb_state_snk_prs_transition_to_off K c evt) = msg_id c"
  by (simp add: fusb_state_snk_prs_transition_to_off_def Let_def split: prod.split option.split)

lemma msg_id_fusb_state_snk_prs_assert_rp [simp]: "msg_id (fusb_state_snk_prs_assert_rp c evt) = msg_id c"
  by (simp add: fusb_state_snk_prs_assert_rp_def Let_def split: prod.split option.split)

lemma msg_id_fusb_state_snk_prs_source_on [simp]: "msg_id (fusb_state_snk_prs_source_on K c evt) = msg_id c"
  by (simp add: fusb_state_snk_prs_source_on_def Let_def split: prod.split option.split)

lemma msg_id_fusb_try_detach [simp]: "msg_id (fusb_try_detach K hw c) = msg_id c"
  by (simp add: fusb_try_detach_def Let_def split: prod.split option.split)

lemma msg_id_pd_execute_hard_reset: "msg_id (pd_execute_hard_reset c) = 0"
  by (simp add: pd_execute_hard_reset_def Let_def)

lemma msg_id_fusb_soft_reset_parameter [simp]: "msg_id (fusb_soft_reset_parameter c) = 0"
  by (simp add: fusb_soft_reset_parameter_def)

lemma msg_id_dispatch_kept:
  "\<not> soft_reset_state (conn_state c) \<Longrightarrow> msg_id (state_dispatch K hw c evt) = msg_id c"
  by (cases "conn_state c") (simp_all add: state_dispatch_def Let_def soft_reset_state_def)

lemma msg_id_tcpc_alert:
  "\<not> ia_hardrst hw \<Longrightarrow> \<not> (ia_hardsent hw \<and> alert_retry c = 0) \<Longrightarrow>
   msg_id (fst (tcpc_alert K hw c e)) = msg_id c"
  by (simp add: tcpc_alert_def Let_def if_distrib [of fst] if_distrib [of msg_id]
      if_distrib [of alert_retry] split del: if_split cong: if_cong)

lemma tx_state_tcpc_alert_failed:
  "ia_retryfail hw \<Longrightarrow> \<not> ia_hardsent hw \<Longrightarrow> tx_state (fst (tcpc_alert K hw c e)) = tx_failed"
  by (simp add: tcpc_alert_def Let_def)

lemma mux_alert_ids [simp]:
  "msg_id (fst (mux_alert K c e)) = msg_id c"
  "tx_state (fst (mux_alert K c e)) = tx_state c"
  by (simp_all add: mux_alert_def Let_def if_distrib [of fst] if_distrib [of msg_id]
      if_distrib [of tx_state] split del: if_split cong: if_cong)

lemma detach_check_ids [simp]:
  "msg_id (typec_detach_check K hw c evt) = msg_id c"
  "tx_state (typec_detach_check K hw c evt) = tx_state c"
  by (simp_all add: typec_detach_check_def fusb_try_detach_def Let_def)

lemma rx_check_ids [simp]:
  "msg_id (typec_rx_check hw c evt) = msg_id c"
  "tx_state (typec_rx_check hw c evt) = tx_state c"
  by (cases "tcpm_get_message_loop (fifo hw)";
      simp add: typec_rx_check_def tcpm_get_message_def Let_def)+

lemma before_tx_ids:
  "msg_id (typec_before_tx K hw c) = msg_id (fst (tcpc_alert K hw c 0))"
  "tx_state (typec_before_tx K hw c) = tx_state (fst (tcpc_alert K hw c 0))"
  by (simp_all add: typec_before_tx_def typec_before_rx_def)

lemma msg_id_reset_handlers:
  "msg_id (fusb_state_src_startup K c evt) = 0"
  "msg_id (fusb_state_snk_startup K c evt) = 0"
  "msg_id (fusb_state_src_softreset K c) =
     (if sub_state c \<noteq> 0 \<and> tx_state c = tx_success then 0 else msg_id c)"
  "msg_id (fusb_state_snk_softreset K c) =
     (if sub_state c \<noteq> 0 \<and> tx_state c = tx_success then 0 else msg_id c)"
  by (simp_all add: fusb_state_src_startup_def fusb_state_snk_startup_def
      fusb_state_src_softreset_def fusb_state_snk_softreset_def Let_def policy_send_data_tx)

lemma msg_id_send_softreset:
  "msg_id (fusb_state_src_send_softreset K c evt) =
     (if evt AND EVENT_RX \<noteq> 0 \<and> PACKET_IS_CONTROL_MSG (rec_head c) CMT_ACCEPT
      then 0 else msg_id c)"
  "msg_id (fusb_state_snk_send_softreset K c evt) =
     (if evt AND EVENT_RX \<noteq> 0 \<and> PACKET_IS_CONTROL_MSG (rec_head c) CMT_ACCEPT
      then 0 else msg_id c)"
proof -
  show "msg_id (fusb_state_src_send_softreset K c evt) =
     (if evt AND EVENT_RX \<noteq> 0 \<and> PACKET_IS_CONTROL_MSG (rec_head c) CMT_ACCEPT
      then 0 else msg_id c)"
  proof (cases "evt AND EVENT_RX \<noteq> 0")
    case True
    with rx_flag_event [OF True] show ?thesis
      by (simp add: fusb_state_src_send_softreset_def Let_def)
  next
    case False
    then show ?thesis
      by (simp add: fusb_state_src_send_softreset_def Let_def)
  qed
  show "msg_id (fusb_state_snk_send_softreset K c evt) =
     (if evt AND EVENT_RX \<noteq> 0 \<and> PACKET_IS_CONTROL_MSG (rec_head c) CMT_ACCEPT
      then 0 else msg_id c)"
  proof (cases "evt AND EVENT_RX \<noteq> 0")
    case True
    with rx_flag_event [OF True] show ?thesis
      by (cases "PACKET_IS_CONTROL_MSG (rec_head c) CMT_ACCEPT")
         (simp_all add: fusb_state_snk_send_softreset_def Let_def
          PACKET_IS_CONTROL_MSG_def [symmetric])
  next
    case False
    then show ?thesis
      by (simp add: fusb_state_snk_send_softreset_def Let_def)
  qed
qed

lemma msg_id_dispatch:
  "msg_id (state_dispatch K hw x evt) = (if soft_reset_called x evt then 0 else msg_id x)"
proof (cases "soft_reset_state (conn_state x)")
  case False
  then have "\<not> soft_reset_called x evt"
    by (simp add: soft_reset_state_def soft_reset_called_def)
  with False show ?thesis by (simp add: msg_id_dispatch_kept)
next
  case True
  then consider "conn_state x = policy_src_startup" | "conn_state x = policy_snk_startup"
    | "conn_state x = policy_src_softrst" | "conn_state x = policy_snk_softrst"
    | "conn_state x = policy_src_send_softrst" | "conn_state x = policy_snk_send_softrst"
    unfolding soft_reset_state_def by blast
  then show ?thesis
    by cases (simp_all add: state_dispatch_def soft_reset_called_def msg_id_reset_handlers
        msg_id_send_softreset)
qed

lemma msg_id_tcpc_alert_reset:
  "ia_hardrst hw \<or> ia_hardsent hw \<and> alert_retry c = 0 \<Longrightarrow>
   msg_id (fst (tcpc_alert K hw c e)) = 0"
  by (cases "ia_hardrst hw"; cases "ia_hardsent hw")
     (simp_all add: tcpc_alert_def Let_def if_distrib [of fst] if_distrib [of msg_id]
      if_distrib [of alert_retry] if_distrib [of pd_execute_hard_reset]
      msg_id_pd_execute_hard_reset split del: if_split cong: if_cong)

lemma msg_id_alert:
  "msg_id (fst (tcpc_alert K hw c e)) = (if hard_reset_alert hw c then 0 else msg_id c)"
  using msg_id_tcpc_alert [of hw c K e] msg_id_tcpc_alert_reset [of hw c K e]
  unfolding hard_reset_alert_def by auto

lemma run_msg_id_exact:
  "msg_id (state_machine_typec K hw c) =
     (if soft_reset_run K hw c then 0
      else (if hard_reset_alert hw c then 0 else msg_id c) +
           (if tx_confirmed K hw c then 1 else 0))"
proof (cases "typec_evt K hw c = 0")
  case True
  then have "\<not> tx_confirmed K hw c" "\<not> soft_reset_run K hw c"
    by (simp_all add: tx_confirmed_def soft_reset_run_def)
  with True show ?thesis by (simp add: state_machine_idle msg_id_alert)
next
  case False
  let ?evt = "typec_evt K hw c"
  let ?b = "typec_before_tx K hw c"
  let ?x = "typec_at_dispatch K hw c"
  from False have s: "state_machine_typec K hw c = state_dispatch K hw ?x ?evt"
    unfolding typec_at_dispatch_def typec_before_tx_def by (rule state_machine_split)
  have t: "msg_id ?x = (if hard_reset_alert hw c then 0 else msg_id c) +
      (if tx_confirmed K hw c then 1 else 0)"
    by (simp add: typec_at_dispatch_def typec_tx_check_def tx_confirmed_def before_tx_ids
        msg_id_alert)
  from False have r: "soft_reset_run K hw c = soft_reset_called ?x ?evt"
    by (simp add: soft_reset_run_def)
  show ?thesis
    unfolding s msg_id_dispatch r t by (rule refl)
qed

lemma run_msg_id:
  assumes "id_kept K hw c"
  shows "msg_id (state_machine_typec K hw c) =
           msg_id c + (if tx_confirmed K hw c then 1 else 0)"
  using assms unfolding run_msg_id_exact id_kept_def by simp

lemma runs_msg_id:
  "kept_runs K hws c \<Longrightarrow>
   msg_id (run_machine K hws c) = msg_id c + of_nat (confirmed_sends K hws c)"
proof (induction hws arbitrary: c)
  case Nil
  show ?case by (simp add: run_machine_def)
next
  case (Cons hw hws)
  let ?d = "state_machine_typec K hw c"
  from Cons.prems have k: "id_kept K hw c" "kept_runs K hws ?d" by simp_all
  from Cons.IH [OF k(2)] have "msg_id (run_machine K hws ?d) =
      msg_id ?d + of_nat (confirmed_sends K hws ?d)" .
  moreover have "run_machine K (hw # hws) c = run_machine K hws ?d"
    by (simp add: run_machine_def)
  ultimately show ?case using run_msg_id [OF k(1)] by simp
qed

lemma header_id: "unat ((x + of_nat n :: u32) AND 7) = (unat x + n) mod 8"
proof -
  have "(7 :: u32) = mask 3" by (simp add: mask_eq_exp_minus_1)
  then have "unat ((x + of_nat n) AND 7) = unat (take_bit 3 (x + of_nat n))"
    by (simp add: take_bit_eq_mask)
  also have "\<dots> = unat (x + of_nat n) mod 8"
    by (simp only: unsigned_take_bit_eq) (simp add: take_bit_eq_mod)
  also have "unat (x + of_nat n) = (unat x + n) mod 2 ^ 32"
    by (simp add: unat_word_ariths unat_of_nat mod_add_right_eq)
  also have "(unat x + n) mod 2 ^ 32 mod 8 = (unat x + n) mod 8"
    by (rule mod_mod_cancel) simp
  finally show ?thesis .
qed

lemma failed_not_confirmed:
  "ia_retryfail hw \<Longrightarrow> \<not> ia_hardsent hw \<Longrightarrow> \<not> tx_confirmed K hw c"
  by (simp add: tx_confirmed_def before_tx_ids tx_state_tcpc_alert_failed)

text \<open>
  Claim C2 (the message id advances once per confirmed transmission), as amended. A run
  of \<^verbatim>\<open>state_machine_typec\<close> confirms a transmission when its event word has
  \<^verbatim>\<open>EVENT_TX\<close> and \<^verbatim>\<open>tx_state\<close> is \<^verbatim>\<open>tx_success\<close> at the transmit check; a
  run in which the transmitter reports that its retries failed (and no hard reset sent)
  confirms nothing. Every run ends with the message id 0 when the handler it dispatches
  calls \<^verbatim>\<open>fusb_soft_reset_parameter\<close>; otherwise with the old message id, or 0 when
  \<^verbatim>\<open>tcpc_alert\<close> has executed a hard reset, plus 1 exactly when the run confirms a
  transmission. So a run that confirms nothing never increments the message id: it keeps
  it or zeroes it. Over any consecutive runs that do neither kind of reset, the
  message id advances by the number N of runs that confirm a transmission, and the 3-bit
  id that goes into the header, \<^verbatim>\<open>msg_id & 7\<close>, by N modulo 8.
\<close>

theorem msg_id_per_confirmed_send:
  assumes "kept_runs K hws c"
  shows "msg_id (run_machine K hws c) = msg_id c + of_nat (confirmed_sends K hws c) \<and>
         unat (msg_id (run_machine K hws c) AND 7) =
           (unat (msg_id c) + confirmed_sends K hws c) mod 8 \<and>
         (ia_retryfail hw \<and> \<not> ia_hardsent hw \<longrightarrow> \<not> tx_confirmed K hw d) \<and>
         msg_id (state_machine_typec K hw d) =
           (if soft_reset_run K hw d then 0
            else (if hard_reset_alert hw d then 0 else msg_id d) +
                 (if tx_confirmed K hw d then 1 else 0)) \<and>
         (\<not> tx_confirmed K hw d \<longrightarrow>
            msg_id (state_machine_typec K hw d) = msg_id d \<or>
            msg_id (state_machine_typec K hw d) = 0)"
proof -
  from assms have r: "msg_id (run_machine K hws c) =
      msg_id c + of_nat (confirmed_sends K hws c)"
    by (rule runs_msg_id)
  then have h: "unat (msg_id (run_machine K hws c) AND 7) =
      (unat (msg_id c) + confirmed_sends K hws c) mod 8"
    by (simp only: header_id)
  have f: "ia_retryfail hw \<and> \<not> ia_hardsent hw \<longrightarrow> \<not> tx_confirmed K hw d"
    using failed_not_confirmed [of hw K d] by blast
  note a = run_msg_id_exact [of K hw d]
  have n: "\<not> tx_confirmed K hw d \<longrightarrow>
      msg_id (state_machine_typec K hw d) = msg_id d \<or>
      msg_id (state_machine_typec K hw d) = 0"
    unfolding a by simp
  from r h f n a show ?thesis by blast
qed

theorem msg_id_per_confirmed_send_witness:
  "confirmed_sends hdr_example (replicate 9 hw_txsent @ [hw_txfail])
     (pd_chip policy_snk_ready 0 0) = 9 \<and>
   msg_id (run_machine hdr_example (replicate 9 hw_txsent @ [hw_txfail])
     (pd_chip policy_snk_ready 0 0)) = 9 \<and>
   unat (msg_id (run_machine hdr_example (replicate 9 hw_txsent @ [hw_txfail])
     (pd_chip policy_snk_ready 0 0)) AND 7) = 1"
proof -
  have k: "kept_runs hdr_example (replicate 9 hw_txsent @ [hw_txfail])
      (pd_chip policy_snk_ready 0 0)"
    by code_simp
  have n: "confirmed_sends hdr_example (replicate 9 hw_txsent @ [hw_txfail])
      (pd_chip policy_snk_ready 0 0) = 9"
    "msg_id (pd_chip policy_snk_ready 0 0) = 0"
    by code_simp+
  from msg_id_per_confirmed_send [OF k] n show ?thesis by simp
qed

text \<open>
  The claim as worded fails in a run whose handler resets the protocol parameters: the
  source that is sending the Accept of a soft reset has message id 3; the run in which the
  transmitter reports the Accept sent confirms the transmission, and ends with message
  id 0.
\<close>

theorem msg_id_per_confirmed_send_counterexample:
  "tx_confirmed hdr_example hw_txsent src_accepting_softreset \<and>
   msg_id src_accepting_softreset = 3 \<and>
   msg_id (state_machine_typec hdr_example hw_txsent src_accepting_softreset) = 0"
  by code_simp

end
